theory Spec2Isabelle
  imports Complex_Main "HOL-Library.Monad_Syntax"
begin

section \<open>Conventions of the embedding\<close>

text \<open>
  The Python sources under \<^verbatim>\<open>src/server/ai_models/core\<close> are embedded function by
  function. Python floats are modelled by the exact type \<^typ>\<open>real\<close>; the rounding of doubles
  is written out where a claim reads a rounded value (the thresholds of the advanced
  detector, see \<open>float64\<close>), and elsewhere a comparison whose operands differ by a rounding
  error only can come out differently in the code. Python's unbounded
  \<^verbatim>\<open>int\<close> by \<^typ>\<open>nat\<close> or \<^typ>\<open>int\<close>, a dictionary read with \<^verbatim>\<open>.get(key, default)\<close>
  by a record whose fields are options (\<open>None\<close>: the key is absent), and an exception by the
  result \<open>None\<close> of an option-valued function. A method that mutates \<^verbatim>\<open>self\<close> takes the
  object's state as a record and returns the new one. Several classes use the same method
  names, so every definition carries a prefix for its class:
  \<^item> \<open>phq9_\<close>: \<^verbatim>\<open>PHQ9Assessor\<close> (phq9_assessor.py),
  \<^item> \<open>tfa_\<close>: \<^verbatim>\<open>TemporalFeatureAnalyzer\<close> (temporal_analyzer.py),
  \<^item> \<open>med_\<close>: \<^verbatim>\<open>MedicalGradeClinicalAssessor\<close> (clinical_assessor_medical.py),
  \<^item> \<open>ged_\<close>: \<^verbatim>\<open>GenuineEmotionDetector\<close> (genuine_emotion_detector.py),
  \<^item> \<open>er_\<close>: \<^verbatim>\<open>EmotionRecognizer\<close> (emotion_recognizer.py),
  \<^item> \<open>aud_\<close>: \<^verbatim>\<open>AUDetector\<close> (au_detector.py),
  \<^item> \<open>adv_\<close>: \<^verbatim>\<open>AdvancedAUDetector\<close> (au_detector_advanced.py).
\<close>

subsection \<open>Bounded histories and numpy helpers\<close>

text \<open>\<^verbatim>\<open>collections.deque(maxlen=n).append(x)\<close>: the oldest entries fall out on the left.\<close>

definition deque_append :: "nat \<Rightarrow> 'a list \<Rightarrow> 'a \<Rightarrow> 'a list" where
  "deque_append maxlen xs x = (let ys = xs @ [x] in drop (length ys - maxlen) ys)"

text \<open>\<^verbatim>\<open>list(xs)[-n:]\<close> for a positive \<open>n\<close>: the last \<open>n\<close> entries, or all of them.\<close>

definition last_n :: "nat \<Rightarrow> 'a list \<Rightarrow> 'a list" where
  "last_n n xs = drop (length xs - n) xs"

text \<open>\<^verbatim>\<open>sum(1 for r in xs if p(r))\<close>.\<close>

definition count_where :: "('a \<Rightarrow> bool) \<Rightarrow> 'a list \<Rightarrow> nat" where
  "count_where p xs = length (filter p xs)"

text \<open>\<^verbatim>\<open>np.mean\<close> of a non-empty list (the callers guard the empty case).\<close>

definition np_mean :: "real list \<Rightarrow> real" where
  "np_mean xs = sum_list xs / real (length xs)"

text \<open>\<^verbatim>\<open>np.var\<close>: the population variance.\<close>

definition np_var :: "real list \<Rightarrow> real" where
  "np_var xs = np_mean (map (\<lambda>x. (x - np_mean xs)\<^sup>2) xs)"

text \<open>\<^verbatim>\<open>np.clip(x, lo, hi)\<close>.\<close>

definition np_clip :: "real \<Rightarrow> real \<Rightarrow> real \<Rightarrow> real" where
  "np_clip x lo hi = min (max x lo) hi"

text \<open>
  \<^verbatim>\<open>np.polyfit(np.arange(n), ys, 1)[0]\<close>: the least-squares slope of \<open>ys\<close> against the
  indices \<open>0, 1, \<dots>, n - 1\<close>, in closed form.
\<close>

definition polyfit_slope :: "real list \<Rightarrow> real" where
  "polyfit_slope ys =
     (let n = real (length ys);
          xs = map real [0..<length ys];
          sx = sum_list xs;
          sy = sum_list ys;
          sxy = sum_list (map (\<lambda>(x, y). x * y) (zip xs ys));
          sxx = sum_list (map (\<lambda>x. x * x) xs)
      in (n * sxy - sx * sy) / (n * sxx - sx * sx))"

subsection \<open>Doubles\<close>

text \<open>
  Round to nearest, ties to even: the integer nearest to \<open>m\<close>, the even one of the two when
  \<open>m\<close> lies half way.
\<close>

definition rne :: "real \<Rightarrow> int" where
  "rne m =
     (let f = \<lfloor>m\<rfloor>
      in if m - of_int f < 1 / 2 then f
         else if m - of_int f > 1 / 2 then f + 1
         else if even f then f else f + 1)"

text \<open>
  The double that a float literal or the result of a float operation is: the real number
  rounded to a significand of 53 bits, to nearest, ties to even. The exponent is not
  bounded, so \<open>float64\<close> is the rounding of IEEE 754 binary64 for magnitudes between
  \<^verbatim>\<open>2**-1022\<close> and \<^verbatim>\<open>2**1024\<close>; it is used for the thresholds of the advanced detector,
  which lie between 0.01 and 1.
\<close>

definition float64 :: "real \<Rightarrow> real" where
  "float64 x =
     (if x = 0 then 0
      else
        let e = \<lfloor>log 2 \<bar>x\<bar>\<rfloor>;
            q = 2 powr (of_int e - 52)
        in sgn x * of_int (rne (\<bar>x\<bar> / q)) * q)"

section \<open>PHQ9Assessor (phq9_assessor.py)\<close>

subsection \<open>Observation data\<close>

text \<open>
  One entry of \<^verbatim>\<open>emotion_history\<close>: the caller's dictionary plus the time stamp that
  \<^verbatim>\<open>update\<close> adds. Only the keys the assessor reads are kept.
\<close>

record phq9_emotion =
  pe_emotion :: "string option"
  pe_confidence :: "real option"
  pe_timestamp :: real

record phq9_au =
  pa_micro_expressions :: "string list option"
  pa_au_activations :: "(string \<times> bool) list option"
  pa_timestamp :: real

record phq9_eye =
  py_ear :: "real option"
  py_blink :: "bool option"
  py_timestamp :: real

record phq9_temporal =
  pt_emotion_change_rate :: "real option"
  pt_micro_expression_rate :: "real option"
  pt_timestamp :: real

text \<open>
  The recommendation texts are Chinese sentences; they are kept as tokens: the \<open>k\<close>-th
  sentence of the block for a severity, and the three symptom-specific sentences.
\<close>

datatype phq9_recommendation =
  Rec_severity string nat
  | Rec_sleep
  | Rec_fatigue
  | Rec_suicidal

record phq9_assessment =
  phq9_total_score :: nat
  phq9_severity :: string
  phq9_items :: "(string \<times> nat) list"
  clinical_recommendation :: "phq9_recommendation list"
  phq9_confidence :: real
  observation_frames :: nat

datatype phq9_result = Insufficient_data | Assessment phq9_assessment

record phq9_state =
  observation_window :: nat
  emotion_history :: "phq9_emotion list"
  au_history :: "phq9_au list"
  eye_history :: "phq9_eye list"
  temporal_features :: "phq9_temporal list"
  assessment_history :: "phq9_assessment list"

definition phq9_init :: "nat \<Rightarrow> phq9_state" where
  "phq9_init window =
     \<lparr>observation_window = window, emotion_history = [], au_history = [], eye_history = [],
      temporal_features = [], assessment_history = []\<rparr>"

text \<open>
  \<^verbatim>\<open>update\<close>: an argument that is \<^verbatim>\<open>None\<close> or an empty dictionary is skipped (\<open>None\<close>
  here); \<open>now\<close> is the value of \<^verbatim>\<open>time.time()\<close>, already stored in the entries passed.
\<close>

definition phq9_update ::
  "phq9_state \<Rightarrow> phq9_emotion option \<Rightarrow> phq9_au option \<Rightarrow> phq9_eye option \<Rightarrow>
   phq9_temporal option \<Rightarrow> phq9_state" where
  "phq9_update s emotion_data au_data eye_data temporal_data =
     (let s1 = (case emotion_data of None \<Rightarrow> s
                | Some e \<Rightarrow> s\<lparr>emotion_history :=
                    deque_append (observation_window s) (emotion_history s) e\<rparr>);
          s2 = (case au_data of None \<Rightarrow> s1
                | Some a \<Rightarrow> s1\<lparr>au_history :=
                    deque_append (observation_window s1) (au_history s1) a\<rparr>);
          s3 = (case eye_data of None \<Rightarrow> s2
                | Some y \<Rightarrow> s2\<lparr>eye_history :=
                    deque_append (observation_window s2) (eye_history s2) y\<rparr>)
      in (case temporal_data of None \<Rightarrow> s3
          | Some t \<Rightarrow> s3\<lparr>temporal_features :=
              deque_append (observation_window s3) (temporal_features s3) t\<rparr>))"

subsection \<open>The nine items\<close>

text \<open>
  The items that divide by \<^verbatim>\<open>len(self.emotion_history)\<close> raise ZeroDivisionError on an
  empty history: the result \<open>None\<close>.
\<close>

definition phq9_assess_anhedonia :: "phq9_state \<Rightarrow> nat option" where
  "phq9_assess_anhedonia s =
     (if emotion_history s = [] then None
      else
        let happy_count = count_where (\<lambda>r. pe_emotion r = Some ''happy'') (emotion_history s);
            happy_ratio = real happy_count / real (length (emotion_history s));
            genuine_smile_count =
              count_where (\<lambda>r. ''genuine_smile'' \<in> set (case pa_micro_expressions r of
                                   None \<Rightarrow> [] | Some ms \<Rightarrow> ms)) (au_history s);
            smile_ratio = (if au_history s \<noteq> []
                           then real genuine_smile_count / real (length (au_history s))
                           else 0)
        in Some (if happy_ratio < 0.05 \<and> smile_ratio < 0.02 then 3
                 else if happy_ratio < 0.10 \<and> smile_ratio < 0.05 then 2
                 else if happy_ratio < 0.15 \<and> smile_ratio < 0.10 then 1
                 else 0))"

definition phq9_assess_depressed_mood :: "phq9_state \<Rightarrow> nat option" where
  "phq9_assess_depressed_mood s =
     (if emotion_history s = [] then None
      else
        let sad_count = count_where (\<lambda>r. pe_emotion r = Some ''sad'') (emotion_history s);
            sad_ratio = real sad_count / real (length (emotion_history s));
            negative_emotions = [''sad'', ''angry'', ''fear'', ''disgust''];
            negative_count =
              count_where (\<lambda>r. case pe_emotion r of None \<Rightarrow> False
                                | Some e \<Rightarrow> e \<in> set negative_emotions) (emotion_history s);
            negative_ratio = real negative_count / real (length (emotion_history s))
        in Some (if sad_ratio > 0.40 \<or> negative_ratio > 0.60 then 3
                 else if sad_ratio > 0.25 \<or> negative_ratio > 0.45 then 2
                 else if sad_ratio > 0.15 \<or> negative_ratio > 0.30 then 1
                 else 0))"

text \<open>The blink rate per minute that items 3 and 7 compute from the eye history.\<close>

definition phq9_blink_rate :: "phq9_eye list \<Rightarrow> real" where
  "phq9_blink_rate eyes =
     (let blink_count = count_where (\<lambda>r. py_blink r = Some True) eyes;
          duration_minutes = (py_timestamp (last eyes) - py_timestamp (hd eyes)) / 60
      in if duration_minutes > 0 then real blink_count / duration_minutes else 20)"

definition phq9_assess_sleep_problems :: "phq9_state \<Rightarrow> nat" where
  "phq9_assess_sleep_problems s =
     (if eye_history s = [] then 0
      else
        let low_ear_count =
              count_where (\<lambda>r. (case py_ear r of None \<Rightarrow> 1 | Some e \<Rightarrow> e) < 0.18)
                (eye_history s);
            fatigue_ratio = real low_ear_count / real (length (eye_history s));
            blink_rate = phq9_blink_rate (eye_history s)
        in if fatigue_ratio > 0.40 \<or> blink_rate < 10 \<or> blink_rate > 45 then 3
           else if fatigue_ratio > 0.30 \<or> blink_rate < 12 \<or> blink_rate > 40 then 2
           else if fatigue_ratio > 0.20 \<or> blink_rate < 15 \<or> blink_rate > 35 then 1
           else 0)"

definition phq9_assess_fatigue :: "phq9_state \<Rightarrow> nat" where
  "phq9_assess_fatigue s =
     (let avg_activations =
            (if au_history s \<noteq> []
             then real (sum_list (map (\<lambda>r. count_where snd
                          (case pa_au_activations r of None \<Rightarrow> [] | Some d \<Rightarrow> d))
                        (au_history s)))
                  / real (length (au_history s))
             else 2.0);
          change_rate =
            (if temporal_features s \<noteq> []
             then (case pt_emotion_change_rate (last (temporal_features s)) of
                     None \<Rightarrow> 0.2 | Some c \<Rightarrow> c)
             else 0.2)
      in if avg_activations < 0.8 \<and> change_rate < 0.05 then 3
         else if avg_activations < 1.2 \<and> change_rate < 0.10 then 2
         else if avg_activations < 1.5 \<and> change_rate < 0.15 then 1
         else 0)"

definition phq9_assess_appetite_change :: "phq9_state \<Rightarrow> nat" where
  "phq9_assess_appetite_change s = 0"

text \<open>\<^verbatim>\<open>au_act.get('AU1') and au_act.get('AU4')\<close>: both keys present and true.\<close>

definition phq9_assess_guilt :: "phq9_state \<Rightarrow> nat" where
  "phq9_assess_guilt s =
     (let guilt_expression_count =
            count_where (\<lambda>r. let au_act = map_of (case pa_au_activations r of
                                                  None \<Rightarrow> [] | Some d \<Rightarrow> d)
                              in au_act ''AU1'' = Some True \<and> au_act ''AU4'' = Some True)
              (au_history s);
          guilt_ratio = (if au_history s \<noteq> []
                         then real guilt_expression_count / real (length (au_history s))
                         else 0)
      in if guilt_ratio > 0.25 then 3
         else if guilt_ratio > 0.15 then 2
         else if guilt_ratio > 0.08 then 1
         else 0)"

definition phq9_assess_concentration :: "phq9_state \<Rightarrow> nat" where
  "phq9_assess_concentration s =
     (if eye_history s = [] then 0
      else
        let blink_rate = phq9_blink_rate (eye_history s)
        in if blink_rate > 50 then 3
           else if blink_rate > 42 then 2
           else if blink_rate > 35 then 1
           else 0)"

definition phq9_assess_psychomotor :: "phq9_state \<Rightarrow> nat" where
  "phq9_assess_psychomotor s =
     (let change_rate =
            (if temporal_features s \<noteq> []
             then (case pt_emotion_change_rate (last (temporal_features s)) of
                     None \<Rightarrow> 0.2 | Some c \<Rightarrow> c)
             else 0.2);
          micro_expr_rate =
            (if temporal_features s \<noteq> []
             then (case pt_micro_expression_rate (last (temporal_features s)) of
                     None \<Rightarrow> 0.2 | Some c \<Rightarrow> c)
             else 0.2)
      in if change_rate < 0.05 \<and> micro_expr_rate < 0.05 then 3
         else if change_rate < 0.10 \<and> micro_expr_rate < 0.10 then 2
         else if change_rate < 0.15 \<and> micro_expr_rate < 0.15 then 1
         else 0)"

definition phq9_assess_suicidal_ideation :: "phq9_state \<Rightarrow> nat option" where
  "phq9_assess_suicidal_ideation s =
     (if emotion_history s = [] then None
      else
        let extreme_sad_count =
              count_where (\<lambda>r. pe_emotion r = Some ''sad'' \<and>
                                (case pe_confidence r of None \<Rightarrow> 0 | Some c \<Rightarrow> c) > 0.9)
                (emotion_history s);
            extreme_sad_ratio = real extreme_sad_count / real (length (emotion_history s))
        in Some (if extreme_sad_ratio > 0.60 then 1 else 0))"

subsection \<open>Severity, recommendations, confidence\<close>

definition phq9_classify_severity :: "nat \<Rightarrow> string" where
  "phq9_classify_severity total_score =
     (if total_score \<le> 4 then ''none''
      else if total_score \<le> 9 then ''mild''
      else if total_score \<le> 14 then ''moderate''
      else if total_score \<le> 19 then ''moderately_severe''
      else ''severe'')"

definition items_get :: "(string \<times> nat) list \<Rightarrow> string \<Rightarrow> nat" where
  "items_get items k = (case map_of items k of None \<Rightarrow> 0 | Some v \<Rightarrow> v)"

definition phq9_generate_clinical_recommendation ::
  "nat \<Rightarrow> string \<Rightarrow> (string \<times> nat) list \<Rightarrow> phq9_recommendation list" where
  "phq9_generate_clinical_recommendation total_score severity items =
     (if severity = ''none'' then map (Rec_severity ''none'') [1, 2]
      else if severity = ''mild'' then map (Rec_severity ''mild'') [1, 2, 3, 4, 5]
      else if severity = ''moderate'' then map (Rec_severity ''moderate'') [1, 2, 3, 4, 5]
      else if severity = ''moderately_severe''
        then map (Rec_severity ''moderately_severe'') [1, 2, 3, 4, 5]
      else map (Rec_severity ''severe'') [1, 2, 3, 4, 5, 6])
     @ (if items_get items ''PHQ3'' \<ge> 2 then [Rec_sleep] else [])
     @ (if items_get items ''PHQ4'' \<ge> 2 then [Rec_fatigue] else [])
     @ (if items_get items ''PHQ9'' \<ge> 1 then [Rec_suicidal] else [])"

definition phq9_calculate_confidence :: "phq9_state \<Rightarrow> real" where
  "phq9_calculate_confidence s =
     (let data_frames = length (emotion_history s);
          data_factor =
            (if data_frames < 300 then real data_frames / 300
             else if data_frames < 1800
               then 0.5 + (real data_frames - 300) / 1500 * 0.3
             else 0.8 + min ((real data_frames - 1800) / 1800 * 0.2) 0.2);
          quality_factor =
            (if emotion_history s \<noteq> []
             then np_mean (map (\<lambda>r. case pe_confidence r of None \<Rightarrow> 0.5 | Some c \<Rightarrow> c)
                             (emotion_history s))
             else 0.5)
      in data_factor * 0.6 + quality_factor * 0.4)"

subsection \<open>The assessment\<close>

text \<open>
  \<^verbatim>\<open>assess\<close>: the new state (the assessment is appended to \<^verbatim>\<open>assessment_history\<close>) and
  the returned dictionary; \<open>None\<close> when an item raises. The ISO time stamp of the result is
  left out.
\<close>

definition phq9_assess :: "phq9_state \<Rightarrow> (phq9_state \<times> phq9_result) option" where
  "phq9_assess s =
     (if length (emotion_history s) < 300 then Some (s, Insufficient_data)
      else do {
        i1 \<leftarrow> phq9_assess_anhedonia s;
        i2 \<leftarrow> phq9_assess_depressed_mood s;
        i9 \<leftarrow> phq9_assess_suicidal_ideation s;
        let items = [(''PHQ1'', i1), (''PHQ2'', i2),
                     (''PHQ3'', phq9_assess_sleep_problems s),
                     (''PHQ4'', phq9_assess_fatigue s),
                     (''PHQ5'', phq9_assess_appetite_change s),
                     (''PHQ6'', phq9_assess_guilt s),
                     (''PHQ7'', phq9_assess_concentration s),
                     (''PHQ8'', phq9_assess_psychomotor s),
                     (''PHQ9'', i9)];
        let total_score = sum_list (map snd items);
        let severity = phq9_classify_severity total_score;
        let assessment =
              \<lparr>phq9_total_score = total_score, phq9_severity = severity,
               phq9_items = items,
               clinical_recommendation =
                 phq9_generate_clinical_recommendation total_score severity items,
               phq9_confidence = phq9_calculate_confidence s,
               observation_frames = length (emotion_history s)\<rparr>;
        Some (s\<lparr>assessment_history := assessment_history s @ [assessment]\<rparr>,
              Assessment assessment)
      })"

section \<open>TemporalFeatureAnalyzer (temporal_analyzer.py)\<close>

record tfa_entry =
  te_emotion :: string
  te_confidence :: real
  te_timestamp :: real

record tfa_au_entry =
  ta_au_activations :: "(string \<times> bool) list"
  ta_timestamp :: real

record tfa_state =
  window_size :: int
  short_window :: int
  long_window :: nat
  tfa_emotion_history :: "tfa_entry list"
  tfa_au_history :: "tfa_au_entry list"
  confidence_history :: "real list"

definition tfa_init :: "int \<Rightarrow> int \<Rightarrow> nat \<Rightarrow> tfa_state" where
  "tfa_init window short long =
     \<lparr>window_size = window, short_window = short, long_window = long,
      tfa_emotion_history = [], tfa_au_history = [], confidence_history = []\<rparr>"

text \<open>\<^verbatim>\<open>self.emotion_polarity.get(emotion, 0)\<close>.\<close>

definition emotion_polarity :: "string \<Rightarrow> real" where
  "emotion_polarity e =
     (case map_of [(''happy'', 1.0), (''surprise'', 0.5), (''neutral'', 0.0),
                   (''fear'', - 0.3), (''disgust'', - 0.5), (''angry'', - 0.7),
                   (''sad'', - 1.0)] e of
        None \<Rightarrow> 0 | Some v \<Rightarrow> v)"

text \<open>
  \<^verbatim>\<open>update\<close>, with the time stamp given (the caller's, or \<^verbatim>\<open>time.time()\<close>); the AU
  dictionary is stored when it is given and not empty.
\<close>

definition tfa_update ::
  "tfa_state \<Rightarrow> string \<Rightarrow> real \<Rightarrow> (string \<times> bool) list option \<Rightarrow> real \<Rightarrow> tfa_state" where
  "tfa_update s emotion conf au_activations timestamp =
     (let s1 = s\<lparr>tfa_emotion_history :=
                  deque_append (long_window s) (tfa_emotion_history s)
                    \<lparr>te_emotion = emotion, te_confidence = conf, te_timestamp = timestamp\<rparr>\<rparr>;
          s2 = (case au_activations of
                  None \<Rightarrow> s1
                | Some d \<Rightarrow>
                    if d = [] then s1
                    else s1\<lparr>tfa_au_history :=
                           deque_append (long_window s1) (tfa_au_history s1)
                             \<lparr>ta_au_activations = d, ta_timestamp = timestamp\<rparr>\<rparr>)
      in s2\<lparr>confidence_history :=
              deque_append (long_window s2) (confidence_history s2) conf\<rparr>)"

definition tfa_calculate_change_rate :: "tfa_state \<Rightarrow> real" where
  "tfa_calculate_change_rate s =
     (let h = tfa_emotion_history s in
      if length h < 2 then 0
      else
        let changes = count_where (\<lambda>i. te_emotion (h ! i) \<noteq> te_emotion (h ! (i - 1)))
                        [1..<length h]
        in real changes / real (length h - 1))"

record tfa_segment =
  seg_emotion :: string
  seg_duration :: nat
  seg_start_time :: real
  seg_end_time :: real

text \<open>
  One pass of the segmentation loop at index \<open>i\<close>; the loop state is the current emotion,
  the start index of the running segment and the segments closed so far.
\<close>

definition tfa_segment_step ::
  "tfa_entry list \<Rightarrow> nat \<Rightarrow> string \<times> nat \<times> tfa_segment list \<Rightarrow>
   string \<times> nat \<times> tfa_segment list" where
  "tfa_segment_step h i st =
     (case st of (current_emotion, start_idx, segments) \<Rightarrow>
        if te_emotion (h ! i) \<noteq> current_emotion then
          let end_idx = i - 1;
              duration = end_idx - start_idx + 1
          in (te_emotion (h ! i), i,
              segments @ [\<lparr>seg_emotion = current_emotion, seg_duration = duration,
                            seg_start_time = te_timestamp (h ! start_idx),
                            seg_end_time = te_timestamp (h ! end_idx)\<rparr>])
        else (current_emotion, start_idx, segments))"

record tfa_duration_stats =
  avg_duration :: real
  positive_duration :: real
  negative_duration :: real
  ds_segments :: "tfa_segment list"

definition tfa_calculate_duration_stats :: "tfa_state \<Rightarrow> tfa_duration_stats" where
  "tfa_calculate_duration_stats s =
     (let h = tfa_emotion_history s in
      if length h < 2 then
        \<lparr>avg_duration = 0, positive_duration = 0, negative_duration = 0, ds_segments = []\<rparr>
      else
        case fold (tfa_segment_step h) [1..<length h] (te_emotion (h ! 0), 0, []) of
          (current_emotion, start_idx, segs0) \<Rightarrow>
            let segs = (if start_idx < length h
                        then segs0 @ [\<lparr>seg_emotion = current_emotion,
                                        seg_duration = length h - start_idx,
                                        seg_start_time = te_timestamp (h ! start_idx),
                                        seg_end_time = te_timestamp (last h)\<rparr>]
                        else segs0)
            in if segs = [] then
                 \<lparr>avg_duration = 0, positive_duration = 0, negative_duration = 0,
                  ds_segments = []\<rparr>
               else
                 let positive_emotions = [''happy'', ''surprise''];
                     negative_emotions = [''sad'', ''angry'', ''fear'', ''disgust''];
                     positive_segments =
                       filter (\<lambda>g. seg_emotion g \<in> set positive_emotions) segs;
                     negative_segments =
                       filter (\<lambda>g. seg_emotion g \<in> set negative_emotions) segs
                 in \<lparr>avg_duration = np_mean (map (\<lambda>g. real (seg_duration g)) segs),
                     positive_duration =
                       (if positive_segments \<noteq> []
                        then np_mean (map (\<lambda>g. real (seg_duration g)) positive_segments)
                        else 0),
                     negative_duration =
                       (if negative_segments \<noteq> []
                        then np_mean (map (\<lambda>g. real (seg_duration g)) negative_segments)
                        else 0),
                     ds_segments = segs\<rparr>)"

definition tfa_calculate_stability :: "tfa_state \<Rightarrow> real" where
  "tfa_calculate_stability s =
     (let h = tfa_emotion_history s in
      if length h < 2 then 0
      else
        let polarity_values = map (\<lambda>r. emotion_polarity (te_emotion r)) h;
            variance = np_var polarity_values
        in 1 / (1 + variance))"

definition tfa_calculate_trend :: "tfa_state \<Rightarrow> int \<Rightarrow> real" where
  "tfa_calculate_trend s window0 =
     (let h = tfa_emotion_history s;
          window = (if int (length h) < window0 then int (length h) else window0)
      in if window < 2 then 0
         else
           let recent_emotions = last_n (nat window) h;
               polarity_values = map (\<lambda>r. emotion_polarity (te_emotion r)) recent_emotions
           in polyfit_slope polarity_values)"

record tfa_micro_stats =
  micro_count :: nat
  micro_rate :: real
  tm_micro_expressions :: "tfa_segment list"

definition tfa_analyze_micro_expressions :: "tfa_state \<Rightarrow> tfa_micro_stats" where
  "tfa_analyze_micro_expressions s =
     (if length (tfa_emotion_history s) < 2 then
        \<lparr>micro_count = 0, micro_rate = 0, tm_micro_expressions = []\<rparr>
      else
        let segs = ds_segments (tfa_calculate_duration_stats s);
            micro = filter (\<lambda>g. seg_duration g < 90) segs;
            cnt = length micro;
            rate = (if segs \<noteq> [] then real cnt / real (length segs) else 0)
        in \<lparr>micro_count = cnt, micro_rate = rate, tm_micro_expressions = micro\<rparr>)"

record tfa_features =
  emotion_change_rate :: real
  expression_duration :: real
  tf_positive_duration :: real
  tf_negative_duration :: real
  emotion_stability :: real
  short_term_trend :: real
  long_term_trend :: real
  micro_expression_count :: nat
  micro_expression_rate :: real

datatype tfa_result = Tfa_insufficient_data | Tfa_features tfa_features

definition tfa_analyze :: "tfa_state \<Rightarrow> tfa_result" where
  "tfa_analyze s =
     (if int (length (tfa_emotion_history s)) < short_window s then Tfa_insufficient_data
      else
        let emotion_change_rate' = tfa_calculate_change_rate s;
            duration_stats = tfa_calculate_duration_stats s;
            emotion_stability' = tfa_calculate_stability s;
            short_term_trend' = tfa_calculate_trend s (short_window s);
            long_term_trend' =
              tfa_calculate_trend s
                (min (int (long_window s)) (int (length (tfa_emotion_history s))));
            micro_expression_stats = tfa_analyze_micro_expressions s
        in Tfa_features
             \<lparr>emotion_change_rate = emotion_change_rate',
              expression_duration = avg_duration duration_stats,
              tf_positive_duration = positive_duration duration_stats,
              tf_negative_duration = negative_duration duration_stats,
              emotion_stability = emotion_stability',
              short_term_trend = short_term_trend',
              long_term_trend = long_term_trend',
              micro_expression_count = micro_count micro_expression_stats,
              micro_expression_rate = micro_rate micro_expression_stats\<rparr>)"

section \<open>MedicalGradeClinicalAssessor (clinical_assessor_medical.py)\<close>

subsection \<open>Inputs of one assessment\<close>

record med_emotion_result =
  mr_emotion :: "string option"
  mr_confidence :: "real option"

record med_au_data =
  ma_intensity :: "real option"
  ma_active :: "bool option"

record med_au_result =
  mu_aus :: "(string \<times> med_au_data) list option"
  mu_depression_score :: "real option"

record med_eye_analysis =
  my_fatigue :: "real option"
  my_blink_rate :: "real option"
  my_gaze_duration :: "real option"
  my_blink_irregularity :: "real option"

text \<open>
  The genuineness result: \<open>mg_duchenne_smile\<close> is
  \<^verbatim>\<open>genuineness_result.get('indicators', {}).get('duchenne_smile')\<close>.
\<close>

record med_genuineness =
  mg_duchenne_smile :: "bool option"
  mg_is_genuine :: "bool option"
  mg_fake_probability :: "real option"

record med_micro_expression =
  mm_emotion :: "string option"

subsection \<open>Class constants\<close>

definition PHQ9_SYMPTOMS :: "(string \<times> real) list" where
  "PHQ9_SYMPTOMS =
     [(''anhedonia'', 1.2), (''depressed_mood'', 1.2), (''sleep_problems'', 1.0),
      (''fatigue'', 1.0), (''appetite_changes'', 0.8), (''low_self_worth'', 1.1),
      (''concentration_problems'', 0.9), (''psychomotor_changes'', 1.0),
      (''suicidal_thoughts'', 1.5)]"

text \<open>
  \<^verbatim>\<open>self.PHQ9_SYMPTOMS[s]['weight']\<close>; the scores are built with the nine keys of the
  table, so the lookup never misses.
\<close>

definition med_symptom_weight :: "string \<Rightarrow> real" where
  "med_symptom_weight s = (case map_of PHQ9_SYMPTOMS s of None \<Rightarrow> 0 | Some w \<Rightarrow> w)"

definition RISK_LEVELS :: "(string \<times> int \<times> int) list" where
  "RISK_LEVELS =
     [(''minimal'', 0, 4), (''mild'', 5, 9), (''moderate'', 10, 14),
      (''moderately_severe'', 15, 19), (''severe'', 20, 27)]"

subsection \<open>Results\<close>

record med_phq9_scores =
  ms_scores :: "(string \<times> nat) list"
  ms_total :: int
  ms_severity :: string
  ms_risk_level :: string

record med_concealed =
  mc_detected :: bool
  mc_inconsistency_score :: real
  mc_macro_emotion :: string
  mc_negative_micro_count :: nat
  mc_risk :: string

text \<open>The recommendation sentences (Chinese text in the source) as tokens.\<close>

datatype med_recommendation =
  Med_rec_minimal
  | Med_rec_mild
  | Med_rec_moderate
  | Med_rec_severe
  | Med_rec_hotline
  | Med_rec_worsening
  | Med_rec_improving
  | Med_rec_concealed
  | Med_rec_suicide_alert

record med_assessment =
  md_timestamp :: real
  md_phq9_scores :: med_phq9_scores
  md_total_score :: int
  md_severity :: string
  md_risk_level :: string
  md_expression_entropy :: real
  md_depression_probability :: real
  md_concealed_depression :: med_concealed
  md_trend :: string
  md_recommendations :: "med_recommendation list"

record med_state =
  history_length :: nat
  med_emotion_history :: "med_emotion_result list"
  med_au_history :: "med_au_result list"
  med_eye_history :: "med_eye_analysis list"
  med_genuineness_history :: "med_genuineness list"
  med_timestamp_history :: "real list"
  phq9_history :: "med_assessment list"
  trend_window :: nat

definition med_init :: "nat \<Rightarrow> med_state" where
  "med_init n =
     \<lparr>history_length = n, med_emotion_history = [], med_au_history = [],
      med_eye_history = [], med_genuineness_history = [], med_timestamp_history = [],
      phq9_history = [], trend_window = 10\<rparr>"

subsection \<open>Readers of the AU dictionary\<close>

text \<open>\<^verbatim>\<open>au_result.get('aus', {})\<close> as an association list.\<close>

definition med_aus :: "med_au_result \<Rightarrow> (string \<times> med_au_data) list" where
  "med_aus au_result = (case mu_aus au_result of None \<Rightarrow> [] | Some d \<Rightarrow> d)"

text \<open>\<^verbatim>\<open>au_result.get('aus', {}).get(au, {}).get('intensity', 0)\<close>.\<close>

definition med_au_intensity :: "med_au_result \<Rightarrow> string \<Rightarrow> real" where
  "med_au_intensity au_result au =
     (case map_of (med_aus au_result) au of
        None \<Rightarrow> 0
      | Some d \<Rightarrow> (case ma_intensity d of None \<Rightarrow> 0 | Some i \<Rightarrow> i))"

text \<open>\<^verbatim>\<open>au_result.get('aus', {}).get(au, {}).get('active', False)\<close>.\<close>

definition med_au_active :: "med_au_result \<Rightarrow> string \<Rightarrow> bool" where
  "med_au_active au_result au =
     (case map_of (med_aus au_result) au of
        None \<Rightarrow> False
      | Some d \<Rightarrow> (case ma_active d of None \<Rightarrow> False | Some a \<Rightarrow> a))"

text \<open>
  \<^verbatim>\<open>[au for au, data in au_result.get('aus', {}).items() if data.get('active', False)]\<close>.
\<close>

definition med_active_aus :: "med_au_result \<Rightarrow> string list" where
  "med_active_aus au_result =
     map fst (filter (\<lambda>(au, d). case ma_active d of None \<Rightarrow> False | Some a \<Rightarrow> a)
                (med_aus au_result))"

definition opt_default :: "'a \<Rightarrow> 'a option \<Rightarrow> 'a" where
  "opt_default d x = (case x of None \<Rightarrow> d | Some v \<Rightarrow> v)"

subsection \<open>The symptom scores\<close>

definition med_assess_sleep_problems :: "med_eye_analysis \<Rightarrow> nat" where
  "med_assess_sleep_problems eye_analysis =
     (let fatigue = opt_default 0 (my_fatigue eye_analysis);
          score1 = (if fatigue > 0.6 then 2 else if fatigue > 0.3 then 1 else 0);
          blink_rate = opt_default 15 (my_blink_rate eye_analysis);
          score2 = (if blink_rate < 10 \<or> blink_rate > 30 then score1 + 1 else score1)
      in min 3 score2)"

definition med_assess_fatigue :: "med_eye_analysis \<Rightarrow> med_au_result \<Rightarrow> nat" where
  "med_assess_fatigue eye_analysis au_result =
     (let fatigue = opt_default 0 (my_fatigue eye_analysis);
          score1 = (if fatigue > 0.5 then 2 else if fatigue > 0.3 then 1 else 0);
          au43_intensity = med_au_intensity au_result ''AU43'';
          score2 = (if au43_intensity > 2.0 then score1 + 1 else score1)
      in min 3 score2)"

definition med_assess_self_worth :: "med_eye_analysis \<Rightarrow> med_au_result \<Rightarrow> nat" where
  "med_assess_self_worth eye_analysis au_result =
     (let gaze_duration = opt_default 1.0 (my_gaze_duration eye_analysis);
          score1 = (if gaze_duration > 3.0 \<or> gaze_duration < 0.5 then 1 else 0);
          au_depression_score = opt_default 0 (mu_depression_score au_result);
          score2 = (if au_depression_score > 0.5 then score1 + 1 else score1)
      in min 3 score2)"

definition med_assess_concentration :: "med_eye_analysis \<Rightarrow> nat" where
  "med_assess_concentration eye_analysis =
     (let gaze_duration = opt_default 1.0 (my_gaze_duration eye_analysis);
          score1 = (if gaze_duration > 3.0 then 1 else 0);
          blink_irregularity = opt_default 0 (my_blink_irregularity eye_analysis);
          score2 = (if blink_irregularity > 0.5 then score1 + 1 else score1)
      in min 3 score2)"

text \<open>Reads \<^verbatim>\<open>self.emotion_history\<close>, to which \<^verbatim>\<open>assess\<close> has added the current frame.\<close>

definition med_assess_psychomotor :: "med_state \<Rightarrow> med_au_result \<Rightarrow> nat" where
  "med_assess_psychomotor s au_result =
     (let active_aus = med_active_aus au_result;
          score1 = (if length active_aus < 3 then 1 else 0);
          score2 =
            (if length (med_emotion_history s) \<ge> 30 then
               let recent_emotions = map mr_emotion (last_n 30 (med_emotion_history s))
               in if card (set recent_emotions) \<le> 2 then score1 + 1 else score1
             else score1)
      in min 3 score2)"

definition med_assess_suicidal_risk ::
  "med_emotion_result \<Rightarrow> med_genuineness \<Rightarrow> med_au_result \<Rightarrow> nat" where
  "med_assess_suicidal_risk emotion_result genuineness_result au_result =
     (let score1 = (if mr_emotion emotion_result = Some ''sad'' \<and>
                       opt_default 0 (mr_confidence emotion_result) > 0.8
                    then 1 else 0);
          active_aus = med_active_aus au_result;
          score2 = (if length active_aus = 0 \<and> mr_emotion emotion_result = Some ''neutral''
                    then score1 + 1 else score1);
          score3 = (if \<not> opt_default True (mg_is_genuine genuineness_result) \<and>
                       opt_default 0 (mg_fake_probability genuineness_result) > 0.7
                    then score2 + 1 else score2)
      in min 3 score3)"

text \<open>\<^verbatim>\<open>int(x)\<close> on a float: truncation towards zero.\<close>

definition py_int :: "real \<Rightarrow> int" where
  "py_int x = (if x \<ge> 0 then \<lfloor>x\<rfloor> else \<lceil>x\<rceil>)"

text \<open>The first level of \<^verbatim>\<open>RISK_LEVELS\<close> whose range holds the score, else minimal.\<close>

fun med_determine_severity_loop :: "(string \<times> int \<times> int) list \<Rightarrow> int \<Rightarrow> string \<times> string" where
  "med_determine_severity_loop [] total_score = (''minimal'', ''minimal'')"
| "med_determine_severity_loop ((level, lo, hi) # rest) total_score =
     (if lo \<le> total_score \<and> total_score \<le> hi then (level, level)
      else med_determine_severity_loop rest total_score)"

definition med_determine_severity :: "int \<Rightarrow> string \<times> string" where
  "med_determine_severity total_score = med_determine_severity_loop RISK_LEVELS total_score"

definition med_calculate_phq9_scores ::
  "med_state \<Rightarrow> med_emotion_result \<Rightarrow> med_au_result \<Rightarrow> med_eye_analysis \<Rightarrow>
   med_genuineness \<Rightarrow> med_phq9_scores" where
  "med_calculate_phq9_scores s emotion_result au_result eye_analysis genuineness_result =
     (let a1 = (if mr_emotion emotion_result \<in> {Some ''sad'', Some ''neutral''} then 1 else 0);
          a2 = (if \<not> opt_default False (mg_duchenne_smile genuineness_result)
                then a1 + 1 else a1);
          au6_intensity = med_au_intensity au_result ''AU6'';
          au12_intensity = med_au_intensity au_result ''AU12'';
          anhedonia_score = (if au6_intensity < 1.5 \<and> au12_intensity < 1.5
                             then a2 + 1 else a2);
          m1 = (if mr_emotion emotion_result = Some ''sad'' then 2
                else if mr_emotion emotion_result = Some ''neutral'' then 1 else 0);
          sad_aus = [''AU1'', ''AU4'', ''AU15''];
          active_sad_aus = count_where (med_au_active au_result) sad_aus;
          mood_score = (if active_sad_aus \<ge> 2 then m1 + 1 else m1);
          scores =
            [(''anhedonia'', min 3 anhedonia_score),
             (''depressed_mood'', min 3 mood_score),
             (''sleep_problems'', med_assess_sleep_problems eye_analysis),
             (''fatigue'', med_assess_fatigue eye_analysis au_result),
             (''appetite_changes'', 0),
             (''low_self_worth'', med_assess_self_worth eye_analysis au_result),
             (''concentration_problems'', med_assess_concentration eye_analysis),
             (''psychomotor_changes'', med_assess_psychomotor s au_result),
             (''suicidal_thoughts'',
                med_assess_suicidal_risk emotion_result genuineness_result au_result)];
          weighted_total =
            sum_list (map (\<lambda>(k, v). real v * med_symptom_weight k) scores);
          max_weighted = sum_list (map (\<lambda>(k, w). 3 * w) PHQ9_SYMPTOMS);
          total_score = py_int ((weighted_total / max_weighted) * 27)
      in case med_determine_severity total_score of
           (severity, risk_level) \<Rightarrow>
             \<lparr>ms_scores = scores, ms_total = total_score, ms_severity = severity,
              ms_risk_level = risk_level\<rparr>)"

text \<open>\<^verbatim>\<open>phq9_scores[key]\<close> for one of the nine symptom keys.\<close>

definition med_score :: "med_phq9_scores \<Rightarrow> string \<Rightarrow> nat" where
  "med_score sc k = (case map_of (ms_scores sc) k of None \<Rightarrow> 0 | Some v \<Rightarrow> v)"

subsection \<open>Entropy, concealed depression, probability, trend\<close>

definition med_calculate_expression_entropy :: "med_state \<Rightarrow> real" where
  "med_calculate_expression_entropy s =
     (if length (med_emotion_history s) < 10 then 2.0
      else
        let emotions = map (\<lambda>e. opt_default ''neutral'' (mr_emotion e))
                         (med_emotion_history s);
            n = length emotions;
            probabilities = map (\<lambda>e. real (count_list emotions e) / real n)
                              (remdups emotions)
        in - sum_list (map (\<lambda>p. p * log 2 (p + 1 / 10 ^ 10)) probabilities))"

definition med_detect_concealed_depression ::
  "med_emotion_result \<Rightarrow> med_micro_expression list \<Rightarrow> med_genuineness \<Rightarrow> med_concealed" where
  "med_detect_concealed_depression emotion_result micro_expressions genuineness_result =
     (let macro_emotion = opt_default ''neutral'' (mr_emotion emotion_result);
          negative_micro_count =
            count_where (\<lambda>m. mm_emotion m \<in> {Some ''sadness'', Some ''fear'', Some ''anger''})
              micro_expressions;
          i1 = (if macro_emotion \<in> {''happiness'', ''neutral''} \<and> negative_micro_count > 0
                then 0.4 else 0.0);
          i2 = (if \<not> opt_default True (mg_is_genuine genuineness_result)
                then i1 + 0.3 else i1);
          inconsistency_score =
            i2 + opt_default 0 (mg_fake_probability genuineness_result) * 0.3;
          detected = (inconsistency_score \<ge> 0.5);
          risk = (if inconsistency_score \<ge> 0.7 then ''high''
                  else if inconsistency_score \<ge> 0.5 then ''moderate'' else ''low'')
      in \<lparr>mc_detected = detected, mc_inconsistency_score = inconsistency_score,
          mc_macro_emotion = macro_emotion, mc_negative_micro_count = negative_micro_count,
          mc_risk = risk\<rparr>)"

definition med_calculate_depression_probability ::
  "med_phq9_scores \<Rightarrow> real \<Rightarrow> med_concealed \<Rightarrow> real" where
  "med_calculate_depression_probability phq9_scores expression_entropy concealed_depression =
     (let phq9_prob = real_of_int (ms_total phq9_scores) / 27.0;
          entropy_prob = max 0.0 (min 1.0 ((2.1 - expression_entropy) / 1.0));
          concealed_prob = mc_inconsistency_score concealed_depression;
          probability = phq9_prob * 0.5 + entropy_prob * 0.3 + concealed_prob * 0.2
      in np_clip probability 0.0 1.0)"

text \<open>Reads \<^verbatim>\<open>self.phq9_history\<close> before the current assessment is appended.\<close>

definition med_analyze_trend :: "med_state \<Rightarrow> string" where
  "med_analyze_trend s =
     (if length (phq9_history s) < 2 then ''stable''
      else
        let recent = last_n (min (trend_window s) (length (phq9_history s))) (phq9_history s);
            scores = map (\<lambda>r. real_of_int (md_total_score r)) recent
        in if length scores \<ge> 3 then
             let slope = polyfit_slope scores
             in if slope > 1.0 then ''worsening''
                else if slope < - 1.0 then ''improving'' else ''stable''
           else if last scores > hd scores + 2 then ''worsening''
           else if last scores < hd scores - 2 then ''improving'' else ''stable'')"

definition med_generate_recommendations ::
  "med_phq9_scores \<Rightarrow> real \<Rightarrow> med_concealed \<Rightarrow> string \<Rightarrow> med_recommendation list" where
  "med_generate_recommendations phq9_scores depression_probability concealed_depression trend =
     (let severity = ms_severity phq9_scores in
        (if severity = ''minimal'' then [Med_rec_minimal]
         else if severity = ''mild'' then [Med_rec_mild]
         else if severity = ''moderate'' then [Med_rec_moderate]
         else if severity \<in> {''moderately_severe'', ''severe''}
           then [Med_rec_severe, Med_rec_hotline]
         else [])
        @ (if trend = ''worsening'' then [Med_rec_worsening]
           else if trend = ''improving'' then [Med_rec_improving] else [])
        @ (if mc_detected concealed_depression then [Med_rec_concealed] else [])
        @ (if med_score phq9_scores ''suicidal_thoughts'' \<ge> 1
           then [Med_rec_suicide_alert] else []))"

subsection \<open>The assessment\<close>

text \<open>\<^verbatim>\<open>assess\<close>; \<open>timestamp\<close> stands for \<^verbatim>\<open>datetime.now()\<close>.\<close>

definition med_assess ::
  "med_state \<Rightarrow> real \<Rightarrow> med_emotion_result \<Rightarrow> med_au_result \<Rightarrow> med_eye_analysis \<Rightarrow>
   med_genuineness \<Rightarrow> med_micro_expression list \<Rightarrow> med_state \<times> med_assessment" where
  "med_assess s timestamp emotion_result au_result eye_analysis genuineness_result
      micro_expressions =
     (let n = history_length s;
          s1 = s\<lparr>med_emotion_history := deque_append n (med_emotion_history s) emotion_result,
                 med_au_history := deque_append n (med_au_history s) au_result,
                 med_eye_history := deque_append n (med_eye_history s) eye_analysis,
                 med_genuineness_history :=
                   deque_append n (med_genuineness_history s) genuineness_result,
                 med_timestamp_history := deque_append n (med_timestamp_history s) timestamp\<rparr>;
          phq9_scores =
            med_calculate_phq9_scores s1 emotion_result au_result eye_analysis
              genuineness_result;
          expression_entropy = med_calculate_expression_entropy s1;
          concealed_depression =
            med_detect_concealed_depression emotion_result micro_expressions
              genuineness_result;
          depression_probability =
            med_calculate_depression_probability phq9_scores expression_entropy
              concealed_depression;
          trend = med_analyze_trend s1;
          recommendations =
            med_generate_recommendations phq9_scores depression_probability
              concealed_depression trend;
          assessment =
            \<lparr>md_timestamp = timestamp, md_phq9_scores = phq9_scores,
             md_total_score = ms_total phq9_scores, md_severity = ms_severity phq9_scores,
             md_risk_level = ms_risk_level phq9_scores,
             md_expression_entropy = expression_entropy,
             md_depression_probability = depression_probability,
             md_concealed_depression = concealed_depression, md_trend = trend,
             md_recommendations = recommendations\<rparr>
      in (s1\<lparr>phq9_history := phq9_history s1 @ [assessment]\<rparr>, assessment))"

section \<open>GenuineEmotionDetector (genuine_emotion_detector.py)\<close>

subsection \<open>Data\<close>

text \<open>One entry of \<^verbatim>\<open>au_results\<close>: a dictionary with the keys intensity and active.\<close>

record ged_au =
  ga_intensity :: "real option"
  ga_active :: "bool option"

text \<open>The values of the \<^verbatim>\<open>indicators\<close> dictionary.\<close>

datatype ind_value = IBool bool | IReal real | IStrs "string list"

text \<open>\<^verbatim>\<open>d[k] = v\<close> on a dictionary kept in insertion order.\<close>

fun dict_set :: "'k \<Rightarrow> 'v \<Rightarrow> ('k \<times> 'v) list \<Rightarrow> ('k \<times> 'v) list" where
  "dict_set k v [] = [(k, v)]"
| "dict_set k v ((k', v') # rest) =
     (if k' = k then (k, v) # rest else (k', v') # dict_set k v rest)"

text \<open>\<^verbatim>\<open>d.update(e)\<close>.\<close>

definition dict_update :: "('k \<times> 'v) list \<Rightarrow> ('k \<times> 'v) list \<Rightarrow> ('k \<times> 'v) list" where
  "dict_update d e = fold (\<lambda>(k, v). dict_set k v) e d"

record ged_result =
  gr_emotion :: string
  gr_is_genuine :: bool
  gr_confidence :: real
  gr_genuineness_score :: real
  gr_indicators :: "(string \<times> ind_value) list"
  gr_fake_probability :: real

text \<open>
  The detector's state. \<open>au_intensity_history\<close> is a dictionary with the five keys AU6,
  AU12, AU1, AU4 and AU15, made by the constructor and only read at those keys.
\<close>

record ged_state =
  ged_history_length :: nat
  onset_threshold :: real
  offset_threshold :: real
  ged_emotion_history :: "string list"
  au_intensity_history :: "string \<Rightarrow> real list"
  ged_timestamp_history :: "real list"
  current_emotion :: string
  emotion_start_time :: "real option"
  emotion_duration :: real
  genuine_count :: nat
  fake_count :: nat
  total_emotions :: nat

definition ged_init :: "nat \<Rightarrow> real \<Rightarrow> real \<Rightarrow> ged_state" where
  "ged_init n onset offset =
     \<lparr>ged_history_length = n, onset_threshold = onset, offset_threshold = offset,
      ged_emotion_history = [], au_intensity_history = (\<lambda>au. []),
      ged_timestamp_history = [], current_emotion = ''neutral'',
      emotion_start_time = None, emotion_duration = 0,
      genuine_count = 0, fake_count = 0, total_emotions = 0\<rparr>"

definition ged_tracked_aus :: "string list" where
  "ged_tracked_aus = [''AU6'', ''AU12'', ''AU1'', ''AU4'', ''AU15'']"

text \<open>\<^verbatim>\<open>self.EMOTIONS[emotion]['key_aus']\<close> for the four negative emotions.\<close>

definition ged_key_aus :: "string \<Rightarrow> string list" where
  "ged_key_aus emotion =
     (case map_of [(''happiness'', [''AU6'', ''AU12'']),
                   (''sadness'', [''AU1'', ''AU4'', ''AU15'']),
                   (''anger'', [''AU4'', ''AU7'', ''AU23'']),
                   (''fear'', [''AU1'', ''AU2'', ''AU5'', ''AU20'']),
                   (''disgust'', [''AU9'', ''AU10'']),
                   (''surprise'', [''AU1'', ''AU2'', ''AU5'', ''AU26'']),
                   (''neutral'', [])] emotion of
        None \<Rightarrow> [] | Some aus \<Rightarrow> aus)"

subsection \<open>Updating the histories\<close>

text \<open>
  The loop over the tracked AUs in \<^verbatim>\<open>analyze\<close>: an AU of \<^verbatim>\<open>au_results\<close> contributes
  \<^verbatim>\<open>au_results[au]['intensity']\<close> (KeyError, here \<open>None\<close>, when the entry has no
  intensity), an absent AU contributes 0.
\<close>

fun ged_append_intensities ::
  "nat \<Rightarrow> (string \<times> ged_au) list \<Rightarrow> string list \<Rightarrow> (string \<Rightarrow> real list) \<Rightarrow>
   (string \<Rightarrow> real list) option" where
  "ged_append_intensities n au_results [] h = Some h"
| "ged_append_intensities n au_results (au_name # rest) h =
     (case map_of au_results au_name of
        None \<Rightarrow>
          ged_append_intensities n au_results rest
            (h(au_name := deque_append n (h au_name) 0))
      | Some d \<Rightarrow>
          (case ga_intensity d of
             None \<Rightarrow> None
           | Some i \<Rightarrow>
               ged_append_intensities n au_results rest
                 (h(au_name := deque_append n (h au_name) i))))"

text \<open>
  The first two blocks of \<^verbatim>\<open>analyze\<close>: the histories are extended and the duration of
  the current emotion is updated. \<^verbatim>\<open>if self.emotion_start_time:\<close> is false for \<open>None\<close>
  and for the time 0.
\<close>

definition ged_track ::
  "ged_state \<Rightarrow> string \<Rightarrow> (string \<times> ged_au) list \<Rightarrow> real \<Rightarrow> ged_state option" where
  "ged_track s emotion au_results timestamp =
     (case ged_append_intensities (ged_history_length s) au_results ged_tracked_aus
             (au_intensity_history s) of
        None \<Rightarrow> None
      | Some h \<Rightarrow>
          let s1 = s\<lparr>ged_emotion_history :=
                       deque_append (ged_history_length s) (ged_emotion_history s) emotion,
                     ged_timestamp_history :=
                       deque_append (ged_history_length s) (ged_timestamp_history s) timestamp,
                     au_intensity_history := h\<rparr>
          in Some (if emotion \<noteq> current_emotion s1
                   then s1\<lparr>current_emotion := emotion, emotion_start_time := Some timestamp,
                           emotion_duration := 0\<rparr>
                   else (case emotion_start_time s1 of
                           None \<Rightarrow> s1
                         | Some t0 \<Rightarrow>
                             if t0 \<noteq> 0 then s1\<lparr>emotion_duration := timestamp - t0\<rparr>
                             else s1)))"

subsection \<open>Onset and offset\<close>

text \<open>\<^verbatim>\<open>np.diff\<close>.\<close>

definition np_diff :: "real list \<Rightarrow> real list" where
  "np_diff xs = map (\<lambda>(a, b). b - a) (zip xs (tl xs))"

definition ged_check_onset_naturalness :: "ged_state \<Rightarrow> string \<Rightarrow> bool" where
  "ged_check_onset_naturalness s au_name =
     (if length (au_intensity_history s au_name) < 10 then True
      else
        let recent = last_n 10 (au_intensity_history s au_name);
            changes = np_diff recent;
            max_change = (if length changes > 0 then Max (set (map abs changes)) else 0)
        in max_change < onset_threshold s)"

definition ged_check_offset_naturalness :: "ged_state \<Rightarrow> string \<Rightarrow> bool" where
  "ged_check_offset_naturalness s au_name = ged_check_onset_naturalness s au_name"

definition ged_check_temporal_consistency :: "ged_state \<Rightarrow> string \<Rightarrow> bool" where
  "ged_check_temporal_consistency s emotion =
     (if length (ged_emotion_history s) < 10 then True
      else
        let recent = last_n 10 (ged_emotion_history s);
            emotion_count = count_list recent emotion;
            consistency = real emotion_count / real (length recent)
        in consistency > 0.7)"

subsection \<open>The smile\<close>

definition ged_analyze_smile_genuineness ::
  "ged_state \<Rightarrow> (string \<times> ged_au) list \<Rightarrow> ged_result" where
  "ged_analyze_smile_genuineness s au_results =
     (let au6_active = (case map_of au_results ''AU6'' of None \<Rightarrow> False
                        | Some d \<Rightarrow> opt_default False (ga_active d));
          au12_active = (case map_of au_results ''AU12'' of None \<Rightarrow> False
                         | Some d \<Rightarrow> opt_default False (ga_active d));
          both_active = (au6_active \<and> au12_active);
          au6_intensity = (case map_of au_results ''AU6'' of None \<Rightarrow> 0
                           | Some d \<Rightarrow> opt_default 0 (ga_intensity d));
          au12_intensity = (case map_of au_results ''AU12'' of None \<Rightarrow> 0
                            | Some d \<Rightarrow> opt_default 0 (ga_intensity d));
          ratio = (if au12_intensity > 0.5
                   then au6_intensity / (au12_intensity + 1 / 10 ^ 6) else 0);
          duration_ok = (if emotion_duration s > 0
                         then 0.5 \<le> emotion_duration s \<and> emotion_duration s \<le> 4.0
                         else True);
          onset_natural = ged_check_onset_naturalness s ''AU12'';
          offset_natural = ged_check_offset_naturalness s ''AU12'';
          indicators =
            [(''duchenne_smile'', IBool both_active),
             (''au6_au12_ratio'', IReal ratio),
             (''duration_appropriate'', IBool duration_ok),
             (''duration'', IReal (emotion_duration s)),
             (''onset_natural'', IBool onset_natural),
             (''offset_natural'', IBool offset_natural)];
          g1 = (if both_active then 0.4 else if au12_active then 0.2 else 0);
          g2 = (if ratio > 0.6 then g1 + 0.3 else if ratio > 0.3 then g1 + 0.15 else g1);
          g3 = (if duration_ok then g2 + 0.1 else g2);
          g4 = (if onset_natural then g3 + 0.1 else g3);
          genuineness_score = (if offset_natural then g4 + 0.1 else g4);
          is_genuine = (genuineness_score \<ge> 0.6);
          conf = min 0.95 (genuineness_score + 0.1)
      in \<lparr>gr_emotion = ''happiness'', gr_is_genuine = is_genuine, gr_confidence = conf,
          gr_genuineness_score = genuineness_score, gr_indicators = indicators,
          gr_fake_probability = 1.0 - genuineness_score\<rparr>)"

subsection \<open>Negative emotions\<close>

text \<open>
  The loop that collects the active key AUs: \<^verbatim>\<open>au_results[au]['active']\<close> raises
  KeyError (\<open>None\<close>) when the entry has no key active.
\<close>

fun ged_active_key_aus :: "(string \<times> ged_au) list \<Rightarrow> string list \<Rightarrow> string list option" where
  "ged_active_key_aus au_results [] = Some []"
| "ged_active_key_aus au_results (au # rest) =
     (case map_of au_results au of
        None \<Rightarrow> ged_active_key_aus au_results rest
      | Some d \<Rightarrow>
          (case ga_active d of
             None \<Rightarrow> None
           | Some a \<Rightarrow>
               map_option (\<lambda>r. if a then au # r else r)
                 (ged_active_key_aus au_results rest)))"

text \<open>
  \<^verbatim>\<open>[au_results[au]['intensity'] for au in active_key_aus if au in au_results]\<close>.
\<close>

fun ged_intensities :: "(string \<times> ged_au) list \<Rightarrow> string list \<Rightarrow> real list option" where
  "ged_intensities au_results [] = Some []"
| "ged_intensities au_results (au # rest) =
     (case map_of au_results au of
        None \<Rightarrow> ged_intensities au_results rest
      | Some d \<Rightarrow>
          (case ga_intensity d of
             None \<Rightarrow> None
           | Some i \<Rightarrow> map_option (\<lambda>r. i # r) (ged_intensities au_results rest)))"

definition ged_analyze_negative_emotion_genuineness ::
  "ged_state \<Rightarrow> string \<Rightarrow> (string \<times> ged_au) list \<Rightarrow> ged_result option" where
  "ged_analyze_negative_emotion_genuineness s emotion au_results =
     (let key_aus = ged_key_aus emotion in
      case ged_active_key_aus au_results key_aus of
        None \<Rightarrow> None
      | Some active_key_aus \<Rightarrow>
          (case ged_intensities au_results active_key_aus of
             None \<Rightarrow> None
           | Some intensities \<Rightarrow>
               let activation_ratio =
                     (if key_aus \<noteq> []
                      then real (length active_key_aus) / real (length key_aus) else 0);
                   avg_intensity = (if intensities \<noteq> [] then np_mean intensities else 0);
                   intensity_appropriate = (1.5 \<le> avg_intensity \<and> avg_intensity \<le> 4.0);
                   duration_ok = (if emotion_duration s > 0 then emotion_duration s \<ge> 0.5
                                  else True);
                   temporal_consistent = ged_check_temporal_consistency s emotion;
                   indicators =
                     [(''key_aus_active'', IStrs active_key_aus),
                      (''activation_ratio'', IReal activation_ratio),
                      (''average_intensity'', IReal avg_intensity),
                      (''intensity_appropriate'', IBool intensity_appropriate),
                      (''duration'', IReal (emotion_duration s)),
                      (''duration_appropriate'', IBool duration_ok),
                      (''temporal_consistent'', IBool temporal_consistent)];
                   g1 = activation_ratio * 0.4;
                   g2 = (if intensity_appropriate then g1 + 0.3
                         else if avg_intensity > 0 then g1 + 0.15 else g1);
                   g3 = (if duration_ok then g2 + 0.15 else g2);
                   genuineness_score = (if temporal_consistent then g3 + 0.15 else g3);
                   is_genuine = (genuineness_score \<ge> 0.5);
                   conf = min 0.95 (genuineness_score + 0.2)
               in Some \<lparr>gr_emotion = emotion, gr_is_genuine = is_genuine,
                         gr_confidence = conf, gr_genuineness_score = genuineness_score,
                         gr_indicators = indicators,
                         gr_fake_probability = 1.0 - genuineness_score\<rparr>))"

subsection \<open>Temporal consistency of the histories\<close>

text \<open>\<^verbatim>\<open>np.std\<close>: the square root of the population variance.\<close>

definition np_std :: "real list \<Rightarrow> real" where
  "np_std xs = sqrt (np_var xs)"

text \<open>
  \<^verbatim>\<open>recent.count(max(set(recent), key=recent.count))\<close>: the number of occurrences of
  a most frequent entry of a non-empty list.
\<close>

definition most_common_count :: "string list \<Rightarrow> nat" where
  "most_common_count recent = Max (set (map (count_list recent) recent))"

definition ged_analyze_temporal_consistency :: "ged_state \<Rightarrow> (string \<times> ind_value) list" where
  "ged_analyze_temporal_consistency s =
     (if length (ged_emotion_history s) < 5 then
        [(''consistency_score'', IReal 0.5), (''emotion_stability'', IReal 0.5),
         (''au_stability'', IReal 0.5)]
      else
        let recent_emotions = last_n 10 (ged_emotion_history s);
            emotion_stability =
              real (most_common_count recent_emotions) / real (length recent_emotions);
            au_stabilities =
              map (\<lambda>au_name. 1 / (1 + np_std (last_n 10 (au_intensity_history s au_name))))
                (filter (\<lambda>au_name. length (au_intensity_history s au_name) \<ge> 5)
                   ged_tracked_aus);
            au_stability = (if au_stabilities \<noteq> [] then np_mean au_stabilities else 0.5);
            consistency_score = emotion_stability * 0.6 + au_stability * 0.4
        in [(''consistency_score'', IReal consistency_score),
            (''emotion_stability'', IReal emotion_stability),
            (''au_stability'', IReal au_stability)])"

subsection \<open>The analysis\<close>

text \<open>
  \<^verbatim>\<open>analyze\<close>, with the time stamp given: the new state and the result, or \<open>None\<close> when
  a dictionary access raises.
\<close>

definition ged_analyze ::
  "ged_state \<Rightarrow> string \<Rightarrow> (string \<times> ged_au) list \<Rightarrow> real \<Rightarrow>
   (ged_state \<times> ged_result) option" where
  "ged_analyze s emotion au_results timestamp =
     (case ged_track s emotion au_results timestamp of
        None \<Rightarrow> None
      | Some s1 \<Rightarrow>
          (case (if emotion = ''happiness''
                 then Some (ged_analyze_smile_genuineness s1 au_results)
                 else if emotion \<in> {''sadness'', ''anger'', ''fear'', ''disgust''}
                   then ged_analyze_negative_emotion_genuineness s1 emotion au_results
                 else Some \<lparr>gr_emotion = emotion, gr_is_genuine = True, gr_confidence = 0.5,
                             gr_genuineness_score = 0.5, gr_indicators = [],
                             gr_fake_probability = 0.5\<rparr>) of
             None \<Rightarrow> None
           | Some result0 \<Rightarrow>
               let temporal_analysis = ged_analyze_temporal_consistency s1;
                   result = result0\<lparr>gr_indicators :=
                              dict_update (gr_indicators result0) temporal_analysis\<rparr>;
                   s2 = s1\<lparr>total_emotions := total_emotions s1 + 1\<rparr>;
                   s3 = (if gr_is_genuine result
                         then s2\<lparr>genuine_count := genuine_count s2 + 1\<rparr>
                         else s2\<lparr>fake_count := fake_count s2 + 1\<rparr>)
               in Some (s3, result)))"

subsection \<open>Concealed depression\<close>

record ged_micro =
  gm_emotion :: "string option"

record ged_concealed =
  concealed_depression_detected :: bool
  inconsistency_score :: real
  gc_macro_emotion :: string
  hidden_emotions :: "string list"
  risk_level :: string
  micro_emotion_distribution :: "(string \<times> nat) list"

text \<open>
  The counting loop: \<^verbatim>\<open>micro_emotion_counts[emotion] = micro_emotion_counts.get(emotion,
  0) + 1\<close> for every micro-expression, with the label neutral when the key is absent.
\<close>

definition ged_micro_emotion_counts :: "ged_micro list \<Rightarrow> (string \<times> nat) list" where
  "ged_micro_emotion_counts micro_emotions =
     fold (\<lambda>micro counts.
             let emotion = opt_default ''neutral'' (gm_emotion micro)
             in dict_set emotion (opt_default 0 (map_of counts emotion) + 1) counts)
       micro_emotions []"

definition ged_detect_concealed_depression :: "string \<Rightarrow> ged_micro list \<Rightarrow> ged_concealed" where
  "ged_detect_concealed_depression macro_emotion micro_emotions =
     (let micro_emotion_counts = ged_micro_emotion_counts micro_emotions;
          cnt = (\<lambda>e. opt_default 0 (map_of micro_emotion_counts e));
          hidden = (if macro_emotion \<in> {''happiness'', ''neutral''}
                    then filter (\<lambda>e. cnt e > 0) [''sadness'', ''fear'', ''anger'']
                    else []);
          inconsistency_detected = (hidden \<noteq> []);
          total_micro = sum_list (map snd micro_emotion_counts);
          score = (if total_micro > 0
                   then real (sum_list (map cnt hidden)) / real total_micro
                   else 0);
          risk = (if score \<ge> 0.6 then ''high''
                  else if score \<ge> 0.3 then ''moderate'' else ''low'')
      in \<lparr>concealed_depression_detected = inconsistency_detected,
          inconsistency_score = score, gc_macro_emotion = macro_emotion,
          hidden_emotions = hidden, risk_level = risk,
          micro_emotion_distribution = micro_emotion_counts\<rparr>)"

section \<open>EmotionRecognizer (emotion_recognizer.py)\<close>

subsection \<open>Data\<close>

definition EMOTIONS :: "string list" where
  "EMOTIONS = [''angry'', ''disgust'', ''fear'', ''happy'', ''sad'', ''surprise'', ''neutral'']"

text \<open>
  A face image is read through OpenCV only: \<open>gray\<close> holds the pixel values of
  \<^verbatim>\<open>cv2.cvtColor(face_image, cv2.COLOR_BGR2GRAY)\<close>.
\<close>

record face_image =
  gray :: "real list"

record er_au_data =
  ea_au_activations :: "(string \<times> bool) list option"
  ea_micro_expressions :: "string list option"

record er_result =
  er_emotion :: string
  er_confidence :: real
  probabilities :: "(string \<times> real) list"
  er_method :: string
  smoothed_emotion :: "string option"

text \<open>
  The recognizer's state. The ONNX session is a function from the image to the first row of
  its output, \<open>None\<close> when no model was loaded.
\<close>

record er_state =
  model :: "(face_image \<Rightarrow> real list) option"
  use_au_fusion :: bool
  er_emotion_history :: "er_result list"

definition er_init :: "(face_image \<Rightarrow> real list) option \<Rightarrow> bool \<Rightarrow> er_state" where
  "er_init m fusion = \<lparr>model = m, use_au_fusion = fusion, er_emotion_history = []\<rparr>"

subsection \<open>Dictionary helpers\<close>

text \<open>
  \<^verbatim>\<open>max(d, key=d.get)\<close>: the first key, in insertion order, whose value is maximal;
  \<open>best\<close> is the running maximum.
\<close>

fun argmax_from :: "'k \<times> 'v::linorder \<Rightarrow> ('k \<times> 'v) list \<Rightarrow> 'k" where
  "argmax_from best [] = fst best"
| "argmax_from best ((k, v) # rest) =
     (if v > snd best then argmax_from (k, v) rest else argmax_from best rest)"

definition dict_argmax :: "('k \<times> 'v::linorder) list \<Rightarrow> 'k option" where
  "dict_argmax d = (case d of [] \<Rightarrow> None | p # rest \<Rightarrow> Some (argmax_from p rest))"

text \<open>\<^verbatim>\<open>d[k] += x\<close> for a key of the dictionary.\<close>

definition dict_add :: "string \<Rightarrow> real \<Rightarrow> (string \<times> real) list \<Rightarrow> (string \<times> real) list" where
  "dict_add k x d = map (\<lambda>(k', v). if k' = k then (k', v + x) else (k', v)) d"

text \<open>\<^verbatim>\<open>au_activations.get(au)\<close> read as a truth value.\<close>

definition er_au :: "(string \<times> bool) list \<Rightarrow> string \<Rightarrow> bool" where
  "er_au au_activations au = (map_of au_activations au = Some True)"

subsection \<open>The three recognisers\<close>

text \<open>
  \<^verbatim>\<open>_recognize_by_model\<close>: \<open>None\<close> when the model's output is empty or longer than the
  list of emotions (\<^verbatim>\<open>np.argmax\<close> or the indexing raises).
\<close>

definition er_recognize_by_model :: "(face_image \<Rightarrow> real list) \<Rightarrow> face_image \<Rightarrow> er_result option" where
  "er_recognize_by_model m face =
     (let probs = m face in
      case dict_argmax (zip [0..<length probs] probs) of
        None \<Rightarrow> None
      | Some emotion_idx \<Rightarrow>
          if emotion_idx < length EMOTIONS then
            Some \<lparr>er_emotion = EMOTIONS ! emotion_idx, er_confidence = probs ! emotion_idx,
                   probabilities = zip EMOTIONS probs, er_method = ''model'',
                   smoothed_emotion = None\<rparr>
          else None)"

definition expression_emotion_map :: "(string \<times> string) list" where
  "expression_emotion_map =
     [(''genuine_smile'', ''happy''), (''fake_smile'', ''neutral''), (''sadness'', ''sad''),
      (''worry'', ''sad''), (''anger'', ''angry''), (''disgust'', ''disgust''),
      (''fear'', ''fear''), (''surprise'', ''surprise'')]"

text \<open>
  The scoring blocks of \<^verbatim>\<open>_recognize_by_au\<close>, in the order of the source; each takes
  the score dictionary and returns it updated. \<open>au\<close> reads an AU's activation.
\<close>

definition er_score_micro_expressions ::
  "string list \<Rightarrow> (string \<times> real) list \<Rightarrow> (string \<times> real) list" where
  "er_score_micro_expressions micro_expressions sc =
     fold (\<lambda>expr sc'. case map_of expression_emotion_map expr of
                          None \<Rightarrow> sc'
                        | Some mapped_emotion \<Rightarrow> dict_add mapped_emotion 0.3 sc')
       micro_expressions sc"

definition er_score_happy :: "(string \<Rightarrow> bool) \<Rightarrow> (string \<times> real) list \<Rightarrow> (string \<times> real) list" where
  "er_score_happy au sc =
     (if au ''AU6'' \<and> au ''AU12'' then dict_add ''happy'' 0.4 sc
      else if au ''AU12'' then dict_add ''happy'' 0.2 sc else sc)"

definition er_score_sad :: "(string \<Rightarrow> bool) \<Rightarrow> (string \<times> real) list \<Rightarrow> (string \<times> real) list" where
  "er_score_sad au sc =
     (let sc1 = (if au ''AU1'' \<and> au ''AU15'' then dict_add ''sad'' 0.4 sc else sc)
      in if au ''AU4'' then dict_add ''sad'' 0.1 sc1 else sc1)"

definition er_score_angry :: "(string \<Rightarrow> bool) \<Rightarrow> (string \<times> real) list \<Rightarrow> (string \<times> real) list" where
  "er_score_angry au sc =
     (if au ''AU4'' \<and> au ''AU7'' then dict_add ''angry'' 0.4 sc else sc)"

definition er_score_disgust :: "(string \<Rightarrow> bool) \<Rightarrow> (string \<times> real) list \<Rightarrow> (string \<times> real) list" where
  "er_score_disgust au sc =
     (if au ''AU9'' \<and> au ''AU7'' then dict_add ''disgust'' 0.4 sc
      else if au ''AU9'' then dict_add ''disgust'' 0.2 sc else sc)"

definition er_score_fear :: "(string \<Rightarrow> bool) \<Rightarrow> (string \<times> real) list \<Rightarrow> (string \<times> real) list" where
  "er_score_fear au sc =
     (let fear_count = count_where au [''AU1'', ''AU2'', ''AU5'', ''AU20'']
      in if fear_count \<ge> 3 then dict_add ''fear'' 0.4 sc
         else if fear_count \<ge> 2 then dict_add ''fear'' 0.2 sc else sc)"

definition er_score_surprise :: "(string \<Rightarrow> bool) \<Rightarrow> (string \<times> real) list \<Rightarrow> (string \<times> real) list" where
  "er_score_surprise au sc =
     (let surprise_count = count_where au [''AU1'', ''AU2'', ''AU5'', ''AU26'']
      in if surprise_count \<ge> 3 then dict_add ''surprise'' 0.4 sc
         else if surprise_count \<ge> 2 then dict_add ''surprise'' 0.2 sc else sc)"

text \<open>The scores of \<^verbatim>\<open>_recognize_by_au\<close> before they are normalised.\<close>

definition er_emotion_scores :: "er_au_data \<Rightarrow> (string \<times> real) list" where
  "er_emotion_scores au_data =
     (let au_activations = opt_default [] (ea_au_activations au_data);
          micro_expressions = opt_default [] (ea_micro_expressions au_data);
          au = er_au au_activations
      in er_score_surprise au
           (er_score_fear au
             (er_score_disgust au
               (er_score_angry au
                 (er_score_sad au
                   (er_score_happy au
                     (er_score_micro_expressions micro_expressions
                        (map (\<lambda>e. (e, 0)) EMOTIONS))))))))"

definition er_recognize_by_au :: "er_au_data \<Rightarrow> er_result" where
  "er_recognize_by_au au_data =
     (let emotion_scores = er_emotion_scores au_data;
          total_score = sum_list (map snd emotion_scores);
          probs = (if total_score > 0
                   then map (\<lambda>(e, s). (e, s / total_score)) emotion_scores
                   else dict_set ''neutral'' 1.0 (map (\<lambda>e. (e, 0.0)) EMOTIONS));
          emotion = opt_default ''neutral'' (dict_argmax probs)
      in \<lparr>er_emotion = emotion,
          er_confidence = opt_default 0 (map_of probs emotion),
          probabilities = probs, er_method = ''au'', smoothed_emotion = None\<rparr>)"

definition er_recognize_by_simple_rule :: "face_image \<Rightarrow> er_result" where
  "er_recognize_by_simple_rule face =
     (let mean_brightness = np_mean (gray face);
          emotion = (if mean_brightness > 150 then ''happy''
                     else if mean_brightness < 80 then ''sad'' else ''neutral'');
          p0 = map (\<lambda>e. (e, 0.0)) EMOTIONS;
          p1 = dict_set emotion 0.6 p0;
          p2 = dict_set ''neutral'' (0.4 - opt_default 0 (map_of p1 emotion) * 0.4) p1
      in \<lparr>er_emotion = emotion, er_confidence = 0.6, probabilities = p2,
          er_method = ''simple_rule'', smoothed_emotion = None\<rparr>)"

subsection \<open>Fusion and smoothing\<close>

definition er_fuse_with_au :: "er_result \<Rightarrow> er_au_data \<Rightarrow> er_result" where
  "er_fuse_with_au model_result au_data =
     (let au_result = er_recognize_by_au au_data;
          model_weight = 0.7;
          au_weight = 0.3;
          fused_probabilities =
            map (\<lambda>emotion.
                   let model_prob = opt_default 0 (map_of (probabilities model_result) emotion);
                       au_prob = opt_default 0 (map_of (probabilities au_result) emotion)
                   in (emotion, model_prob * model_weight + au_prob * au_weight))
              EMOTIONS;
          emotion = opt_default ''neutral'' (dict_argmax fused_probabilities)
      in \<lparr>er_emotion = emotion,
          er_confidence = opt_default 0 (map_of fused_probabilities emotion),
          probabilities = fused_probabilities, er_method = ''fusion'',
          smoothed_emotion = None\<rparr>)"

text \<open>
  \<^verbatim>\<open>_temporal_smoothing\<close>: the result is appended to the history (ten entries at most);
  from the third entry on, the most frequent emotion of the history is noted in the result
  when it differs from the result's own. The history holds the same dictionary, so its last
  entry carries the note as well.
\<close>

definition er_temporal_smoothing :: "er_state \<Rightarrow> er_result \<Rightarrow> er_state \<times> er_result" where
  "er_temporal_smoothing s result =
     (let h = deque_append 10 (er_emotion_history s) result in
      if length h < 3 then (s\<lparr>er_emotion_history := h\<rparr>, result)
      else
        let recent_emotions = map er_emotion h;
            emotion_counts =
              fold (\<lambda>emotion counts.
                      dict_set emotion (opt_default 0 (map_of counts emotion) + (1::nat)) counts)
                recent_emotions [];
            smoothed = opt_default (er_emotion result) (dict_argmax emotion_counts);
            result' = (if smoothed \<noteq> er_emotion result
                       then result\<lparr>smoothed_emotion := Some smoothed\<rparr> else result)
        in (s\<lparr>er_emotion_history := butlast h @ [result']\<rparr>, result'))"

subsection \<open>Recognition\<close>

text \<open>
  \<^verbatim>\<open>recognize\<close>, without the time measurement: the new state and the result, or \<open>None\<close>
  when the model path raises.
\<close>

definition er_recognize ::
  "er_state \<Rightarrow> face_image \<Rightarrow> er_au_data option \<Rightarrow> (er_state \<times> er_result) option" where
  "er_recognize s face au_data =
     (case (case model s of
              Some m \<Rightarrow> er_recognize_by_model m face
            | None \<Rightarrow>
                (case au_data of
                   Some d \<Rightarrow> Some (er_recognize_by_au d)
                 | None \<Rightarrow> Some (er_recognize_by_simple_rule face))) of
        None \<Rightarrow> None
      | Some result0 \<Rightarrow>
          let result1 =
                (case au_data of
                   Some d \<Rightarrow>
                     if use_au_fusion s \<and> er_method result0 = ''model''
                     then er_fuse_with_au result0 d else result0
                 | None \<Rightarrow> result0)
          in Some (er_temporal_smoothing s result1))"

text \<open>The sum of a probability dictionary's values.\<close>

definition prob_sum :: "(string \<times> real) list \<Rightarrow> real" where
  "prob_sum d = sum_list (map snd d)"

section \<open>AUDetector (au_detector.py)\<close>

text \<open>
  \<^verbatim>\<open>detect\<close> first computes the feature dictionary from the landmarks
  (\<^verbatim>\<open>_calculate_au_features\<close>, plane geometry) and then classifies it. The embedding
  starts at the feature dictionary: an association list from AU names to feature values, in
  the order of the dictionary.
\<close>

definition AU_THRESHOLDS :: "(string \<times> real) list" where
  "AU_THRESHOLDS =
     [(''AU1'', 0.08), (''AU2'', 0.10), (''AU4'', 0.08), (''AU5'', 0.12), (''AU6'', 0.06),
      (''AU7'', 0.10), (''AU9'', 0.08), (''AU12'', 0.05), (''AU15'', 0.05), (''AU17'', 0.07),
      (''AU20'', 0.08), (''AU25'', 0.10), (''AU26'', 0.15), (''AU43'', 0.12)]"

text \<open>
  The detector's state. \<open>aud_au_history\<close> is the dictionary of five-entry windows that the
  constructor makes for the keys of \<^verbatim>\<open>AU_THRESHOLDS\<close>; it is read at those keys only (any
  other key raises KeyError, see \<open>aud_detect_au\<close>).
\<close>

record aud_state =
  aud_baseline_frames :: nat
  aud_baseline :: "(string \<times> real) list"
  aud_baseline_buffer :: "(string \<times> real list) list"
  aud_baseline_calibrated :: bool
  aud_au_history :: "string \<Rightarrow> bool list"

definition aud_init :: "nat \<Rightarrow> aud_state" where
  "aud_init n =
     \<lparr>aud_baseline_frames = n, aud_baseline = [], aud_baseline_buffer = [],
      aud_baseline_calibrated = False, aud_au_history = (\<lambda>au. [])\<rparr>"

record aud_result =
  aud_au_activations :: "(string \<times> bool) list"
  aud_au_intensities :: "(string \<times> real) list"
  aud_micro_expressions :: "string list"

subsection \<open>Baseline calibration\<close>

text \<open>One pass of the loop of \<^verbatim>\<open>_update_baseline\<close>.\<close>

definition aud_update_baseline_step :: "string \<times> real \<Rightarrow> aud_state \<Rightarrow> aud_state" where
  "aud_update_baseline_step item s =
     (case item of (au_name, v) \<Rightarrow>
        let buf = opt_default [] (map_of (aud_baseline_buffer s) au_name) @ [v];
            s1 = s\<lparr>aud_baseline_buffer := dict_set au_name buf (aud_baseline_buffer s)\<rparr>
        in if length buf \<ge> aud_baseline_frames s1
           then s1\<lparr>aud_baseline := dict_set au_name (np_mean buf) (aud_baseline s1)\<rparr>
           else s1)"

definition aud_update_baseline :: "aud_state \<Rightarrow> (string \<times> real) list \<Rightarrow> aud_state" where
  "aud_update_baseline s au_features =
     (let s1 = fold aud_update_baseline_step au_features s
      in if length (aud_baseline s1) \<ge> length AU_THRESHOLDS
         then s1\<lparr>aud_baseline_calibrated := True\<rparr> else s1)"

subsection \<open>Classification of one AU\<close>

text \<open>
  \<^verbatim>\<open>sum(window) >= len(window) // 2\<close>: the vote that both detectors use to smooth the
  activation.
\<close>

definition majority_vote :: "bool list \<Rightarrow> bool" where
  "majority_vote window = (count_where (\<lambda>a. a) window \<ge> length window div 2)"

text \<open>
  The body of the loop of \<^verbatim>\<open>detect\<close> for one entry of the feature dictionary: the new
  state, the smoothed activation and the intensity; \<open>None\<close> for the KeyError of
  \<^verbatim>\<open>self.au_history[au_name]\<close>.
\<close>

definition aud_detect_au :: "aud_state \<Rightarrow> string \<Rightarrow> real \<Rightarrow> (aud_state \<times> bool \<times> real) option" where
  "aud_detect_au s au_name feature_value =
     (let baseline_value = opt_default feature_value (map_of (aud_baseline s) au_name);
          intensity = (if baseline_value \<noteq> 0
                       then (feature_value - baseline_value) / \<bar>baseline_value\<bar>
                       else 0);
          threshold = opt_default 0.15 (map_of AU_THRESHOLDS au_name);
          activated = (\<bar>intensity\<bar> > threshold)
      in if au_name \<notin> set (map fst AU_THRESHOLDS) then None
         else
           let window = deque_append 5 (aud_au_history s au_name) activated;
               smoothed_activation = majority_vote window
           in Some (s\<lparr>aud_au_history := (aud_au_history s)(au_name := window)\<rparr>,
                    smoothed_activation, intensity))"

fun aud_detect_loop ::
  "aud_state \<Rightarrow> (string \<times> real) list \<Rightarrow> (string \<times> bool) list \<Rightarrow> (string \<times> real) list \<Rightarrow>
   (aud_state \<times> (string \<times> bool) list \<times> (string \<times> real) list) option" where
  "aud_detect_loop s [] au_activations au_intensities =
     Some (s, au_activations, au_intensities)"
| "aud_detect_loop s ((au_name, feature_value) # rest) au_activations au_intensities =
     (case aud_detect_au s au_name feature_value of
        None \<Rightarrow> None
      | Some (s', smoothed_activation, intensity) \<Rightarrow>
          aud_detect_loop s' rest (dict_set au_name smoothed_activation au_activations)
            (dict_set au_name intensity au_intensities))"

subsection \<open>Micro-expressions\<close>

definition aud_classify_micro_expressions ::
  "(string \<times> bool) list \<Rightarrow> (string \<times> real) list \<Rightarrow> string list" where
  "aud_classify_micro_expressions au_activations au_intensities =
     (let au = (\<lambda>k. opt_default False (map_of au_activations k)) in
        (if au ''AU6'' \<and> au ''AU12'' then [''genuine_smile'']
         else if au ''AU12'' \<and> \<not> au ''AU6'' then [''fake_smile''] else [])
        @ (if au ''AU1'' \<and> au ''AU15'' then [''sadness''] else [])
        @ (if au ''AU1'' \<and> au ''AU4'' then [''worry''] else [])
        @ (if au ''AU4'' \<and> au ''AU7'' then [''anger''] else [])
        @ (if au ''AU9'' \<and> au ''AU7'' then [''disgust''] else [])
        @ (if au ''AU1'' \<and> au ''AU2'' \<and> au ''AU5'' then [''fear''] else [])
        @ (if au ''AU1'' \<and> au ''AU2'' \<and> au ''AU26'' then [''surprise''] else [])
        @ (if au ''AU43'' then [''fatigue''] else []))"

subsection \<open>Detection\<close>

text \<open>\<^verbatim>\<open>detect\<close> from the feature dictionary on, without the time measurement.\<close>

definition aud_detect :: "aud_state \<Rightarrow> (string \<times> real) list \<Rightarrow> (aud_state \<times> aud_result) option" where
  "aud_detect s au_features =
     (let s1 = (if \<not> aud_baseline_calibrated s then aud_update_baseline s au_features else s)
      in case aud_detect_loop s1 au_features [] [] of
           None \<Rightarrow> None
         | Some (s2, au_activations, au_intensities) \<Rightarrow>
             Some (s2, \<lparr>aud_au_activations = au_activations,
                        aud_au_intensities = au_intensities,
                        aud_micro_expressions =
                          aud_classify_micro_expressions au_activations au_intensities\<rparr>))"

section \<open>AdvancedAUDetector (au_detector_advanced.py)\<close>

text \<open>
  As for the basic detector, the embedding starts at the feature dictionary that
  \<^verbatim>\<open>_extract_au_features\<close> computes from the landmarks.
\<close>

subsection \<open>Class constants\<close>

text \<open>The keys of \<^verbatim>\<open>AU_DEFINITIONS\<close>, in the order of the dictionary.\<close>

definition AU_DEFINITIONS :: "string list" where
  "AU_DEFINITIONS =
     [''AU1'', ''AU2'', ''AU4'', ''AU5'', ''AU6'', ''AU7'', ''AU9'', ''AU10'', ''AU12'',
      ''AU14'', ''AU15'', ''AU17'', ''AU20'', ''AU23'', ''AU24'', ''AU25'', ''AU26'', ''AU43'']"

definition INITIAL_THRESHOLDS_table :: "(string \<times> real) list" where
  "INITIAL_THRESHOLDS_table =
     [(''AU1'', 0.06), (''AU2'', 0.08), (''AU4'', 0.06), (''AU5'', 0.10), (''AU6'', 0.04),
      (''AU7'', 0.08), (''AU9'', 0.06), (''AU10'', 0.07), (''AU12'', 0.03), (''AU14'', 0.05),
      (''AU15'', 0.03), (''AU17'', 0.05), (''AU20'', 0.06), (''AU23'', 0.06), (''AU24'', 0.07),
      (''AU25'', 0.08), (''AU26'', 0.12), (''AU43'', 0.10)]"

text \<open>
  \<^verbatim>\<open>INITIAL_THRESHOLDS\<close> has the keys of \<^verbatim>\<open>AU_DEFINITIONS\<close>. The detector reads it, and
  its copy \<^verbatim>\<open>self.thresholds\<close>, at those keys only; the value 0.05 elsewhere is the default
  of \<^verbatim>\<open>self.thresholds.get(au_name, 0.05)\<close>. The thresholds are the doubles that the
  literals of the table denote: \<^verbatim>\<open>_adapt_thresholds\<close> multiplies them, and the products
  are rounded.
\<close>

definition INITIAL_THRESHOLDS :: "string \<Rightarrow> real" where
  "INITIAL_THRESHOLDS au_name =
     float64 (opt_default 0.05 (map_of INITIAL_THRESHOLDS_table au_name))"

subsection \<open>State and results\<close>

record adv_au_result =
  ar_activated :: bool
  ar_intensity :: real
  ar_raw_value :: real
  ar_baseline :: real
  ar_relative_change :: real

record adv_micro_expression =
  me_au :: string
  me_intensity :: real
  me_duration :: real

text \<open>
  The dictionaries that the constructor fills with the keys of \<^verbatim>\<open>AU_DEFINITIONS\<close>
  (thresholds, baseline buffers, the two smoothing windows, activation counts) are
  functions of the AU name, used at those keys only. \<open>adv_baseline\<close> is empty until the
  calibration completes.
\<close>

record adv_state =
  adv_baseline_frames :: nat
  adaptive_threshold :: bool
  smoothing_window :: nat
  thresholds :: "string \<Rightarrow> real"
  adv_baseline :: "string \<Rightarrow> real option"
  adv_baseline_buffer :: "string \<Rightarrow> real list"
  adv_baseline_calibrated :: bool
  calibration_progress :: int
  adv_au_intensity_history :: "string \<Rightarrow> real list"
  au_activation_history :: "string \<Rightarrow> bool list"
  micro_expression_buffer :: "(string \<times> adv_au_result) list list"
  frame_count :: nat
  au_activation_counts :: "string \<Rightarrow> nat"

definition adv_init :: "nat \<Rightarrow> bool \<Rightarrow> nat \<Rightarrow> adv_state" where
  "adv_init n adaptive w =
     \<lparr>adv_baseline_frames = n, adaptive_threshold = adaptive, smoothing_window = w,
      thresholds = INITIAL_THRESHOLDS, adv_baseline = (\<lambda>au. None),
      adv_baseline_buffer = (\<lambda>au. []), adv_baseline_calibrated = False,
      calibration_progress = 0, adv_au_intensity_history = (\<lambda>au. []),
      au_activation_history = (\<lambda>au. []), micro_expression_buffer = [],
      frame_count = 0, au_activation_counts = (\<lambda>au. 0)\<rparr>"

record adv_result =
  res_au_results :: "(string \<times> adv_au_result) list"
  adv_micro_expressions :: "adv_micro_expression list"
  res_baseline_calibrated :: bool
  res_calibration_progress :: int

subsection \<open>Baseline calibration\<close>

text \<open>
  \<^verbatim>\<open>np.median\<close>. The source takes it of \<^verbatim>\<open>baseline_frames\<close> values; of no value
  (\<^verbatim>\<open>baseline_frames = 0\<close>) numpy returns nan, which the classification treats like a
  baseline of 0 (\<^verbatim>\<open>abs(nan) > 1e-6\<close> is false), the value chosen here.
\<close>

definition np_median :: "real list \<Rightarrow> real" where
  "np_median xs =
     (let ys = sort xs; n = length ys
      in if n = 0 then 0
         else if even n then (ys ! (n div 2 - 1) + ys ! (n div 2)) / 2
         else ys ! (n div 2))"

definition adv_update_baseline :: "adv_state \<Rightarrow> (string \<times> real) list \<Rightarrow> adv_state" where
  "adv_update_baseline s au_features =
     (let s1 = fold (\<lambda>(au_name, v) s'.
                       if au_name \<in> set AU_DEFINITIONS
                       then s'\<lparr>adv_baseline_buffer := (adv_baseline_buffer s')
                                 (au_name := deque_append (adv_baseline_frames s')
                                               (adv_baseline_buffer s' au_name) v)\<rparr>
                       else s')
                 au_features s
      in if list_all (\<lambda>au. length (adv_baseline_buffer s1 au) \<ge> adv_baseline_frames s1)
              AU_DEFINITIONS
         then s1\<lparr>adv_baseline :=
                   (\<lambda>au. if au \<in> set AU_DEFINITIONS
                          then Some (np_median (adv_baseline_buffer s1 au))
                          else adv_baseline s1 au),
                 adv_baseline_calibrated := True, calibration_progress := 100\<rparr>
         else
           let total_frames = sum_list (map (\<lambda>au. length (adv_baseline_buffer s1 au))
                                          AU_DEFINITIONS);
               max_frames = length AU_DEFINITIONS * adv_baseline_frames s1
           in s1\<lparr>calibration_progress :=
                    py_int ((real total_frames / real max_frames) * 100)\<rparr>)"

subsection \<open>Classification of one AU\<close>

definition adv_calculate_intensity :: "string \<Rightarrow> real \<Rightarrow> real" where
  "adv_calculate_intensity au_name rc =
     (if rc < 0.02 then 0
      else if rc < 0.05 then 1
      else if rc < 0.10 then 2
      else if rc < 0.20 then 3
      else if rc < 0.35 then 4
      else 5)"

text \<open>
  The temporal smoothing of \<^verbatim>\<open>detect\<close>: the raw intensity and activation are pushed into
  the AU's two windows (of \<^verbatim>\<open>smoothing_window\<close> entries), and the smoothed values are the
  mean of the one and the vote over the other. The result is the two new windows, the
  smoothed intensity and the smoothed activation.
\<close>

definition adv_smooth_push ::
  "nat \<Rightarrow> real list \<times> bool list \<Rightarrow> real \<times> bool \<Rightarrow> (real list \<times> bool list) \<times> real \<times> bool" where
  "adv_smooth_push w windows raw =
     (let ih = deque_append w (fst windows) (fst raw);
          ah = deque_append w (snd windows) (snd raw)
      in ((ih, ah), np_mean ih, majority_vote ah))"

text \<open>
  The body of the loop of \<^verbatim>\<open>detect\<close> for an AU of \<^verbatim>\<open>AU_DEFINITIONS\<close>: the new state
  and the AU's entry of the result.
\<close>

definition adv_detect_au :: "adv_state \<Rightarrow> string \<Rightarrow> real \<Rightarrow> adv_state \<times> adv_au_result" where
  "adv_detect_au s au_name feature_value =
     (let baseline_value = opt_default feature_value (adv_baseline s au_name);
          rc = (if \<bar>baseline_value\<bar> > 1 / 10 ^ 6
                then (feature_value - baseline_value) / \<bar>baseline_value\<bar>
                else 0);
          raw_intensity = adv_calculate_intensity au_name \<bar>rc\<bar>;
          threshold = thresholds s au_name;
          is_activated = (\<bar>rc\<bar> > threshold)
      in case adv_smooth_push (smoothing_window s)
                (adv_au_intensity_history s au_name, au_activation_history s au_name)
                (raw_intensity, is_activated) of
           ((ih, ah), smoothed_intensity, smoothed_activation) \<Rightarrow>
             (s\<lparr>adv_au_intensity_history := (adv_au_intensity_history s)(au_name := ih),
                au_activation_history := (au_activation_history s)(au_name := ah),
                au_activation_counts :=
                  (if smoothed_activation
                   then (au_activation_counts s)(au_name := au_activation_counts s au_name + 1)
                   else au_activation_counts s)\<rparr>,
              \<lparr>ar_activated = smoothed_activation, ar_intensity = smoothed_intensity,
               ar_raw_value = feature_value, ar_baseline = baseline_value,
               ar_relative_change = rc\<rparr>))"

fun adv_detect_loop ::
  "adv_state \<Rightarrow> (string \<times> real) list \<Rightarrow> (string \<times> adv_au_result) list \<Rightarrow>
   adv_state \<times> (string \<times> adv_au_result) list" where
  "adv_detect_loop s [] res = (s, res)"
| "adv_detect_loop s ((au_name, feature_value) # rest) res =
     (if au_name \<notin> set AU_DEFINITIONS then adv_detect_loop s rest res
      else case adv_detect_au s au_name feature_value of
             (s', r) \<Rightarrow> adv_detect_loop s' rest (dict_set au_name r res))"

subsection \<open>Micro-expressions\<close>

definition adv_detect_micro_expressions ::
  "adv_state \<Rightarrow> (string \<times> adv_au_result) list \<Rightarrow> adv_state \<times> adv_micro_expression list" where
  "adv_detect_micro_expressions s res =
     (let buf = deque_append 30 (micro_expression_buffer s) res;
          s1 = s\<lparr>micro_expression_buffer := buf\<rparr>
      in if length buf < 10 then (s1, [])
         else
           (s1,
            concat (map (\<lambda>au_name.
                let recent_intensities =
                      map (\<lambda>frame. case map_of frame au_name of
                                      None \<Rightarrow> 0 | Some r \<Rightarrow> ar_intensity r)
                        (last_n 10 buf);
                    max_intensity = Max (set recent_intensities);
                    avg_intensity = np_mean (take 5 recent_intensities
                                             @ last_n 5 recent_intensities)
                in if max_intensity > 3 \<and> max_intensity > avg_intensity * 2
                   then [\<lparr>me_au = au_name, me_intensity = max_intensity,
                           me_duration = real (length recent_intensities) / 30\<rparr>]
                   else [])
              AU_DEFINITIONS)))"

subsection \<open>Adaptive thresholds\<close>

text \<open>
  One pass of the loop of \<^verbatim>\<open>_adapt_thresholds\<close>. \<^verbatim>\<open>self.thresholds[au_name] *= 1.01\<close>
  is the product of two doubles, rounded to a double; the products by 0.5 and 2.0 that
  bound the clipping are exact in doubles, and \<^verbatim>\<open>np.clip\<close> returns one of its arguments.
\<close>

definition adv_adapt_threshold_step :: "string \<Rightarrow> adv_state \<Rightarrow> adv_state" where
  "adv_adapt_threshold_step au_name s =
     (if frame_count s < 100 then s
      else
        let activation_rate = real (au_activation_counts s au_name) / real (frame_count s);
            t1 = (if activation_rate > 0.5
                  then float64 (thresholds s au_name * float64 1.01)
                  else if activation_rate < 0.05
                  then float64 (thresholds s au_name * float64 0.99)
                  else thresholds s au_name);
            t2 = np_clip t1 (INITIAL_THRESHOLDS au_name * 0.5)
                   (INITIAL_THRESHOLDS au_name * 2.0)
        in s\<lparr>thresholds := (thresholds s)(au_name := t2)\<rparr>)"

definition adv_adapt_thresholds :: "adv_state \<Rightarrow> adv_state" where
  "adv_adapt_thresholds s = fold adv_adapt_threshold_step AU_DEFINITIONS s"

subsection \<open>Detection\<close>

text \<open>\<^verbatim>\<open>detect\<close> from the feature dictionary on, without the time measurement.\<close>

definition adv_detect :: "adv_state \<Rightarrow> (string \<times> real) list \<Rightarrow> adv_state \<times> adv_result" where
  "adv_detect s au_features =
     (let s0 = s\<lparr>frame_count := frame_count s + 1\<rparr>;
          s1 = (if \<not> adv_baseline_calibrated s0 then adv_update_baseline s0 au_features
                else s0)
      in case adv_detect_loop s1 au_features [] of
           (s2, res) \<Rightarrow>
             (case adv_detect_micro_expressions s2 res of
                (s3, micro) \<Rightarrow>
                  let s4 = (if adaptive_threshold s3 \<and> adv_baseline_calibrated s3
                            then adv_adapt_thresholds s3 else s3)
                  in (s4, \<lparr>res_au_results = res, adv_micro_expressions = micro,
                           res_baseline_calibrated = adv_baseline_calibrated s4,
                           res_calibration_progress = calibration_progress s4\<rparr>)))"

text \<open>The detector after a sequence of frames.\<close>

definition adv_run :: "adv_state \<Rightarrow> (string \<times> real) list list \<Rightarrow> adv_state" where
  "adv_run s frames = fold (\<lambda>au_features s'. fst (adv_detect s' au_features)) frames s"

section \<open>Auxiliary definitions\<close>

text \<open>The labels that the counting loop of \<^verbatim>\<open>detect_concealed_depression\<close> reads.\<close>

definition micro_labels :: "ged_micro list \<Rightarrow> string list" where
  "micro_labels ms = map (\<lambda>m. opt_default ''neutral'' (gm_emotion m)) ms"

text \<open>Every score of a dictionary is at least 0.\<close>

definition nonneg_scores :: "(string \<times> real) list \<Rightarrow> bool" where
  "nonneg_scores d = list_all (\<lambda>(k, v). 0 \<le> v) d"

text \<open>The threshold that one pass of the adaptation loop stores for an AU.\<close>

definition adapted_threshold :: "adv_state \<Rightarrow> string \<Rightarrow> real" where
  "adapted_threshold s au =
     (if frame_count s < 100 then thresholds s au
      else
        let activation_rate = real (au_activation_counts s au) / real (frame_count s);
            t1 = (if activation_rate > 0.5 then float64 (thresholds s au * float64 1.01)
                  else if activation_rate < 0.05 then float64 (thresholds s au * float64 0.99)
                  else thresholds s au)
        in np_clip t1 (INITIAL_THRESHOLDS au * 0.5) (INITIAL_THRESHOLDS au * 2.0))"

text \<open>The invariant: every threshold lies between half and twice its initial value.\<close>

definition thresholds_in_range :: "adv_state \<Rightarrow> bool" where
  "thresholds_in_range s =
     (\<forall>au. INITIAL_THRESHOLDS au * 0.5 \<le> thresholds s au \<and>
           thresholds s au \<le> INITIAL_THRESHOLDS au * 2.0)"

text \<open>
  The loop body of the advanced detector as a function of what it reads: the window size,
  the AU's baseline, threshold and windows, and the feature value.
\<close>

definition au_reading ::
  "nat \<Rightarrow> real option \<Rightarrow> real \<Rightarrow> real list \<Rightarrow> bool list \<Rightarrow> real \<Rightarrow>
   (real list \<times> bool list) \<times> adv_au_result" where
  "au_reading w b thr ih ah f =
     (let baseline_value = opt_default f b;
          rc = (if \<bar>baseline_value\<bar> > 1 / 10 ^ 6 then (f - baseline_value) / \<bar>baseline_value\<bar>
                else 0);
          sm = adv_smooth_push w (ih, ah) (adv_calculate_intensity [] \<bar>rc\<bar>, \<bar>rc\<bar> > thr)
      in (fst sm,
          \<lparr>ar_activated = snd (snd sm), ar_intensity = fst (snd sm), ar_raw_value = f,
           ar_baseline = baseline_value, ar_relative_change = rc\<rparr>))"

text \<open>
  Two frames of features for the advanced detector: a face at rest, and the same face with
  every feature doubled.
\<close>

definition rest_frame :: "(string \<times> real) list" where
  "rest_frame = [(''AU1'', 1), (''AU2'', 1), (''AU4'', 1), (''AU5'', 1), (''AU6'', 1), (''AU7'', 1),
     (''AU9'', 1), (''AU10'', 1), (''AU12'', 1), (''AU14'', 4 / 5), (''AU15'', - 1),
     (''AU17'', 1), (''AU20'', 1), (''AU23'', 1), (''AU24'', 9 / 10), (''AU25'', 1),
     (''AU26'', 1), (''AU43'', 1)]"

definition moved_frame :: "(string \<times> real) list" where
  "moved_frame = [(''AU1'', 2), (''AU2'', 2), (''AU4'', 2), (''AU5'', 2), (''AU6'', 2), (''AU7'', 2),
     (''AU9'', 2), (''AU10'', 2), (''AU12'', 2), (''AU14'', 8 / 5), (''AU15'', - 2),
     (''AU17'', 2), (''AU20'', 2), (''AU23'', 2), (''AU24'', 9 / 5), (''AU25'', 2),
     (''AU26'', 2), (''AU43'', 2)]"

text \<open>
  Two frames of features for the basic detector, in the order in which
  \<^verbatim>\<open>_calculate_au_features\<close> fills the dictionary: a face whose mouth corners lie a
  thousandth of a pixel above the centre of the upper lip, and the same face with the corners
  a tenth of a pixel higher.
\<close>

definition flat_mouth_frame :: "(string \<times> real) list" where
  "flat_mouth_frame =
     [(''AU1'', 10), (''AU2'', 12), (''AU4'', - 20), (''AU5'', 6), (''AU6'', - 40),
      (''AU7'', - 6), (''AU9'', 15), (''AU12'', 1 / 1000), (''AU15'', - 1 / 1000),
      (''AU17'', - 120), (''AU20'', 50), (''AU25'', 12), (''AU26'', 12), (''AU43'', - 3 / 10)]"

definition lifted_mouth_frame :: "(string \<times> real) list" where
  "lifted_mouth_frame =
     [(''AU1'', 10), (''AU2'', 12), (''AU4'', - 20), (''AU5'', 6), (''AU6'', - 399 / 10),
      (''AU7'', - 6), (''AU9'', 15), (''AU12'', 101 / 1000), (''AU15'', - 101 / 1000),
      (''AU17'', - 120), (''AU20'', 50), (''AU25'', 12), (''AU26'', 12), (''AU43'', - 3 / 10)]"

section \<open>Auxiliary facts\<close>

lemma count_where_replicate: "count_where p (replicate n x) = (if p x then n else 0)"
  by (simp add: count_where_def)

lemma count_where_le_length: "count_where p xs \<le> length xs"
  by (simp add: count_where_def)

lemma phq9_suicidal_cases:
  "phq9_assess_suicidal_ideation s = None \<or>
   phq9_assess_suicidal_ideation s = Some 0 \<or>
   phq9_assess_suicidal_ideation s = Some 1"
  by (simp add: phq9_assess_suicidal_ideation_def Let_def)

lemma phq9_assess_enough:
  assumes "300 \<le> length (emotion_history s)"
  shows "\<exists>s' a. phq9_assess s = Some (s', Assessment a)"
proof -
  from assms have ne: "emotion_history s \<noteq> []" by auto
  obtain i1 where i1: "phq9_assess_anhedonia s = Some i1"
    using ne by (simp add: phq9_assess_anhedonia_def Let_def)
  obtain i2 where i2: "phq9_assess_depressed_mood s = Some i2"
    using ne by (simp add: phq9_assess_depressed_mood_def Let_def)
  obtain i9 where i9: "phq9_assess_suicidal_ideation s = Some i9"
    using ne by (simp add: phq9_assess_suicidal_ideation_def Let_def)
  from assms have "\<not> length (emotion_history s) < 300" by simp
  then show ?thesis
    by (simp add: phq9_assess_def i1 i2 i9 Let_def)
qed

subsection \<open>The clinical assessor's scores\<close>

lemma med_weighted_expand:
  "sum_list (map (\<lambda>(k, v). real v * med_symptom_weight k)
     [(''anhedonia'', v1), (''depressed_mood'', v2), (''sleep_problems'', v3),
      (''fatigue'', v4), (''appetite_changes'', v5), (''low_self_worth'', v6),
      (''concentration_problems'', v7), (''psychomotor_changes'', v8),
      (''suicidal_thoughts'', v9)]) =
   real v1 * 1.2 + real v2 * 1.2 + real v3 + real v4 + real v5 * 0.8 + real v6 * 1.1 +
   real v7 * 0.9 + real v8 + real v9 * 1.5"
  by (simp add: med_symptom_weight_def PHQ9_SYMPTOMS_def)

lemma med_max_weighted: "sum_list (map (\<lambda>(k, w). 3 * w) PHQ9_SYMPTOMS) = 291 / 10"
  by (simp add: PHQ9_SYMPTOMS_def)

lemma med_determine_severity_bands:
  "0 \<le> t \<Longrightarrow> t \<le> 27 \<Longrightarrow>
   med_determine_severity t =
     (if t \<le> 4 then (''minimal'', ''minimal'')
      else if t \<le> 9 then (''mild'', ''mild'')
      else if t \<le> 14 then (''moderate'', ''moderate'')
      else if t \<le> 19 then (''moderately_severe'', ''moderately_severe'')
      else (''severe'', ''severe''))"
  by (simp add: med_determine_severity_def RISK_LEVELS_def)

lemma py_int_unit_range:
  assumes "0 \<le> x" "x \<le> 1"
  shows "0 \<le> py_int (x * 27) \<and> py_int (x * 27) \<le> 27"
proof -
  from assms have a: "0 \<le> x * 27" and b: "x * 27 \<le> 27" by simp_all
  from a have "py_int (x * 27) = \<lfloor>x * 27\<rfloor>" by (simp add: py_int_def)
  moreover from a have "0 \<le> \<lfloor>x * 27\<rfloor>" by simp
  moreover from b have "\<lfloor>x * 27\<rfloor> \<le> 27" by (simp add: floor_le_iff) 
  ultimately show ?thesis by simp
qed

lemma med_item_bounds:
  "med_assess_sleep_problems eye \<le> 3"
  "med_assess_fatigue eye au \<le> 3"
  "med_assess_self_worth eye au \<le> 3"
  "med_assess_concentration eye \<le> 3"
  "med_assess_psychomotor s au \<le> 3"
  "med_assess_suicidal_risk er gen au \<le> 3"
  by (simp_all add: med_assess_sleep_problems_def med_assess_fatigue_def
      med_assess_self_worth_def med_assess_concentration_def med_assess_psychomotor_def
      med_assess_suicidal_risk_def Let_def)

lemma med_scores_shape:
  "\<exists>v1 v2. v1 \<le> 3 \<and> v2 \<le> 3 \<and>
     ms_scores (med_calculate_phq9_scores s er au eye gen) =
       [(''anhedonia'', v1), (''depressed_mood'', v2),
        (''sleep_problems'', med_assess_sleep_problems eye),
        (''fatigue'', med_assess_fatigue eye au),
        (''appetite_changes'', 0),
        (''low_self_worth'', med_assess_self_worth eye au),
        (''concentration_problems'', med_assess_concentration eye),
        (''psychomotor_changes'', med_assess_psychomotor s au),
        (''suicidal_thoughts'', med_assess_suicidal_risk er gen au)]"
  by (simp add: med_calculate_phq9_scores_def Let_def split: prod.split split del: if_split)

lemma med_total_eq:
  "ms_total (med_calculate_phq9_scores s er au eye gen) =
     py_int ((sum_list (map (\<lambda>(k, v). real v * med_symptom_weight k)
                (ms_scores (med_calculate_phq9_scores s er au eye gen)))
              / sum_list (map (\<lambda>(k, w). 3 * w) PHQ9_SYMPTOMS)) * 27)"
  by (simp add: med_calculate_phq9_scores_def Let_def split: prod.split split del: if_split)

lemma med_severity_eq:
  "ms_severity (med_calculate_phq9_scores s er au eye gen) =
     fst (med_determine_severity (ms_total (med_calculate_phq9_scores s er au eye gen)))"
  by (simp add: med_calculate_phq9_scores_def Let_def split: prod.split split del: if_split)

lemma med_total_range:
  "0 \<le> ms_total (med_calculate_phq9_scores s er au eye gen) \<and>
   ms_total (med_calculate_phq9_scores s er au eye gen) \<le> 27"
proof -
  obtain v1 v2 where v: "v1 \<le> 3" "v2 \<le> 3" and
    sc: "ms_scores (med_calculate_phq9_scores s er au eye gen) =
       [(''anhedonia'', v1), (''depressed_mood'', v2),
        (''sleep_problems'', med_assess_sleep_problems eye),
        (''fatigue'', med_assess_fatigue eye au),
        (''appetite_changes'', 0),
        (''low_self_worth'', med_assess_self_worth eye au),
        (''concentration_problems'', med_assess_concentration eye),
        (''psychomotor_changes'', med_assess_psychomotor s au),
        (''suicidal_thoughts'', med_assess_suicidal_risk er gen au)]"
    using med_scores_shape [of s er au eye gen] by blast
  let ?w = "real v1 * 1.2 + real v2 * 1.2 + real (med_assess_sleep_problems eye) +
            real (med_assess_fatigue eye au) + real (0::nat) * 0.8 +
            real (med_assess_self_worth eye au) * 1.1 +
            real (med_assess_concentration eye) * 0.9 +
            real (med_assess_psychomotor s au) + real (med_assess_suicidal_risk er gen au) * 1.5"
  have tot: "ms_total (med_calculate_phq9_scores s er au eye gen) = py_int ((?w / (291 / 10)) * 27)"
    unfolding med_total_eq [of s er au eye gen] sc med_weighted_expand med_max_weighted ..
  have b: "real v1 \<le> 3" "real v2 \<le> 3" "real (med_assess_sleep_problems eye) \<le> 3"
    "real (med_assess_fatigue eye au) \<le> 3" "real (med_assess_self_worth eye au) \<le> 3"
    "real (med_assess_concentration eye) \<le> 3" "real (med_assess_psychomotor s au) \<le> 3"
    "real (med_assess_suicidal_risk er gen au) \<le> 3"
    using v med_item_bounds by simp_all
  have lo: "0 \<le> ?w" by simp
  have hi: "?w \<le> 291 / 10" using b by simp
  from lo have "0 \<le> ?w / (291 / 10)" by simp
  moreover from hi have "?w / (291 / 10) \<le> 1" by simp
  ultimately show ?thesis unfolding tot by (rule py_int_unit_range)
qed

lemma med_assess_fields:
  "md_phq9_scores (snd (med_assess s ts er au eye gen micro)) =
     med_calculate_phq9_scores
       (s\<lparr>med_emotion_history := deque_append (history_length s) (med_emotion_history s) er,
          med_au_history := deque_append (history_length s) (med_au_history s) au,
          med_eye_history := deque_append (history_length s) (med_eye_history s) eye,
          med_genuineness_history :=
            deque_append (history_length s) (med_genuineness_history s) gen,
          med_timestamp_history := deque_append (history_length s) (med_timestamp_history s) ts\<rparr>)
       er au eye gen"
  "md_total_score (snd (med_assess s ts er au eye gen micro)) =
     ms_total (md_phq9_scores (snd (med_assess s ts er au eye gen micro)))"
  "md_severity (snd (med_assess s ts er au eye gen micro)) =
     ms_severity (md_phq9_scores (snd (med_assess s ts er au eye gen micro)))"
  by (simp_all add: med_assess_def Let_def split del: if_split)

lemma med_alert_recommended:
  "1 \<le> med_score (md_phq9_scores (snd (med_assess s ts er au eye gen micro)))
          ''suicidal_thoughts'' \<Longrightarrow>
   Med_rec_suicide_alert \<in> set (md_recommendations (snd (med_assess s ts er au eye gen micro)))"
  by (simp add: med_assess_def Let_def med_generate_recommendations_def split del: if_split)

lemma med_example_scores:
  "med_calculate_phq9_scores
     ((med_init 900)\<lparr>med_emotion_history := [\<lparr>mr_emotion = Some ''sad'', mr_confidence = Some 0.9\<rparr>],
        med_au_history := [\<lparr>mu_aus = None, mu_depression_score = None\<rparr>],
        med_eye_history := [\<lparr>my_fatigue = None, my_blink_rate = None, my_gaze_duration = None,
          my_blink_irregularity = None\<rparr>],
        med_genuineness_history := [\<lparr>mg_duchenne_smile = None, mg_is_genuine = None,
          mg_fake_probability = None\<rparr>],
        med_timestamp_history := [0]\<rparr>)
     \<lparr>mr_emotion = Some ''sad'', mr_confidence = Some 0.9\<rparr>
     \<lparr>mu_aus = None, mu_depression_score = None\<rparr>
     \<lparr>my_fatigue = None, my_blink_rate = None, my_gaze_duration = None,
      my_blink_irregularity = None\<rparr>
     \<lparr>mg_duchenne_smile = None, mg_is_genuine = None, mg_fake_probability = None\<rparr> =
   \<lparr>ms_scores =
      [(''anhedonia'', 3), (''depressed_mood'', 2), (''sleep_problems'', 0),
       (''fatigue'', 0), (''appetite_changes'', 0), (''low_self_worth'', 0),
       (''concentration_problems'', 0), (''psychomotor_changes'', 1),
       (''suicidal_thoughts'', 1)],
    ms_total = 7, ms_severity = ''mild'', ms_risk_level = ''mild''\<rparr>"
  by (simp add: med_calculate_phq9_scores_def med_init_def Let_def
      med_au_intensity_def med_aus_def med_au_active_def count_where_def opt_default_def
      med_assess_sleep_problems_def med_assess_fatigue_def med_assess_self_worth_def
      med_assess_concentration_def med_assess_psychomotor_def med_assess_suicidal_risk_def
      med_active_aus_def med_symptom_weight_def PHQ9_SYMPTOMS_def py_int_def
      med_determine_severity_def RISK_LEVELS_def)

text \<open>
  What \<^verbatim>\<open>assess\<close> reports: the total lies in 0..27, the tier is the band of the total
  (0-4 minimal, 5-9 mild, 10-14 moderate, 15-19 moderately_severe, 20-27 severe) whatever
  the sub-scores are, and a self-harm sub-score of at least 1 adds the crisis alert to the
  recommendations.
\<close>

lemma med_severity_band_of_total:
  fixes s ts er au eye gen micro
  defines "a \<equiv> snd (med_assess s ts er au eye gen micro)"
  shows "0 \<le> md_total_score a \<and> md_total_score a \<le> 27 \<and>
     md_severity a =
       (if md_total_score a \<le> 4 then ''minimal''
        else if md_total_score a \<le> 9 then ''mild''
        else if md_total_score a \<le> 14 then ''moderate''
        else if md_total_score a \<le> 19 then ''moderately_severe''
        else ''severe'') \<and>
     (1 \<le> med_score (md_phq9_scores a) ''suicidal_thoughts'' \<longrightarrow>
        Med_rec_suicide_alert \<in> set (md_recommendations a))"
proof -
  let ?s1 = "s\<lparr>med_emotion_history := deque_append (history_length s) (med_emotion_history s) er,
          med_au_history := deque_append (history_length s) (med_au_history s) au,
          med_eye_history := deque_append (history_length s) (med_eye_history s) eye,
          med_genuineness_history :=
            deque_append (history_length s) (med_genuineness_history s) gen,
          med_timestamp_history := deque_append (history_length s) (med_timestamp_history s) ts\<rparr>"
  let ?sc = "med_calculate_phq9_scores ?s1 er au eye gen"
  have sc: "md_phq9_scores a = ?sc" unfolding a_def by (rule med_assess_fields(1))
  have tot: "md_total_score a = ms_total ?sc"
    unfolding a_def med_assess_fields(2) med_assess_fields(1) ..
  have sev: "md_severity a = ms_severity ?sc"
    unfolding a_def med_assess_fields(3) med_assess_fields(1) ..
  from med_total_range [of ?s1 er au eye gen] tot
  have range: "0 \<le> md_total_score a" "md_total_score a \<le> 27" by simp_all
  have "md_severity a = fst (med_determine_severity (md_total_score a))"
    unfolding sev tot by (rule med_severity_eq)
  with range have band: "md_severity a =
       (if md_total_score a \<le> 4 then ''minimal''
        else if md_total_score a \<le> 9 then ''mild''
        else if md_total_score a \<le> 14 then ''moderate''
        else if md_total_score a \<le> 19 then ''moderately_severe''
        else ''severe'')"
    by (simp add: med_determine_severity_bands)
  have alert: "1 \<le> med_score (md_phq9_scores a) ''suicidal_thoughts'' \<longrightarrow>
        Med_rec_suicide_alert \<in> set (md_recommendations a)"
    unfolding a_def using med_alert_recommended by blast
  from range band alert show ?thesis by blast
qed

subsection \<open>Counting micro-expressions\<close>

lemma map_of_dict_set: "map_of (dict_set k v d) = (map_of d)(k \<mapsto> v)"
  by (induction d) (auto simp: fun_eq_iff)

lemma keys_dict_set: "fst ` set (dict_set k v d) = insert k (fst ` set d)"
proof (induction d)
  case Nil
  then show ?case by simp
next
  case (Cons p d)
  obtain k' v' where p: "p = (k', v')" by (cases p)
  show ?case
  proof (cases "k' = k")
    case True
    with p show ?thesis by simp
  next
    case False
    with p Cons show ?thesis by (simp add: insert_commute)
  qed
qed

lemma distinct_dict_set: "distinct (map fst d) \<Longrightarrow> distinct (map fst (dict_set k v d))"
proof (induction d)
  case Nil
  then show ?case by simp
next
  case (Cons p d)
  obtain k' v' where p: "p = (k', v')" by (cases p)
  show ?case
  proof (cases "k' = k")
    case True
    with Cons.prems p show ?thesis by simp
  next
    case False
    from Cons have "distinct (map fst (dict_set k v d))" by simp
    moreover from Cons.prems p False have "k' \<notin> fst ` set (dict_set k v d)"
      by (simp add: keys_dict_set)
    ultimately show ?thesis using p False by simp
  qed
qed

lemma sum_dict_set:
  "distinct (map fst d) \<Longrightarrow>
   sum_list (map snd (dict_set k v d)) + opt_default 0 (map_of d k) =
   sum_list (map snd d) + (v::nat)"
proof (induction d)
  case Nil
  then show ?case by (simp add: opt_default_def)
next
  case (Cons p d)
  obtain k' v' where p: "p = (k', v')" by (cases p)
  show ?case
  proof (cases "k' = k")
    case True
    with p show ?thesis by (simp add: opt_default_def)
  next
    case False
    from Cons have "sum_list (map snd (dict_set k v d)) + opt_default 0 (map_of d k) =
      sum_list (map snd d) + v" by simp
    with p False show ?thesis by simp
  qed
qed

lemma elem_le_sum_list_map: "x \<in> set xs \<Longrightarrow> (f x :: nat) \<le> sum_list (map f xs)"
  by (induction xs) auto

lemma ged_counts_fold:
  fixes step
  defines "step \<equiv> (\<lambda>micro counts.
             let emotion = opt_default ''neutral'' (gm_emotion micro)
             in dict_set emotion (opt_default 0 (map_of counts emotion) + 1) counts)"
  assumes "distinct (map fst acc)"
  shows "distinct (map fst (fold step ms acc)) \<and>
         (\<forall>e. opt_default 0 (map_of (fold step ms acc) e) =
              opt_default 0 (map_of acc e) + count_list (micro_labels ms) e) \<and>
         sum_list (map snd (fold step ms acc)) = sum_list (map snd acc) + length ms"
  using assms(2)
proof (induction ms arbitrary: acc)
  case Nil
  then show ?case by (simp add: micro_labels_def)
next
  case (Cons m ms)
  let ?l = "opt_default ''neutral'' (gm_emotion m)"
  let ?acc = "dict_set ?l (opt_default 0 (map_of acc ?l) + 1) acc"
  have st: "step m acc = ?acc" by (simp add: step_def Let_def)
  from Cons.prems have d: "distinct (map fst ?acc)" by (rule distinct_dict_set)
  from sum_dict_set [OF Cons.prems, of ?l "opt_default 0 (map_of acc ?l) + 1"]
  have s: "sum_list (map snd ?acc) = sum_list (map snd acc) + 1" by simp
  have c: "opt_default 0 (map_of ?acc e) =
           opt_default 0 (map_of acc e) + (if ?l = e then 1 else 0)" for e
    by (simp add: map_of_dict_set opt_default_def)
  have lab: "micro_labels (m # ms) = ?l # micro_labels ms" by (simp add: micro_labels_def)
  from Cons.IH [OF d] have
    i1: "distinct (map fst (fold step ms ?acc))" and
    i2: "\<And>e. opt_default 0 (map_of (fold step ms ?acc) e) =
              opt_default 0 (map_of ?acc e) + count_list (micro_labels ms) e" and
    i3: "sum_list (map snd (fold step ms ?acc)) = sum_list (map snd ?acc) + length ms"
    by blast+
  have f: "fold step (m # ms) acc = fold step ms ?acc" by (simp add: st)
  show ?case unfolding f lab using i1 i2 i3 s c by simp
qed

lemma ged_counts_facts:
  "opt_default 0 (map_of (ged_micro_emotion_counts ms) e) = count_list (micro_labels ms) e"
  "sum_list (map snd (ged_micro_emotion_counts ms)) = length ms"
  using ged_counts_fold [of "[]" ms]
  by (simp_all add: ged_micro_emotion_counts_def opt_default_def)

lemma ged_concealed_positive:
  assumes macro: "macro_emotion = ''happiness'' \<or> macro_emotion = ''neutral''"
    and micro: "m \<in> set micro_emotions"
    and lab: "gm_emotion m = Some ''sadness'' \<or> gm_emotion m = Some ''fear''"
  shows "0 < inconsistency_score (ged_detect_concealed_depression macro_emotion micro_emotions)"
proof -
  let ?cnt = "\<lambda>e. opt_default 0 (map_of (ged_micro_emotion_counts micro_emotions) e)"
  let ?hidden = "filter (\<lambda>e. ?cnt e > 0) [''sadness'', ''fear'', ''anger'']"
  obtain e where e: "e = ''sadness'' \<or> e = ''fear''" and ge: "gm_emotion m = Some e"
    using lab by blast
  from micro ge have "e \<in> set (micro_labels micro_emotions)"
    by (force simp: micro_labels_def opt_default_def)
  then have "count_list (micro_labels micro_emotions) e \<noteq> 0"
    by (simp add: count_list_0_iff)
  then have pos: "0 < ?cnt e" by (simp add: ged_counts_facts(1))
  with e have "e \<in> set ?hidden" by auto
  then have "?cnt e \<le> sum_list (map ?cnt ?hidden)"
    by (rule elem_le_sum_list_map)
  with pos have h: "0 < sum_list (map ?cnt ?hidden)" by linarith
  from micro have t: "0 < length micro_emotions" by (cases micro_emotions) auto
  have "inconsistency_score (ged_detect_concealed_depression macro_emotion micro_emotions) =
        real (sum_list (map ?cnt ?hidden)) / real (length micro_emotions)"
    using macro t by (auto simp: ged_detect_concealed_depression_def Let_def ged_counts_facts(2))
  with h t show ?thesis by simp
qed

lemma med_concealed_positive:
  assumes macro: "mr_emotion emotion_result = None \<or> mr_emotion emotion_result = Some ''neutral''"
    and micro: "m \<in> set micro_expressions"
    and lab: "mm_emotion m = Some ''sadness'' \<or> mm_emotion m = Some ''fear''"
    and fp: "0 \<le> opt_default 0 (mg_fake_probability genuineness_result)"
  shows "0 < mc_inconsistency_score
           (med_detect_concealed_depression emotion_result micro_expressions genuineness_result)"
proof -
  let ?p = "\<lambda>m. mm_emotion m \<in> {Some ''sadness'', Some ''fear'', Some ''anger''}"
  from micro lab have "m \<in> set (filter ?p micro_expressions)" by auto
  then have "0 < count_where ?p micro_expressions"
    unfolding count_where_def by (metis length_pos_if_in_set)
  moreover from macro have "opt_default ''neutral'' (mr_emotion emotion_result) = ''neutral''"
    by (auto simp: opt_default_def)
  ultimately have "mc_inconsistency_score
      (med_detect_concealed_depression emotion_result micro_expressions genuineness_result) =
    (if \<not> opt_default True (mg_is_genuine genuineness_result) then 0.4 + 0.3 else 0.4) +
    opt_default 0 (mg_fake_probability genuineness_result) * 0.3"
    by (simp add: med_detect_concealed_depression_def Let_def)
  with fp show ?thesis by (simp split: if_splits) 
qed

subsection \<open>The genuineness of a smile\<close>

lemma length_np_diff: "length (np_diff xs) = length xs - 1"
  by (simp add: np_diff_def)

lemma length_last_n: "length (last_n n xs) = min n (length xs)"
  by (simp add: last_n_def)

lemma ged_onset_natural_smooth:
  assumes "\<forall>d \<in> set (np_diff (last_n 10 (au_intensity_history s au_name))).
             \<bar>d\<bar> < onset_threshold s"
  shows "ged_check_onset_naturalness s au_name"
proof (cases "length (au_intensity_history s au_name) < 10")
  case True
  then show ?thesis by (simp add: ged_check_onset_naturalness_def)
next
  case False
  let ?changes = "np_diff (last_n 10 (au_intensity_history s au_name))"
  from False have len: "length ?changes = 9"
    by (simp add: length_np_diff length_last_n)
  then have ne: "set (map abs ?changes) \<noteq> {}" by auto
  have "Max (set (map abs ?changes)) < onset_threshold s"
    using assms ne by (subst Max_less_iff) auto
  moreover from len have "?changes \<noteq> []" by auto
  ultimately show ?thesis using False
    by (simp add: ged_check_onset_naturalness_def Let_def)
qed

lemma ged_smile_score:
  assumes au6: "map_of au_results ''AU6'' = Some d6" "ga_active d6 = Some True"
    and au12: "map_of au_results ''AU12'' = Some d12" "ga_active d12 = Some True"
    and dur: "0.5 \<le> emotion_duration s" "emotion_duration s \<le> 4"
    and nat: "ged_check_onset_naturalness s ''AU12''"
  shows "0.7 \<le> gr_genuineness_score (ged_analyze_smile_genuineness s au_results) \<and>
         gr_is_genuine (ged_analyze_smile_genuineness s au_results)"
  using assms
  by (simp add: ged_analyze_smile_genuineness_def Let_def ged_check_offset_naturalness_def
      opt_default_def)

lemma ged_other_label_default:
  assumes "emotion \<notin> {''happiness'', ''sadness'', ''anger'', ''fear'', ''disgust''}"
    and "ged_analyze s emotion au_results timestamp = Some (s', r)"
  shows "gr_genuineness_score r = 0.5 \<and> gr_is_genuine r"
  using assms by (auto simp: ged_analyze_def Let_def split: option.splits)

text \<open>What \<^verbatim>\<open>analyze\<close> returns for a label outside its own vocabulary.\<close>

lemma ged_analyze_other_label:
  assumes "emotion \<notin> {''happiness'', ''sadness'', ''anger'', ''fear'', ''disgust''}"
    and "ged_track s emotion au_results timestamp = Some s1"
  shows "ged_analyze s emotion au_results timestamp =
     Some (s1\<lparr>total_emotions := total_emotions s1 + 1, genuine_count := genuine_count s1 + 1\<rparr>,
           \<lparr>gr_emotion = emotion, gr_is_genuine = True, gr_confidence = 0.5,
            gr_genuineness_score = 0.5,
            gr_indicators = dict_update [] (ged_analyze_temporal_consistency s1),
            gr_fake_probability = 0.5\<rparr>)"
  using assms by (simp add: ged_analyze_def Let_def)

subsection \<open>The recogniser's probabilities\<close>

lemma nonneg_dict_add: "0 \<le> x \<Longrightarrow> nonneg_scores d \<Longrightarrow> nonneg_scores (dict_add k x d)"
  by (induction d) (auto simp: nonneg_scores_def dict_add_def split: if_splits)

lemma nonneg_micro:
  "nonneg_scores sc \<Longrightarrow> nonneg_scores (er_score_micro_expressions ms sc)"
  unfolding er_score_micro_expressions_def
  by (induction ms arbitrary: sc) (auto simp: nonneg_dict_add split: option.splits)

lemma nonneg_blocks:
  "nonneg_scores sc \<Longrightarrow> nonneg_scores (er_score_happy au sc)"
  "nonneg_scores sc \<Longrightarrow> nonneg_scores (er_score_sad au sc)"
  "nonneg_scores sc \<Longrightarrow> nonneg_scores (er_score_angry au sc)"
  "nonneg_scores sc \<Longrightarrow> nonneg_scores (er_score_disgust au sc)"
  "nonneg_scores sc \<Longrightarrow> nonneg_scores (er_score_fear au sc)"
  "nonneg_scores sc \<Longrightarrow> nonneg_scores (er_score_surprise au sc)"
  by (simp_all add: er_score_happy_def er_score_sad_def er_score_angry_def
      er_score_disgust_def er_score_fear_def er_score_surprise_def Let_def nonneg_dict_add)

lemma nonneg_emotion_scores: "nonneg_scores (er_emotion_scores au_data)"
proof -
  have "nonneg_scores (map (\<lambda>e. (e, 0)) EMOTIONS)"
    by (simp add: nonneg_scores_def EMOTIONS_def)
  then show ?thesis
    unfolding er_emotion_scores_def Let_def
    by (intro nonneg_blocks nonneg_micro)
qed

lemma nonneg_sum: "nonneg_scores d \<Longrightarrow> 0 \<le> sum_list (map snd d)"
  by (induction d) (auto simp: nonneg_scores_def)

lemma nonneg_elem_le_sum:
  "nonneg_scores d \<Longrightarrow> (k, v) \<in> set d \<Longrightarrow> 0 \<le> v \<and> v \<le> sum_list (map snd d)"
proof (induction d)
  case Nil
  then show ?case by simp
next
  case (Cons p d)
  then have nd: "nonneg_scores d" and p0: "0 \<le> snd p"
    by (auto simp: nonneg_scores_def)
  from nonneg_sum [OF nd] have s0: "0 \<le> sum_list (map snd d)" .
  show ?case
  proof (cases "(k, v) = p")
    case True
    with p0 s0 show ?thesis by auto
  next
    case False
    with Cons.prems have "(k, v) \<in> set d" by auto
    with Cons.IH nd have "0 \<le> v \<and> v \<le> sum_list (map snd d)" by blast
    with p0 show ?thesis by auto
  qed
qed

lemma sum_normalised:
  "sum_list (map snd (map (\<lambda>(e, s). (e, s / t)) d)) = sum_list (map snd d) / (t::real)"
  by (induction d) (auto simp: add_divide_distrib)

text \<open>
  The AU rule path of the recogniser normalises its scores: over the reals the
  probabilities sum to 1 and lie in [0, 1].
\<close>

lemma er_au_probabilities_distribution:
  "prob_sum (probabilities (er_recognize_by_au au_data)) = 1 \<and>
   (\<forall>(e, p) \<in> set (probabilities (er_recognize_by_au au_data)). 0 \<le> p \<and> p \<le> 1)"
proof (cases "0 < sum_list (map snd (er_emotion_scores au_data))")
  case True
  let ?sc = "er_emotion_scores au_data"
  let ?t = "sum_list (map snd ?sc)"
  have pr: "probabilities (er_recognize_by_au au_data) = map (\<lambda>(e, s). (e, s / ?t)) ?sc"
    using True by (simp add: er_recognize_by_au_def Let_def)
  have "prob_sum (probabilities (er_recognize_by_au au_data)) = 1"
    unfolding pr prob_sum_def sum_normalised using True by simp
  moreover have "\<forall>(e, p) \<in> set (map (\<lambda>(e, s). (e, s / ?t)) ?sc). 0 \<le> p \<and> p \<le> 1"
  proof (intro ballI, clarify)
    fix e p assume "(e, p) \<in> set (map (\<lambda>(e, s). (e, s / ?t)) ?sc)"
    then obtain s where s: "(e, s) \<in> set ?sc" and p: "p = s / ?t" by auto
    from nonneg_elem_le_sum [OF nonneg_emotion_scores s] have "0 \<le> s" "s \<le> ?t" by simp_all
    with True p show "0 \<le> p \<and> p \<le> 1" by simp
  qed
  ultimately show ?thesis unfolding pr by blast
next
  case False
  then have pr: "probabilities (er_recognize_by_au au_data) =
      dict_set ''neutral'' 1.0 (map (\<lambda>e. (e, 0.0)) EMOTIONS)"
    by (simp add: er_recognize_by_au_def Let_def)
  show ?thesis unfolding pr by (simp add: prob_sum_def EMOTIONS_def)
qed

text \<open>The fallback path never returns a distribution: its values sum to 0.76 or 0.16.\<close>

lemma er_simple_rule_sum:
  "prob_sum (probabilities (er_recognize_by_simple_rule face)) = 19 / 25 \<or>
   prob_sum (probabilities (er_recognize_by_simple_rule face)) = 4 / 25"
  by (simp add: er_recognize_by_simple_rule_def Let_def prob_sum_def EMOTIONS_def
      opt_default_def)

subsection \<open>Smoothing windows\<close>

lemma deque_append_full_constant: "deque_append w (replicate w x) x = replicate w x"
proof -
  have "replicate w x @ [x] = replicate (Suc w) x" by (simp add: replicate_append_same)
  then show ?thesis by (simp add: deque_append_def)
qed

lemma np_mean_replicate: "0 < w \<Longrightarrow> np_mean (replicate w (x::real)) = x"
  by (simp add: np_mean_def sum_list_replicate)

lemma adv_smooth_push_constant:
  "adv_smooth_push w (replicate w i, replicate w a) (i, a) =
     ((replicate w i, replicate w a), np_mean (replicate w i), majority_vote (replicate w a))"
  by (simp add: adv_smooth_push_def deque_append_full_constant Let_def)

subsection \<open>Rounding to doubles\<close>

lemma rne_error: "\<bar>of_int (rne m) - m\<bar> \<le> 1 / 2"
  unfolding rne_def Let_def by (auto simp: abs_if) linarith+

lemma rne_ge_floor: "\<lfloor>m\<rfloor> \<le> rne m"
  by (simp add: rne_def Let_def)

lemma rne_eval: "\<bar>m - of_int f\<bar> < 1 / 2 \<Longrightarrow> rne m = f"
proof -
  assume a: "\<bar>m - of_int f\<bar> < 1 / 2"
  show ?thesis
  proof (cases "of_int f \<le> m")
    case True
    with a have fl: "\<lfloor>m\<rfloor> = f" by (intro floor_unique) (auto simp: abs_if)
    with a True show ?thesis by (simp add: rne_def Let_def)
  next
    case False
    with a have fl: "\<lfloor>m\<rfloor> = f - 1" by (intro floor_unique) (auto simp: abs_if)
    with a False show ?thesis by (auto simp: rne_def Let_def abs_if)
  qed
qed

lemma float64_scaled:
  assumes "x \<noteq> 0"
  shows "2 ^ 52 \<le> \<bar>x\<bar> / 2 powr (of_int \<lfloor>log 2 \<bar>x\<bar>\<rfloor> - 52)"
proof -
  let ?e = "\<lfloor>log 2 \<bar>x\<bar>\<rfloor>"
  from assms have p: "0 < \<bar>x\<bar>" by simp
  have "of_int ?e \<le> log 2 \<bar>x\<bar>" by simp
  then have "2 powr (of_int ?e) \<le> 2 powr (log 2 \<bar>x\<bar>)" by simp
  with p have "2 powr (of_int ?e) \<le> \<bar>x\<bar>" by simp
  moreover have "(2::real) powr (of_int ?e) = 2 powr (of_int ?e - 52) * 2 ^ 52"
    by (simp add: powr_diff)
  ultimately have "2 powr (of_int ?e - 52) * 2 ^ 52 \<le> \<bar>x\<bar>" by simp
  then show ?thesis by (simp add: pos_le_divide_eq mult.commute)
qed

lemma float64_error: "\<bar>float64 x - x\<bar> \<le> \<bar>x\<bar> / 2 ^ 53"
proof (cases "x = 0")
  case True
  then show ?thesis by (simp add: float64_def)
next
  case False
  define q :: real where "q = 2 powr (of_int \<lfloor>log 2 \<bar>x\<bar>\<rfloor> - 52)"
  define m where "m = \<bar>x\<bar> / q"
  have q: "0 < q" by (simp add: q_def)
  from float64_scaled [OF False] have m: "2 ^ 52 \<le> m" by (simp add: m_def q_def)
  have x: "x = sgn x * m * q" using q by (simp add: m_def sgn_real_def)
  have f: "float64 x = sgn x * of_int (rne m) * q"
    using False by (simp add: float64_def Let_def q_def m_def)
  have "float64 x - x = sgn x * (of_int (rne m) - m) * q"
    by (subst f, subst (2) x) (simp add: algebra_simps)
  then have "\<bar>float64 x - x\<bar> = \<bar>of_int (rne m) - m\<bar> * q"
    using False q by (simp add: abs_mult sgn_real_def)
  also have "\<dots> \<le> (1 / 2) * q" using rne_error [of m] q by (intro mult_right_mono) simp_all
  also have "\<dots> \<le> (m / 2 ^ 53) * q" using m q by (intro mult_right_mono) simp_all
  also have "\<dots> = \<bar>x\<bar> / 2 ^ 53" using q by (simp add: m_def)
  finally show ?thesis .
qed

lemma float64_pos: "0 < x \<Longrightarrow> 0 < float64 x"
proof -
  assume p: "0 < x"
  then have nz: "x \<noteq> 0" by simp
  define q :: real where "q = 2 powr (of_int \<lfloor>log 2 \<bar>x\<bar>\<rfloor> - 52)"
  define m where "m = \<bar>x\<bar> / q"
  have q: "0 < q" by (simp add: q_def)
  from float64_scaled [OF nz] have m: "2 ^ 52 \<le> m" by (simp add: m_def q_def)
  then have "(4503599627370496 :: int) \<le> \<lfloor>m\<rfloor>" by (simp add: le_floor_iff)
  with rne_ge_floor [of m] have "0 < rne m" by linarith
  moreover have "float64 x = of_int (rne m) * q"
    using p by (simp add: float64_def Let_def q_def m_def)
  ultimately show ?thesis using q by simp
qed

lemma float64_eval:
  assumes "0 < x" and "2 ^ 52 \<le> x * 2 ^ k" and "x * 2 ^ k < 2 ^ 53"
  shows "float64 x = of_int (rne (x * 2 ^ k)) / 2 ^ k"
proof -
  have lg: "log 2 (x * 2 ^ k) = log 2 x + real k"
    using assms(1) by (simp add: log_mult log_nat_power)
  from assms have pos: "0 < x * 2 ^ k" by simp
  have "52 \<le> log 2 (x * 2 ^ k)"
    using assms(2) pos by (simp add: le_log_iff powr_realpow)
  moreover have "log 2 (x * 2 ^ k) < 53"
    using assms(3) pos by (simp add: log_less_iff powr_realpow)
  ultimately have "\<lfloor>log 2 x\<rfloor> = 52 - int k"
    unfolding lg by (intro floor_unique) simp_all
  then have e: "real_of_int \<lfloor>log 2 x\<rfloor> - 52 = - real k" by simp
  have q: "2 powr (- real k) = 1 / 2 ^ k"
    by (simp add: powr_minus powr_realpow divide_inverse)
  have "float64 x = of_int (rne (x / 2 powr (real_of_int \<lfloor>log 2 x\<rfloor> - 52))) *
      2 powr (real_of_int \<lfloor>log 2 x\<rfloor> - 52)"
    using assms(1) by (simp add: float64_def Let_def)
  then show ?thesis unfolding e q by simp
qed

text \<open>The doubles of the literals 0.06 and 0.99, and the product that \<^verbatim>\<open>0.06 * 0.99\<close> is.\<close>

lemma float64_6: "float64 (6 / 100) = 8646911284551352 / 2 ^ 57"
  by (subst float64_eval [where k = 57]) (simp_all add: rne_eval [where f = 8646911284551352])

lemma float64_99: "float64 (99 / 100) = 8917127262193582 / 2 ^ 53"
  by (subst float64_eval [where k = 53]) (simp_all add: rne_eval [where f = 8917127262193582])

lemma float64_prod:
  "float64 (8646911284551352 / 2 ^ 57 * (8917127262193582 / 2 ^ 53)) = 8560442171705838 / 2 ^ 57"
  by (subst float64_eval [where k = 57]) (simp_all add: rne_eval [where f = 8560442171705838])

text \<open>
  A product with a literal factor, both rounded: the result is the exact product up to a
  relative error of \<^verbatim>\<open>2**-51\<close>.
\<close>

lemma float64_mul_bounds:
  assumes t: "0 < t" and c: "0 < c"
  shows "t * c * (1 - 1 / 2 ^ 51) \<le> float64 (t * float64 c)"
    and "float64 (t * float64 c) \<le> t * c * (1 + 1 / 2 ^ 51)"
proof -
  define u :: real where "u = 1 / 2 ^ 53"
  define d where "d = float64 c"
  define p where "p = float64 (t * d)"
  have u: "0 < u" "u < 1" by (simp_all add: u_def)
  from float64_error [of c] c have dc: "c * (1 - u) \<le> d" "d \<le> c * (1 + u)"
    by (simp_all add: d_def u_def abs_if algebra_simps split: if_splits)
  from float64_pos [OF c] have dp: "0 < d" by (simp add: d_def)
  with t have td: "0 < t * d" by simp
  from float64_error [of "t * d"] td have pd: "t * d * (1 - u) \<le> p" "p \<le> t * d * (1 + u)"
    by (simp_all add: p_def u_def abs_if algebra_simps split: if_splits)
  have "t * (c * (1 - u)) * (1 - u) \<le> t * d * (1 - u)"
    using dc(1) t u by (intro mult_right_mono mult_left_mono) simp_all
  with pd(1) have lo: "t * c * ((1 - u) * (1 - u)) \<le> p" by (simp add: mult.assoc)
  have "t * d * (1 + u) \<le> t * (c * (1 + u)) * (1 + u)"
    using dc(2) t u by (intro mult_right_mono mult_left_mono) simp_all
  with pd(2) have hi: "p \<le> t * c * ((1 + u) * (1 + u))" by (simp add: mult.assoc)
  have tc: "0 \<le> t * c" using t c by simp
  have "(1 - 1 / 2 ^ 51 :: real) \<le> (1 - u) * (1 - u)" by (simp add: u_def)
  then have "t * c * (1 - 1 / 2 ^ 51) \<le> t * c * ((1 - u) * (1 - u))"
    using tc by (rule mult_left_mono)
  with lo show "t * c * (1 - 1 / 2 ^ 51) \<le> float64 (t * float64 c)"
    by (simp add: p_def d_def)
  have "(1 + u) * (1 + u) \<le> (1 + 1 / 2 ^ 51 :: real)" by (simp add: u_def)
  then have "t * c * ((1 + u) * (1 + u)) \<le> t * c * (1 + 1 / 2 ^ 51)"
    using tc by (rule mult_left_mono)
  with hi show "float64 (t * float64 c) \<le> t * c * (1 + 1 / 2 ^ 51)"
    by (simp add: p_def d_def)
qed

subsection \<open>Adaptive thresholds\<close>

lemma INITIAL_THRESHOLDS_pos: "0 < INITIAL_THRESHOLDS au"
  unfolding INITIAL_THRESHOLDS_def
  by (rule float64_pos) (simp add: INITIAL_THRESHOLDS_table_def opt_default_def)

lemma INITIAL_THRESHOLDS_AU1: "INITIAL_THRESHOLDS ''AU1'' = 8646911284551352 / 2 ^ 57"
  using float64_6 by (simp add: INITIAL_THRESHOLDS_def INITIAL_THRESHOLDS_table_def opt_default_def)

lemma adv_adapt_threshold_step_eq:
  "adv_adapt_threshold_step au s = s\<lparr>thresholds := (thresholds s)(au := adapted_threshold s au)\<rparr>"
  by (simp add: adv_adapt_threshold_step_def adapted_threshold_def Let_def)

lemma adapted_threshold_cong:
  "frame_count s' = frame_count s \<Longrightarrow> au_activation_counts s' = au_activation_counts s \<Longrightarrow>
   thresholds s' au = thresholds s au \<Longrightarrow> adapted_threshold s' au = adapted_threshold s au"
  by (simp add: adapted_threshold_def)

lemma adv_adapt_fold:
  "distinct aus \<Longrightarrow>
   frame_count (fold adv_adapt_threshold_step aus s) = frame_count s \<and>
   au_activation_counts (fold adv_adapt_threshold_step aus s) = au_activation_counts s \<and>
   (\<forall>au. thresholds (fold adv_adapt_threshold_step aus s) au =
          (if au \<in> set aus then adapted_threshold s au else thresholds s au))"
proof (induction aus arbitrary: s)
  case Nil
  then show ?case by simp
next
  case (Cons a aus)
  let ?s1 = "adv_adapt_threshold_step a s"
  have s1: "frame_count ?s1 = frame_count s" "au_activation_counts ?s1 = au_activation_counts s"
    "thresholds ?s1 = (thresholds s)(a := adapted_threshold s a)"
    by (simp_all add: adv_adapt_threshold_step_eq)
  from Cons.prems have d: "distinct aus" and na: "a \<notin> set aus" by simp_all
  note ih = Cons.IH [OF d, of ?s1]
  have "thresholds (fold adv_adapt_threshold_step aus ?s1) au =
        (if au \<in> set (a # aus) then adapted_threshold s au else thresholds s au)" for au
  proof (cases "au \<in> set aus")
    case True
    with na have ne: "au \<noteq> a" by auto
    then have "adapted_threshold ?s1 au = adapted_threshold s au"
      by (intro adapted_threshold_cong) (simp_all add: s1)
    with ih True show ?thesis by simp
  next
    case False
    with ih have "thresholds (fold adv_adapt_threshold_step aus ?s1) au = thresholds ?s1 au"
      by simp
    with False show ?thesis by (simp add: s1)
  qed
  with ih show ?case by (simp add: s1)
qed

lemma distinct_AU_DEFINITIONS: "distinct AU_DEFINITIONS"
  by (simp add: AU_DEFINITIONS_def)

lemma adv_adapt_thresholds_at:
  "thresholds (adv_adapt_thresholds s) au =
     (if au \<in> set AU_DEFINITIONS then adapted_threshold s au else thresholds s au)"
  using adv_adapt_fold [OF distinct_AU_DEFINITIONS, of s]
  by (simp add: adv_adapt_thresholds_def)

lemma adapted_threshold_bounds:
  assumes lo: "INITIAL_THRESHOLDS au * 0.5 \<le> thresholds s au"
    and hi: "thresholds s au \<le> INITIAL_THRESHOLDS au * 2.0"
  shows "0.99 * (1 - 1 / 2 ^ 51) * thresholds s au \<le> adapted_threshold s au \<and>
         adapted_threshold s au \<le> 1.01 * (1 + 1 / 2 ^ 51) * thresholds s au \<and>
         INITIAL_THRESHOLDS au * 0.5 \<le> adapted_threshold s au \<and>
         adapted_threshold s au \<le> INITIAL_THRESHOLDS au * 2.0"
proof -
  define t where "t = thresholds s au"
  define l where "l = INITIAL_THRESHOLDS au * 0.5"
  define h where "h = INITIAL_THRESHOLDS au * 2.0"
  define A :: real where "A = 0.99 * (1 - 1 / 2 ^ 51)"
  define B :: real where "B = 1.01 * (1 + 1 / 2 ^ 51)"
  from INITIAL_THRESHOLDS_pos [of au] lo have pos: "0 < t" by (simp add: t_def)
  from lo hi have lh: "l \<le> t" "t \<le> h" by (simp_all add: l_def h_def t_def)
  have AB: "A \<le> 1" "1 \<le> B" by (simp_all add: A_def B_def)
  from pos AB have self: "A * t \<le> t" "t \<le> B * t" by simp_all
  have clip: "A * t \<le> np_clip p l h \<and> np_clip p l h \<le> B * t \<and>
              l \<le> np_clip p l h \<and> np_clip p l h \<le> h"
    if "A * t \<le> p" "p \<le> B * t" for p
    using that lh self by (auto simp: np_clip_def min_def max_def)
  have up: "A * t \<le> float64 (t * float64 1.01)" "float64 (t * float64 1.01) \<le> B * t"
  proof -
    from float64_mul_bounds [OF pos, of "1.01"]
    have 1: "t * 1.01 * (1 - 1 / 2 ^ 51) \<le> float64 (t * float64 1.01)"
      and 2: "float64 (t * float64 1.01) \<le> t * 1.01 * (1 + 1 / 2 ^ 51)" by simp_all
    have "A * t \<le> t * 1.01 * (1 - 1 / 2 ^ 51)"
      using pos by (simp add: A_def)
    with 1 show "A * t \<le> float64 (t * float64 1.01)" by simp
    from 2 show "float64 (t * float64 1.01) \<le> B * t" by (simp add: B_def mult.commute)
  qed
  have down: "A * t \<le> float64 (t * float64 0.99)" "float64 (t * float64 0.99) \<le> B * t"
  proof -
    from float64_mul_bounds [OF pos, of "0.99"]
    have 1: "t * 0.99 * (1 - 1 / 2 ^ 51) \<le> float64 (t * float64 0.99)"
      and 2: "float64 (t * float64 0.99) \<le> t * 0.99 * (1 + 1 / 2 ^ 51)" by simp_all
    from 1 show "A * t \<le> float64 (t * float64 0.99)" by (simp add: A_def mult.commute)
    have "t * 0.99 * (1 + 1 / 2 ^ 51) \<le> B * t"
      using pos by (simp add: B_def)
    with 2 show "float64 (t * float64 0.99) \<le> B * t" by simp
  qed
  have "adapted_threshold s au = t \<or>
        adapted_threshold s au = np_clip (float64 (t * float64 1.01)) l h \<or>
        adapted_threshold s au = np_clip (float64 (t * float64 0.99)) l h \<or>
        adapted_threshold s au = np_clip t l h"
    by (simp add: adapted_threshold_def Let_def t_def l_def h_def)
  then have "A * t \<le> adapted_threshold s au \<and> adapted_threshold s au \<le> B * t \<and>
        l \<le> adapted_threshold s au \<and> adapted_threshold s au \<le> h"
    using clip [OF up] clip [OF down] clip [OF self] lh self by (elim disjE) simp_all
  then show ?thesis by (simp add: A_def B_def t_def l_def h_def)
qed

lemma adv_detect_au_thresholds: "thresholds (fst (adv_detect_au s au f)) = thresholds s"
  by (simp add: adv_detect_au_def Let_def split: prod.split)

lemma adv_detect_loop_thresholds: "thresholds (fst (adv_detect_loop s fs res)) = thresholds s"
proof (induction s fs res rule: adv_detect_loop.induct)
  case (1 s res)
  then show ?case by simp
next
  case (2 s au_name feature_value rest res)
  show ?case
  proof (cases "au_name \<in> set AU_DEFINITIONS")
    case False
    with 2 show ?thesis by simp
  next
    case True
    obtain s' r where d: "adv_detect_au s au_name feature_value = (s', r)"
      by (cases "adv_detect_au s au_name feature_value")
    from adv_detect_au_thresholds [of s au_name feature_value] d
    have "thresholds s' = thresholds s" by simp
    with "2.IH"(2) [OF _ d [symmetric]] True d show ?thesis by simp
  qed
qed

lemma adv_update_baseline_thresholds: "thresholds (adv_update_baseline s fs) = thresholds s"
proof -
  have "thresholds (fold (\<lambda>(au_name, v) s'.
                       if au_name \<in> set AU_DEFINITIONS
                       then s'\<lparr>adv_baseline_buffer := (adv_baseline_buffer s')
                                 (au_name := deque_append (adv_baseline_frames s')
                                               (adv_baseline_buffer s' au_name) v)\<rparr>
                       else s') fs s) = thresholds s"
    by (induction fs arbitrary: s) (auto split: prod.splits)
  then show ?thesis by (simp add: adv_update_baseline_def Let_def)
qed

lemma adv_detect_micro_thresholds:
  "thresholds (fst (adv_detect_micro_expressions s res)) = thresholds s"
  by (simp add: adv_detect_micro_expressions_def Let_def)

lemma adv_detect_thresholds:
  "\<exists>s3. thresholds s3 = thresholds s \<and>
     (thresholds (fst (adv_detect s fs)) = thresholds (adv_adapt_thresholds s3) \<or>
      thresholds (fst (adv_detect s fs)) = thresholds s)"
proof -
  define s0 where "s0 = s\<lparr>frame_count := frame_count s + 1\<rparr>"
  define s1 where "s1 = (if \<not> adv_baseline_calibrated s0 then adv_update_baseline s0 fs else s0)"
  obtain s2 res where l: "adv_detect_loop s1 fs [] = (s2, res)"
    by (cases "adv_detect_loop s1 fs []")
  obtain s3 micro where m: "adv_detect_micro_expressions s2 res = (s3, micro)"
    by (cases "adv_detect_micro_expressions s2 res")
  have t1: "thresholds s1 = thresholds s"
    by (simp add: s1_def s0_def adv_update_baseline_thresholds)
  from adv_detect_loop_thresholds [of s1 fs "[]"] l have t2: "thresholds s2 = thresholds s1"
    by simp
  from adv_detect_micro_thresholds [of s2 res] m have t3: "thresholds s3 = thresholds s2"
    by simp
  have "adv_detect s fs =
        (case adv_detect_loop s1 fs [] of
           (s2, res) \<Rightarrow>
             (case adv_detect_micro_expressions s2 res of
                (s3, micro) \<Rightarrow>
                  let s4 = (if adaptive_threshold s3 \<and> adv_baseline_calibrated s3
                            then adv_adapt_thresholds s3 else s3)
                  in (s4, \<lparr>res_au_results = res, adv_micro_expressions = micro,
                           res_baseline_calibrated = adv_baseline_calibrated s4,
                           res_calibration_progress = calibration_progress s4\<rparr>)))"
    unfolding adv_detect_def s1_def s0_def by (simp only: Let_def)
  then have "fst (adv_detect s fs) =
        (if adaptive_threshold s3 \<and> adv_baseline_calibrated s3
         then adv_adapt_thresholds s3 else s3)"
    by (simp only: l m prod.case Let_def fst_conv)
  with t1 t2 t3 show ?thesis by (intro exI [of _ s3]) auto
qed

lemma adv_detect_threshold_step:
  assumes inv: "thresholds_in_range s"
  shows "thresholds_in_range (fst (adv_detect s fs)) \<and>
         0.99 * (1 - 1 / 2 ^ 51) * thresholds s au \<le> thresholds (fst (adv_detect s fs)) au \<and>
         thresholds (fst (adv_detect s fs)) au \<le> 1.01 * (1 + 1 / 2 ^ 51) * thresholds s au"
proof -
  from adv_detect_thresholds [of s fs] obtain s3 where
    t3: "thresholds s3 = thresholds s" and
    alt: "thresholds (fst (adv_detect s fs)) = thresholds (adv_adapt_thresholds s3) \<or>
          thresholds (fst (adv_detect s fs)) = thresholds s" by blast
  have b: "0.99 * (1 - 1 / 2 ^ 51) * thresholds s a \<le> adapted_threshold s3 a \<and>
         adapted_threshold s3 a \<le> 1.01 * (1 + 1 / 2 ^ 51) * thresholds s a \<and>
         INITIAL_THRESHOLDS a * 0.5 \<le> adapted_threshold s3 a \<and>
         adapted_threshold s3 a \<le> INITIAL_THRESHOLDS a * 2.0" for a
    using adapted_threshold_bounds [of a s3] inv
    by (simp add: thresholds_in_range_def t3)
  have p: "0 \<le> thresholds s a" for a
    using inv INITIAL_THRESHOLDS_pos [of a]
    by (simp add: thresholds_in_range_def) (smt (verit) mult_nonneg_nonneg)
  from alt show ?thesis
  proof
    assume e: "thresholds (fst (adv_detect s fs)) = thresholds (adv_adapt_thresholds s3)"
    have v: "thresholds (fst (adv_detect s fs)) a =
             (if a \<in> set AU_DEFINITIONS then adapted_threshold s3 a else thresholds s a)" for a
      unfolding e adv_adapt_thresholds_at t3 ..
    show ?thesis
      unfolding thresholds_in_range_def v
      using b p inv by (auto simp: thresholds_in_range_def)
  next
    assume e: "thresholds (fst (adv_detect s fs)) = thresholds s"
    show ?thesis
      unfolding thresholds_in_range_def e
      using p [of au] inv by (auto simp: thresholds_in_range_def)
  qed
qed

lemma adv_run_thresholds_in_range:
  "thresholds_in_range s \<Longrightarrow> thresholds_in_range (adv_run s frames)"
  unfolding adv_run_def
  by (induction frames arbitrary: s) (simp_all add: adv_detect_threshold_step)

lemma adv_init_thresholds_in_range: "thresholds_in_range (adv_init n adaptive w)"
  using INITIAL_THRESHOLDS_pos by (simp add: thresholds_in_range_def adv_init_def less_imp_le)

subsection \<open>The advanced detector, frame by frame\<close>

lemma adv_calculate_intensity_name:
  "adv_calculate_intensity au x = adv_calculate_intensity [] x"
  by (simp add: adv_calculate_intensity_def)

lemma adv_detect_au_reading:
  "adv_detect_au s au f =
     (let rd = au_reading (smoothing_window s) (adv_baseline s au) (thresholds s au)
                 (adv_au_intensity_history s au) (au_activation_history s au) f
      in (s\<lparr>adv_au_intensity_history := (adv_au_intensity_history s)(au := fst (fst rd)),
            au_activation_history := (au_activation_history s)(au := snd (fst rd)),
            au_activation_counts :=
              (if ar_activated (snd rd)
               then (au_activation_counts s)(au := au_activation_counts s au + 1)
               else au_activation_counts s)\<rparr>,
          snd rd))"
  by (simp add: adv_detect_au_def au_reading_def Let_def
      adv_calculate_intensity_name [of au] split: prod.split split del: if_split)

lemma map_of_dict_set_other: "k' \<noteq> k \<Longrightarrow> map_of (dict_set k v d) k' = map_of d k'"
  by (simp add: map_of_dict_set)

lemma adv_detect_loop_frame:
  "smoothing_window (fst (adv_detect_loop s fs res)) = smoothing_window s \<and>
   adv_baseline (fst (adv_detect_loop s fs res)) = adv_baseline s \<and>
   adv_baseline_calibrated (fst (adv_detect_loop s fs res)) = adv_baseline_calibrated s \<and>
   adaptive_threshold (fst (adv_detect_loop s fs res)) = adaptive_threshold s \<and>
   frame_count (fst (adv_detect_loop s fs res)) = frame_count s \<and>
   (au \<notin> fst ` set fs \<longrightarrow>
      adv_au_intensity_history (fst (adv_detect_loop s fs res)) au =
        adv_au_intensity_history s au \<and>
      au_activation_history (fst (adv_detect_loop s fs res)) au = au_activation_history s au \<and>
      map_of (snd (adv_detect_loop s fs res)) au = map_of res au)"
proof (induction s fs res rule: adv_detect_loop.induct)
  case (1 s res)
  then show ?case by simp
next
  case (2 s au_name feature_value rest res)
  show ?case
  proof (cases "au_name \<in> set AU_DEFINITIONS")
    case False
    with 2 show ?thesis by simp
  next
    case True
    obtain s' r where d: "adv_detect_au s au_name feature_value = (s', r)"
      by (cases "adv_detect_au s au_name feature_value")
    from d have s': "smoothing_window s' = smoothing_window s" "adv_baseline s' = adv_baseline s"
      "adv_baseline_calibrated s' = adv_baseline_calibrated s"
      "adaptive_threshold s' = adaptive_threshold s" "frame_count s' = frame_count s"
      "au \<noteq> au_name \<Longrightarrow> adv_au_intensity_history s' au = adv_au_intensity_history s au"
      "au \<noteq> au_name \<Longrightarrow> au_activation_history s' au = au_activation_history s au"
      by (auto simp: adv_detect_au_reading Let_def)
    from "2.IH"(2) [OF _ d [symmetric]] True
    have ih: "smoothing_window (fst (adv_detect_loop s' rest (dict_set au_name r res))) =
        smoothing_window s' \<and>
      adv_baseline (fst (adv_detect_loop s' rest (dict_set au_name r res))) = adv_baseline s' \<and>
      adv_baseline_calibrated (fst (adv_detect_loop s' rest (dict_set au_name r res))) =
        adv_baseline_calibrated s' \<and>
      adaptive_threshold (fst (adv_detect_loop s' rest (dict_set au_name r res))) =
        adaptive_threshold s' \<and>
      frame_count (fst (adv_detect_loop s' rest (dict_set au_name r res))) = frame_count s' \<and>
      (au \<notin> fst ` set rest \<longrightarrow>
        adv_au_intensity_history (fst (adv_detect_loop s' rest (dict_set au_name r res))) au =
          adv_au_intensity_history s' au \<and>
        au_activation_history (fst (adv_detect_loop s' rest (dict_set au_name r res))) au =
          au_activation_history s' au \<and>
        map_of (snd (adv_detect_loop s' rest (dict_set au_name r res))) au =
          map_of (dict_set au_name r res) au)"
      by simp
    have unf: "adv_detect_loop s ((au_name, feature_value) # rest) res =
               adv_detect_loop s' rest (dict_set au_name r res)"
      using True d by simp
    show ?thesis unfolding unf using ih s' by (auto simp: map_of_dict_set_other)
  qed
qed

lemma adv_detect_loop_lookup:
  assumes "distinct (map fst fs)" and "(au, f) \<in> set fs" and "au \<in> set AU_DEFINITIONS"
  shows "map_of (snd (adv_detect_loop s fs res)) au =
           Some (snd (au_reading (smoothing_window s) (adv_baseline s au) (thresholds s au)
                       (adv_au_intensity_history s au) (au_activation_history s au) f)) \<and>
         adv_au_intensity_history (fst (adv_detect_loop s fs res)) au =
           fst (fst (au_reading (smoothing_window s) (adv_baseline s au) (thresholds s au)
                       (adv_au_intensity_history s au) (au_activation_history s au) f)) \<and>
         au_activation_history (fst (adv_detect_loop s fs res)) au =
           snd (fst (au_reading (smoothing_window s) (adv_baseline s au) (thresholds s au)
                       (adv_au_intensity_history s au) (au_activation_history s au) f))"
  using assms
proof (induction s fs res rule: adv_detect_loop.induct)
  case (1 s res)
  then show ?case by simp
next
  case (2 s au_name feature_value rest res)
  let ?rd = "au_reading (smoothing_window s) (adv_baseline s au) (thresholds s au)
               (adv_au_intensity_history s au) (au_activation_history s au) f"
  from "2.prems" have dr: "distinct (map fst rest)" and nr: "au_name \<notin> fst ` set rest"
    by simp_all
  show ?case
  proof (cases "au_name = au")
    case True
    with "2.prems" nr have f: "feature_value = f" by (auto simp: image_iff)
    obtain s' r where d: "adv_detect_au s au_name feature_value = (s', r)"
      by (cases "adv_detect_au s au_name feature_value")
    from d True f have r: "r = snd ?rd"
      and h: "adv_au_intensity_history s' au = fst (fst ?rd)"
        "au_activation_history s' au = snd (fst ?rd)"
      by (auto simp: adv_detect_au_reading Let_def)
    have unf: "adv_detect_loop s ((au_name, feature_value) # rest) res =
               adv_detect_loop s' rest (dict_set au r res)"
      using True d "2.prems"(3) by simp
    from nr True have "au \<notin> fst ` set rest" by simp
    with adv_detect_loop_frame [of s' rest "dict_set au r res" au]
    show ?thesis unfolding unf by (simp add: r h map_of_dict_set)
  next
    case False
    with "2.prems" have mem: "(au, f) \<in> set rest" by auto
    show ?thesis
    proof (cases "au_name \<in> set AU_DEFINITIONS")
      case nd: False
      with "2.IH"(1) [OF _ dr mem "2.prems"(3)] show ?thesis by simp
    next
      case True
      obtain s' r where d: "adv_detect_au s au_name feature_value = (s', r)"
        by (cases "adv_detect_au s au_name feature_value")
      from d False have s': "smoothing_window s' = smoothing_window s"
        "adv_baseline s' = adv_baseline s" "thresholds s' = thresholds s"
        "adv_au_intensity_history s' au = adv_au_intensity_history s au"
        "au_activation_history s' au = au_activation_history s au"
        by (auto simp: adv_detect_au_reading Let_def)
      have unf: "adv_detect_loop s ((au_name, feature_value) # rest) res =
               adv_detect_loop s' rest (dict_set au_name r res)"
        using True d by simp
      from "2.IH"(2) [OF _ d [symmetric] dr mem "2.prems"(3)] True
      show ?thesis unfolding unf by (simp add: s')
    qed
  qed
qed

lemma adv_adapt_thresholds_only:
  "adv_adapt_thresholds s = s\<lparr>thresholds := thresholds (adv_adapt_thresholds s)\<rparr>"
proof -
  have "fold adv_adapt_threshold_step aus s =
        s\<lparr>thresholds := thresholds (fold adv_adapt_threshold_step aus s)\<rparr>" for aus
  proof (induction aus arbitrary: s)
    case Nil
    then show ?case by simp
  next
    case (Cons a aus)
    let ?s1 = "adv_adapt_threshold_step a s"
    have "fold adv_adapt_threshold_step (a # aus) s = fold adv_adapt_threshold_step aus ?s1"
      by simp
    also have "\<dots> = ?s1\<lparr>thresholds := thresholds (fold adv_adapt_threshold_step aus ?s1)\<rparr>"
      by (rule Cons.IH)
    also have "\<dots> = s\<lparr>thresholds := thresholds (fold adv_adapt_threshold_step aus ?s1)\<rparr>"
      by (simp add: adv_adapt_threshold_step_eq)
    finally show ?case by simp
  qed
  then show ?thesis unfolding adv_adapt_thresholds_def .
qed

lemma adv_adapt_thresholds_early:
  assumes "frame_count s < 100"
  shows "adv_adapt_thresholds s = s"
proof -
  have "thresholds (adv_adapt_thresholds s) = thresholds s"
    using assms by (auto simp: adv_adapt_thresholds_at adapted_threshold_def fun_eq_iff)
  with adv_adapt_thresholds_only [of s] show ?thesis by simp
qed

lemma adv_update_baseline_frame:
  "smoothing_window (adv_update_baseline s fs) = smoothing_window s"
  "adaptive_threshold (adv_update_baseline s fs) = adaptive_threshold s"
  "frame_count (adv_update_baseline s fs) = frame_count s"
  "adv_au_intensity_history (adv_update_baseline s fs) = adv_au_intensity_history s"
  "au_activation_history (adv_update_baseline s fs) = au_activation_history s"
proof -
  let ?step = "\<lambda>(au_name, v) s'.
                       if au_name \<in> set AU_DEFINITIONS
                       then s'\<lparr>adv_baseline_buffer := (adv_baseline_buffer s')
                                 (au_name := deque_append (adv_baseline_frames s')
                                               (adv_baseline_buffer s' au_name) v)\<rparr>
                       else s'"
  have "smoothing_window (fold ?step fs s) = smoothing_window s \<and>
        adaptive_threshold (fold ?step fs s) = adaptive_threshold s \<and>
        frame_count (fold ?step fs s) = frame_count s \<and>
        adv_au_intensity_history (fold ?step fs s) = adv_au_intensity_history s \<and>
        au_activation_history (fold ?step fs s) = au_activation_history s"
    by (induction fs arbitrary: s) (auto split: prod.splits)
  then show "smoothing_window (adv_update_baseline s fs) = smoothing_window s"
    "adaptive_threshold (adv_update_baseline s fs) = adaptive_threshold s"
    "frame_count (adv_update_baseline s fs) = frame_count s"
    "adv_au_intensity_history (adv_update_baseline s fs) = adv_au_intensity_history s"
    "au_activation_history (adv_update_baseline s fs) = au_activation_history s"
    by (simp_all add: adv_update_baseline_def Let_def)
qed

lemma adv_detect_micro_only:
  "fst (adv_detect_micro_expressions s res) =
     s\<lparr>micro_expression_buffer := deque_append 30 (micro_expression_buffer s) res\<rparr>"
  by (simp add: adv_detect_micro_expressions_def Let_def)

lemma adv_detect_view:
  fixes s fs au f
  defines "s1 \<equiv> (if \<not> adv_baseline_calibrated s
                  then adv_update_baseline (s\<lparr>frame_count := frame_count s + 1\<rparr>) fs
                  else s\<lparr>frame_count := frame_count s + 1\<rparr>)"
  defines "rd \<equiv> au_reading (smoothing_window s) (adv_baseline s1 au) (thresholds s au)
                  (adv_au_intensity_history s au) (au_activation_history s au) f"
  assumes d: "distinct (map fst fs)" and m: "(au, f) \<in> set fs"
    and a: "au \<in> set AU_DEFINITIONS" and early: "frame_count s + 1 < 100"
  shows "map_of (res_au_results (snd (adv_detect s fs))) au = Some (snd rd) \<and>
         adv_au_intensity_history (fst (adv_detect s fs)) au = fst (fst rd) \<and>
         au_activation_history (fst (adv_detect s fs)) au = snd (fst rd) \<and>
         adv_baseline (fst (adv_detect s fs)) = adv_baseline s1 \<and>
         adv_baseline_calibrated (fst (adv_detect s fs)) = adv_baseline_calibrated s1 \<and>
         smoothing_window (fst (adv_detect s fs)) = smoothing_window s \<and>
         frame_count (fst (adv_detect s fs)) = frame_count s + 1 \<and>
         thresholds (fst (adv_detect s fs)) = thresholds s"
proof -
  obtain s2 res where l: "adv_detect_loop s1 fs [] = (s2, res)"
    by (cases "adv_detect_loop s1 fs []")
  obtain s3 micro where mi: "adv_detect_micro_expressions s2 res = (s3, micro)"
    by (cases "adv_detect_micro_expressions s2 res")
  have s1f: "smoothing_window s1 = smoothing_window s" "frame_count s1 = frame_count s + 1"
    "thresholds s1 = thresholds s" "adv_au_intensity_history s1 = adv_au_intensity_history s"
    "au_activation_history s1 = au_activation_history s"
    by (simp_all add: s1_def adv_update_baseline_frame adv_update_baseline_thresholds)
  from adv_detect_loop_lookup [OF d m a, of s1 "[]"] l
  have look: "map_of res au = Some (snd rd)" "adv_au_intensity_history s2 au = fst (fst rd)"
    "au_activation_history s2 au = snd (fst rd)"
    by (simp_all add: rd_def s1f)
  from adv_detect_loop_frame [of s1 fs "[]" au] l
  have s2f: "smoothing_window s2 = smoothing_window s1" "adv_baseline s2 = adv_baseline s1"
    "adv_baseline_calibrated s2 = adv_baseline_calibrated s1" "frame_count s2 = frame_count s1"
    by simp_all
  from adv_detect_loop_thresholds [of s1 fs "[]"] l have t2: "thresholds s2 = thresholds s1"
    by simp
  from adv_detect_micro_only [of s2 res] mi
  have s3: "s3 = s2\<lparr>micro_expression_buffer := deque_append 30 (micro_expression_buffer s2) res\<rparr>"
    by simp
  have fc: "frame_count s3 < 100" using early by (simp add: s3 s2f s1f)
  define s0 where "s0 = s\<lparr>frame_count := frame_count s + 1\<rparr>"
  define s1' where "s1' = (if \<not> adv_baseline_calibrated s0 then adv_update_baseline s0 fs else s0)"
  have e: "s1' = s1" by (simp add: s1'_def s0_def s1_def)
  have "adv_detect s fs =
        (case adv_detect_loop s1' fs [] of
           (s2, res) \<Rightarrow>
             (case adv_detect_micro_expressions s2 res of
                (s3, micro) \<Rightarrow>
                  let s4 = (if adaptive_threshold s3 \<and> adv_baseline_calibrated s3
                            then adv_adapt_thresholds s3 else s3)
                  in (s4, \<lparr>res_au_results = res, adv_micro_expressions = micro,
                           res_baseline_calibrated = adv_baseline_calibrated s4,
                           res_calibration_progress = calibration_progress s4\<rparr>)))"
    unfolding adv_detect_def s1'_def s0_def by (simp only: Let_def)
  then have "adv_detect s fs =
        (s3, \<lparr>res_au_results = res, adv_micro_expressions = micro,
               res_baseline_calibrated = adv_baseline_calibrated s3,
               res_calibration_progress = calibration_progress s3\<rparr>)"
    by (simp only: e l mi prod.case Let_def adv_adapt_thresholds_early [OF fc] if_cancel)
  then show ?thesis using look by (simp add: s3 s2f s1f t2)
qed

lemma frames_distinct: "distinct (map fst rest_frame)" "distinct (map fst moved_frame)"
  by (simp_all add: rest_frame_def moved_frame_def)

lemma frames_AU1: "(''AU1'', 1) \<in> set rest_frame" "(''AU1'', 2) \<in> set moved_frame"
  "''AU1'' \<in> set AU_DEFINITIONS"
  by (simp_all add: rest_frame_def moved_frame_def AU_DEFINITIONS_def)

lemma first_frame_calibrates:
  fixes s1
  defines "s1 \<equiv> (if \<not> adv_baseline_calibrated (adv_init 1 True 7)
        then adv_update_baseline
               ((adv_init 1 True 7)\<lparr>frame_count := frame_count (adv_init 1 True 7) + 1\<rparr>) rest_frame
        else (adv_init 1 True 7)\<lparr>frame_count := frame_count (adv_init 1 True 7) + 1\<rparr>)"
  shows "adv_baseline_calibrated s1 \<and>
         map (adv_baseline s1) AU_DEFINITIONS = map (\<lambda>(au, f). Some f) rest_frame"
  unfolding s1_def
  by (simp add: adv_update_baseline_def adv_init_def rest_frame_def AU_DEFINITIONS_def Let_def
      deque_append_def np_median_def)

lemma readings:
  "au_reading 7 (Some 1) (INITIAL_THRESHOLDS ''AU1'') [] [] 1 =
     (([0], [False]),
      \<lparr>ar_activated = True, ar_intensity = 0, ar_raw_value = 1, ar_baseline = 1,
       ar_relative_change = 0\<rparr>)"
  "au_reading 7 (Some 1) (INITIAL_THRESHOLDS ''AU1'') [0] [False] 2 =
     (([0, 5], [False, True]),
      \<lparr>ar_activated = True, ar_intensity = 5 / 2, ar_raw_value = 2, ar_baseline = 1,
       ar_relative_change = 1\<rparr>)"
  "au_reading 7 (Some 1) (INITIAL_THRESHOLDS ''AU1'') [0, 5] [False, True] 1 =
     (([0, 5, 0], [False, True, False]),
      \<lparr>ar_activated = True, ar_intensity = 5 / 3, ar_raw_value = 1, ar_baseline = 1,
       ar_relative_change = 0\<rparr>)"
  by (simp_all add: au_reading_def adv_smooth_push_def deque_append_def np_mean_def
      majority_vote_def count_where_def adv_calculate_intensity_def opt_default_def
      INITIAL_THRESHOLDS_AU1 Let_def)

lemma adv_detect_step_at:
  assumes d: "distinct (map fst fs)" and m: "(au, f) \<in> set fs"
    and a: "au \<in> set AU_DEFINITIONS" and early: "frame_count s + 1 < 100"
    and b: "adv_baseline (if \<not> adv_baseline_calibrated s
                then adv_update_baseline (s\<lparr>frame_count := frame_count s + 1\<rparr>) fs
                else s\<lparr>frame_count := frame_count s + 1\<rparr>) au = b"
    and w: "smoothing_window s = w" and t: "thresholds s au = t"
    and h: "adv_au_intensity_history s au = ih" "au_activation_history s au = ah"
    and rd: "au_reading w b t ih ah f = ((ih', ah'), r)"
  shows "map_of (res_au_results (snd (adv_detect s fs))) au = Some r"
    and "adv_au_intensity_history (fst (adv_detect s fs)) au = ih'"
    and "au_activation_history (fst (adv_detect s fs)) au = ah'"
    and "smoothing_window (fst (adv_detect s fs)) = w"
    and "thresholds (fst (adv_detect s fs)) au = t"
    and "frame_count (fst (adv_detect s fs)) = frame_count s + 1"
    and "adv_baseline (fst (adv_detect s fs)) =
         adv_baseline (if \<not> adv_baseline_calibrated s
                then adv_update_baseline (s\<lparr>frame_count := frame_count s + 1\<rparr>) fs
                else s\<lparr>frame_count := frame_count s + 1\<rparr>)"
    and "adv_baseline_calibrated (fst (adv_detect s fs)) =
         adv_baseline_calibrated (if \<not> adv_baseline_calibrated s
                then adv_update_baseline (s\<lparr>frame_count := frame_count s + 1\<rparr>) fs
                else s\<lparr>frame_count := frame_count s + 1\<rparr>)"
  using adv_detect_view [OF d m a early] b w t h rd by simp_all

subsection \<open>A frame at the baseline\<close>

lemma length_deque_append: "length (deque_append w xs x) = min w (length xs + 1)"
  by (auto simp: deque_append_def)

lemma set_deque_append: "set (deque_append w xs x) \<subseteq> insert x (set xs)"
  by (auto simp: deque_append_def dest: in_set_dropD)

lemma majority_vote_all_false:
  assumes "\<forall>x \<in> set win. \<not> x" and "2 \<le> length win"
  shows "\<not> majority_vote win"
proof -
  from assms(1) have "filter (\<lambda>a. a) win = []" by (simp add: filter_empty_conv)
  then have "count_where (\<lambda>a. a) win = 0" by (simp add: count_where_def)
  moreover from assms(2) have "1 \<le> length win div 2" by simp
  ultimately show ?thesis by (simp add: majority_vote_def)
qed

lemma np_mean_all_zero: "\<forall>x \<in> set xs. x = 0 \<Longrightarrow> np_mean xs = 0"
proof -
  assume "\<forall>x \<in> set xs. x = 0"
  then have "sum_list xs = 0" by (induction xs) auto
  then show ?thesis by (simp add: np_mean_def)
qed

lemma au_reading_at_baseline:
  assumes "0 \<le> thr"
  shows "au_reading w (Some b) thr ih ah b =
     ((deque_append w ih 0, deque_append w ah False),
      \<lparr>ar_activated = majority_vote (deque_append w ah False),
       ar_intensity = np_mean (deque_append w ih 0), ar_raw_value = b, ar_baseline = b,
       ar_relative_change = 0\<rparr>)"
  using assms
  by (simp add: au_reading_def adv_smooth_push_def adv_calculate_intensity_def
      opt_default_def Let_def)

lemma AU_THRESHOLDS_nonneg: "0 \<le> opt_default 0.15 (map_of AU_THRESHOLDS au)"
  by (simp add: AU_THRESHOLDS_def opt_default_def)

subsection \<open>The basic detector's intensity\<close>

text \<open>The advanced detector reports an intensity on the scale from 0 to 5.\<close>

lemma adv_calculate_intensity_range:
  "0 \<le> adv_calculate_intensity au x \<and> adv_calculate_intensity au x \<le> 5"
  by (simp add: adv_calculate_intensity_def)

text \<open>
  The loop of \<^verbatim>\<open>detect\<close> leaves the baseline alone and stores, for every entry of the
  feature dictionary, the relative change against the baseline.
\<close>

lemma aud_detect_au_baseline:
  "aud_detect_au s au f = Some (s', act, i) \<Longrightarrow>
     aud_baseline s' = aud_baseline s \<and>
     aud_baseline_calibrated s' = aud_baseline_calibrated s \<and>
     i = (let b = opt_default f (map_of (aud_baseline s) au)
          in if b \<noteq> 0 then (f - b) / \<bar>b\<bar> else 0)"
  by (auto simp: aud_detect_au_def Let_def split: if_splits)

lemma aud_detect_au_some:
  "au \<in> set (map fst AU_THRESHOLDS) \<Longrightarrow> \<exists>s' act i. aud_detect_au s au f = Some (s', act, i)"
  by (simp add: aud_detect_au_def Let_def)

lemma aud_detect_loop_intensities:
  assumes "distinct (map fst fs)" and "fst ` set fs \<subseteq> set (map fst AU_THRESHOLDS)"
  shows "\<exists>s' acts' ints'.
     aud_detect_loop s fs acts ints = Some (s', acts', ints') \<and>
     aud_baseline s' = aud_baseline s \<and>
     aud_baseline_calibrated s' = aud_baseline_calibrated s \<and>
     (\<forall>k. k \<notin> fst ` set fs \<longrightarrow> map_of ints' k = map_of ints k) \<and>
     (\<forall>(au, f) \<in> set fs.
        map_of ints' au =
          Some (let b = opt_default f (map_of (aud_baseline s) au)
                in if b \<noteq> 0 then (f - b) / \<bar>b\<bar> else 0))"
  using assms
proof (induction fs arbitrary: s acts ints)
  case Nil
  then show ?case by simp
next
  case (Cons p rest)
  obtain au f where p: "p = (au, f)" by (cases p)
  from Cons.prems p have au: "au \<in> set (map fst AU_THRESHOLDS)" and nin: "au \<notin> fst ` set rest"
    and d: "distinct (map fst rest)" and sub: "fst ` set rest \<subseteq> set (map fst AU_THRESHOLDS)"
    by auto
  from aud_detect_au_some [OF au] obtain s1 act i
    where e: "aud_detect_au s au f = Some (s1, act, i)" by blast
  note b = aud_detect_au_baseline [OF e]
  from Cons.IH [OF d sub, of s1 "dict_set au act acts" "dict_set au i ints"]
  obtain s' acts' ints' where
    l: "aud_detect_loop s1 rest (dict_set au act acts) (dict_set au i ints) =
          Some (s', acts', ints')"
    and bs: "aud_baseline s' = aud_baseline s1"
      "aud_baseline_calibrated s' = aud_baseline_calibrated s1"
    and other: "\<forall>k. k \<notin> fst ` set rest \<longrightarrow> map_of ints' k = map_of (dict_set au i ints) k"
    and here: "\<forall>(au, f) \<in> set rest.
        map_of ints' au =
          Some (let b = opt_default f (map_of (aud_baseline s1) au)
                in if b \<noteq> 0 then (f - b) / \<bar>b\<bar> else 0)"
    by blast
  have 1: "aud_detect_loop s (p # rest) acts ints = Some (s', acts', ints')"
    by (simp add: p e l)
  have 2: "aud_baseline s' = aud_baseline s"
    "aud_baseline_calibrated s' = aud_baseline_calibrated s" using bs b by simp_all
  have 3: "\<forall>k. k \<notin> fst ` set (p # rest) \<longrightarrow> map_of ints' k = map_of ints k"
    using other p by (simp add: map_of_dict_set)
  from other nin have "map_of ints' au = Some i" by (simp add: map_of_dict_set)
  with b have 4: "map_of ints' au =
          Some (let b = opt_default f (map_of (aud_baseline s) au)
                in if b \<noteq> 0 then (f - b) / \<bar>b\<bar> else 0)" by simp
  from here b have 5: "\<forall>(au, f) \<in> set rest.
        map_of ints' au =
          Some (let b = opt_default f (map_of (aud_baseline s) au)
                in if b \<noteq> 0 then (f - b) / \<bar>b\<bar> else 0)" by simp
  from 1 2 3 4 5 show ?case unfolding p by (intro exI [of _ s'] exI [of _ acts'] exI [of _ ints']) simp
qed

lemma flat_mouth_calibrates:
  "aud_baseline_calibrated (aud_update_baseline (aud_init 1) flat_mouth_frame) \<and>
   aud_baseline (aud_update_baseline (aud_init 1) flat_mouth_frame) = flat_mouth_frame"
  by (simp add: aud_update_baseline_def aud_update_baseline_step_def aud_init_def
      flat_mouth_frame_def opt_default_def np_mean_def AU_THRESHOLDS_def Let_def)

lemma frames_keys:
  "distinct (map fst flat_mouth_frame)" "distinct (map fst lifted_mouth_frame)"
  "fst ` set flat_mouth_frame \<subseteq> set (map fst AU_THRESHOLDS)"
  "fst ` set lifted_mouth_frame \<subseteq> set (map fst AU_THRESHOLDS)"
  "(''AU12'', 101 / 1000) \<in> set lifted_mouth_frame"
  by (simp_all add: flat_mouth_frame_def lifted_mouth_frame_def AU_THRESHOLDS_def)

text \<open>
  The intensity of the basic detector exceeds every bound for a baseline close enough to 0.
\<close>

lemma aud_intensity_unbounded:
  assumes "0 < M"
  shows "\<exists>b. b \<noteq> 0 \<and>
    (\<exists>s' act i. aud_detect_au ((aud_init 30)\<lparr>aud_baseline := [(''AU12'', b)]\<rparr>) ''AU12'' 1 =
        Some (s', act, i) \<and> M < i)"
proof -
  let ?b = "1 / (M + 2)"
  from assms have b: "0 < ?b" "?b \<noteq> 0" by simp_all
  have "(1 - ?b) / \<bar>?b\<bar> = M + 1"
    using assms by (simp add: field_simps)
  then have "\<exists>s' act. aud_detect_au ((aud_init 30)\<lparr>aud_baseline := [(''AU12'', ?b)]\<rparr>) ''AU12'' 1 =
        Some (s', act, M + 1)"
    using b by (simp add: aud_detect_au_def opt_default_def Let_def AU_THRESHOLDS_def)
  then show ?thesis using b by (intro exI [of _ ?b]) force
qed

subsection \<open>The thresholds over a run of the face at rest\<close>

text \<open>
  One call of \<^verbatim>\<open>detect\<close> seen from one AU of the frame, the adaptation of its threshold
  included.
\<close>

lemma adapted_threshold_cong_at:
  "frame_count s' = frame_count s \<Longrightarrow> au_activation_counts s' au = au_activation_counts s au \<Longrightarrow>
   thresholds s' au = thresholds s au \<Longrightarrow> adapted_threshold s' au = adapted_threshold s au"
  by (simp add: adapted_threshold_def)

lemma adv_detect_loop_counts_other:
  "au \<notin> fst ` set fs \<Longrightarrow>
   au_activation_counts (fst (adv_detect_loop s fs res)) au = au_activation_counts s au"
proof (induction s fs res rule: adv_detect_loop.induct)
  case (1 s res)
  then show ?case by simp
next
  case (2 s au_name feature_value rest res)
  from "2.prems" have ne: "au \<noteq> au_name" and nr: "au \<notin> fst ` set rest" by auto
  show ?case
  proof (cases "au_name \<in> set AU_DEFINITIONS")
    case False
    with "2.IH"(1) [OF _ nr] show ?thesis by simp
  next
    case True
    obtain s' r where d: "adv_detect_au s au_name feature_value = (s', r)"
      by (cases "adv_detect_au s au_name feature_value")
    from d ne have c: "au_activation_counts s' au = au_activation_counts s au"
      by (auto simp: adv_detect_au_reading Let_def split: if_splits)
    from "2.IH"(2) [OF _ d [symmetric] nr] True
    have "au_activation_counts (fst (adv_detect_loop s' rest (dict_set au_name r res))) au =
          au_activation_counts s' au" by simp
    with True d c show ?thesis by simp
  qed
qed

lemma adv_detect_loop_counts:
  assumes "distinct (map fst fs)" and "(au, f) \<in> set fs" and "au \<in> set AU_DEFINITIONS"
  shows "au_activation_counts (fst (adv_detect_loop s fs res)) au =
     au_activation_counts s au +
     (if ar_activated (snd (au_reading (smoothing_window s) (adv_baseline s au) (thresholds s au)
            (adv_au_intensity_history s au) (au_activation_history s au) f)) then 1 else 0)"
  using assms
proof (induction s fs res rule: adv_detect_loop.induct)
  case (1 s res)
  then show ?case by simp
next
  case (2 s au_name feature_value rest res)
  let ?rd = "au_reading (smoothing_window s) (adv_baseline s au) (thresholds s au)
               (adv_au_intensity_history s au) (au_activation_history s au) f"
  from "2.prems" have dr: "distinct (map fst rest)" and nr: "au_name \<notin> fst ` set rest"
    by simp_all
  show ?case
  proof (cases "au_name = au")
    case True
    with "2.prems" nr have f: "feature_value = f" by (auto simp: image_iff)
    obtain s' r where d: "adv_detect_au s au_name feature_value = (s', r)"
      by (cases "adv_detect_au s au_name feature_value")
    from d True f have c: "au_activation_counts s' au =
        au_activation_counts s au + (if ar_activated (snd ?rd) then 1 else 0)"
      by (auto simp: adv_detect_au_reading Let_def)
    have unf: "adv_detect_loop s ((au_name, feature_value) # rest) res =
               adv_detect_loop s' rest (dict_set au r res)"
      using True d "2.prems"(3) by simp
    from nr True have "au \<notin> fst ` set rest" by simp
    from adv_detect_loop_counts_other [OF this, of s' "dict_set au r res"]
    show ?thesis unfolding unf by (simp add: c)
  next
    case False
    with "2.prems" have mem: "(au, f) \<in> set rest" by auto
    show ?thesis
    proof (cases "au_name \<in> set AU_DEFINITIONS")
      case nd: False
      with "2.IH"(1) [OF _ dr mem "2.prems"(3)] show ?thesis by simp
    next
      case True
      obtain s' r where d: "adv_detect_au s au_name feature_value = (s', r)"
        by (cases "adv_detect_au s au_name feature_value")
      from d False have s': "smoothing_window s' = smoothing_window s"
        "adv_baseline s' = adv_baseline s" "thresholds s' = thresholds s"
        "adv_au_intensity_history s' au = adv_au_intensity_history s au"
        "au_activation_history s' au = au_activation_history s au"
        "au_activation_counts s' au = au_activation_counts s au"
        by (auto simp: adv_detect_au_reading Let_def)
      have unf: "adv_detect_loop s ((au_name, feature_value) # rest) res =
               adv_detect_loop s' rest (dict_set au_name r res)"
        using True d by simp
      from "2.IH"(2) [OF _ d [symmetric] dr mem "2.prems"(3)] True
      show ?thesis unfolding unf by (simp add: s')
    qed
  qed
qed

lemma adv_update_baseline_counts:
  "au_activation_counts (adv_update_baseline s fs) = au_activation_counts s"
proof -
  have "au_activation_counts (fold (\<lambda>(au_name, v) s'.
                       if au_name \<in> set AU_DEFINITIONS
                       then s'\<lparr>adv_baseline_buffer := (adv_baseline_buffer s')
                                 (au_name := deque_append (adv_baseline_frames s')
                                               (adv_baseline_buffer s' au_name) v)\<rparr>
                       else s') fs s) = au_activation_counts s"
    by (induction fs arbitrary: s) (auto split: prod.splits)
  then show ?thesis by (simp add: adv_update_baseline_def Let_def)
qed

lemma adv_detect_adapt_view:
  fixes s fs au f
  defines "s1 \<equiv> (if \<not> adv_baseline_calibrated s
                  then adv_update_baseline (s\<lparr>frame_count := frame_count s + 1\<rparr>) fs
                  else s\<lparr>frame_count := frame_count s + 1\<rparr>)"
  defines "rd \<equiv> au_reading (smoothing_window s) (adv_baseline s1 au) (thresholds s au)
                  (adv_au_intensity_history s au) (au_activation_history s au) f"
  defines "c \<equiv> au_activation_counts s au + (if ar_activated (snd rd) then 1 else 0)"
  assumes d: "distinct (map fst fs)" and m: "(au, f) \<in> set fs"
    and a: "au \<in> set AU_DEFINITIONS"
  shows "adv_au_intensity_history (fst (adv_detect s fs)) au = fst (fst rd)"
    and "au_activation_history (fst (adv_detect s fs)) au = snd (fst rd)"
    and "au_activation_counts (fst (adv_detect s fs)) au = c"
    and "adv_baseline (fst (adv_detect s fs)) = adv_baseline s1"
    and "adv_baseline_calibrated (fst (adv_detect s fs)) = adv_baseline_calibrated s1"
    and "smoothing_window (fst (adv_detect s fs)) = smoothing_window s"
    and "adaptive_threshold (fst (adv_detect s fs)) = adaptive_threshold s"
    and "frame_count (fst (adv_detect s fs)) = frame_count s + 1"
    and "thresholds (fst (adv_detect s fs)) au =
          (if adaptive_threshold s \<and> adv_baseline_calibrated s1
           then adapted_threshold
                  (s\<lparr>frame_count := frame_count s + 1,
                     au_activation_counts := (au_activation_counts s)(au := c)\<rparr>) au
           else thresholds s au)"
proof -
  obtain s2 res where l: "adv_detect_loop s1 fs [] = (s2, res)"
    by (cases "adv_detect_loop s1 fs []")
  obtain s3 micro where mi: "adv_detect_micro_expressions s2 res = (s3, micro)"
    by (cases "adv_detect_micro_expressions s2 res")
  have s1f: "smoothing_window s1 = smoothing_window s" "frame_count s1 = frame_count s + 1"
    "thresholds s1 = thresholds s" "adv_au_intensity_history s1 = adv_au_intensity_history s"
    "au_activation_history s1 = au_activation_history s"
    "au_activation_counts s1 = au_activation_counts s"
    "adaptive_threshold s1 = adaptive_threshold s"
    by (simp_all add: s1_def adv_update_baseline_frame adv_update_baseline_thresholds
        adv_update_baseline_counts)
  from adv_detect_loop_lookup [OF d m a, of s1 "[]"] l
  have look: "adv_au_intensity_history s2 au = fst (fst rd)"
    "au_activation_history s2 au = snd (fst rd)"
    by (simp_all add: rd_def s1f)
  from adv_detect_loop_counts [OF d m a, of s1 "[]"] l
  have cnt: "au_activation_counts s2 au = c"
    by (simp add: c_def rd_def s1f)
  from adv_detect_loop_frame [of s1 fs "[]" au] l
  have s2f: "smoothing_window s2 = smoothing_window s1" "adv_baseline s2 = adv_baseline s1"
    "adv_baseline_calibrated s2 = adv_baseline_calibrated s1" "frame_count s2 = frame_count s1"
    "adaptive_threshold s2 = adaptive_threshold s1"
    by simp_all
  from adv_detect_loop_thresholds [of s1 fs "[]"] l have t2: "thresholds s2 = thresholds s1"
    by simp
  from adv_detect_micro_only [of s2 res] mi
  have s3: "s3 = s2\<lparr>micro_expression_buffer := deque_append 30 (micro_expression_buffer s2) res\<rparr>"
    by simp
  define s4 where "s4 = (if adaptive_threshold s3 \<and> adv_baseline_calibrated s3
                         then adv_adapt_thresholds s3 else s3)"
  have s4o: "s4 = s3\<lparr>thresholds := thresholds s4\<rparr>"
    unfolding s4_def using adv_adapt_thresholds_only [of s3] by simp
  define s0 where "s0 = s\<lparr>frame_count := frame_count s + 1\<rparr>"
  define s1' where "s1' = (if \<not> adv_baseline_calibrated s0 then adv_update_baseline s0 fs else s0)"
  have e: "s1' = s1" by (simp add: s1'_def s0_def s1_def)
  have "adv_detect s fs =
        (case adv_detect_loop s1' fs [] of
           (s2, res) \<Rightarrow>
             (case adv_detect_micro_expressions s2 res of
                (s3, micro) \<Rightarrow>
                  let s4 = (if adaptive_threshold s3 \<and> adv_baseline_calibrated s3
                            then adv_adapt_thresholds s3 else s3)
                  in (s4, \<lparr>res_au_results = res, adv_micro_expressions = micro,
                           res_baseline_calibrated = adv_baseline_calibrated s4,
                           res_calibration_progress = calibration_progress s4\<rparr>)))"
    unfolding adv_detect_def s1'_def s0_def by (simp only: Let_def)
  then have "fst (adv_detect s fs) = s4"
    by (simp only: e l mi prod.case Let_def fst_conv s4_def)
  then have r: "fst (adv_detect s fs) = s3\<lparr>thresholds := thresholds s4\<rparr>"
    using s4o by simp
  have f3: "frame_count s3 = frame_count s + 1" "au_activation_counts s3 au = c"
    "thresholds s3 au = thresholds s au"
    by (simp_all add: s3 s2f s1f cnt t2)
  have t4: "thresholds s4 au =
          (if adaptive_threshold s \<and> adv_baseline_calibrated s1
           then adapted_threshold s3 au else thresholds s au)"
    by (simp add: s4_def adv_adapt_thresholds_at a s3 s2f s1f t2)
  have cg: "adapted_threshold s3 au =
        adapted_threshold (s\<lparr>frame_count := frame_count s + 1,
                     au_activation_counts := (au_activation_counts s)(au := c)\<rparr>) au"
    by (rule adapted_threshold_cong_at) (simp_all add: f3)
  show "adv_au_intensity_history (fst (adv_detect s fs)) au = fst (fst rd)"
    and "au_activation_history (fst (adv_detect s fs)) au = snd (fst rd)"
    and "au_activation_counts (fst (adv_detect s fs)) au = c"
    and "adv_baseline (fst (adv_detect s fs)) = adv_baseline s1"
    and "adv_baseline_calibrated (fst (adv_detect s fs)) = adv_baseline_calibrated s1"
    and "smoothing_window (fst (adv_detect s fs)) = smoothing_window s"
    and "adaptive_threshold (fst (adv_detect s fs)) = adaptive_threshold s"
    and "frame_count (fst (adv_detect s fs)) = frame_count s + 1"
    unfolding r by (simp_all add: s3 look cnt s2f s1f)
  show "thresholds (fst (adv_detect s fs)) au =
          (if adaptive_threshold s \<and> adv_baseline_calibrated s1
           then adapted_threshold
                  (s\<lparr>frame_count := frame_count s + 1,
                     au_activation_counts := (au_activation_counts s)(au := c)\<rparr>) au
           else thresholds s au)"
    unfolding r using t4 cg by simp
qed

lemma adv_run_snoc: "adv_run s (fs @ [f]) = fst (adv_detect (adv_run s fs) f)"
  by (simp add: adv_run_def)

lemma adv_run_replicate_Suc:
  "adv_run s (replicate (Suc k) f) = fst (adv_detect (adv_run s (replicate k f)) f)"
  using adv_run_snoc [of s "replicate k f" f] by (simp add: replicate_append_same)

lemma deque_append_replicate:
  "deque_append w (replicate j x) x = replicate (min (Suc j) w) x"
proof -
  have e: "replicate j x @ [x] = replicate (Suc j) x" by (simp add: replicate_append_same)
  have "deque_append w (replicate j x) x = replicate (Suc j - (Suc j - w)) x"
    by (simp only: deque_append_def Let_def e length_replicate drop_replicate)
  moreover have "Suc j - (Suc j - w) = min (Suc j) w" by arith
  ultimately show ?thesis by simp
qed

lemma majority_vote_replicate_False: "2 \<le> j \<Longrightarrow> \<not> majority_vote (replicate j False)"
  by (rule majority_vote_all_false) simp_all

text \<open>
  A detector with one calibration frame and a window of seven that sees the face at rest
  only: from the second frame on AU1 is not activated, its activation count stays at the 1
  of the first frame (where the vote over the one-entry window is true), and its threshold
  is the initial one up to frame 99.
\<close>

lemma rest_run:
  fixes k
  defines "s \<equiv> adv_run (adv_init 1 True 7) (replicate (Suc k) rest_frame)"
  assumes k: "k \<le> 98"
  shows "adv_baseline_calibrated s \<and> adv_baseline s ''AU1'' = Some 1 \<and>
         smoothing_window s = 7 \<and> adaptive_threshold s \<and> frame_count s = Suc k \<and>
         adv_au_intensity_history s ''AU1'' = replicate (min (Suc k) 7) 0 \<and>
         au_activation_history s ''AU1'' = replicate (min (Suc k) 7) False \<and>
         au_activation_counts s ''AU1'' = 1 \<and>
         thresholds s ''AU1'' = INITIAL_THRESHOLDS ''AU1''"
  using k unfolding s_def
proof (induction k)
  case 0
  define S0 where "S0 = adv_init 1 True 7"
  have run: "adv_run S0 (replicate (Suc 0) rest_frame) = fst (adv_detect S0 rest_frame)"
    by (simp add: adv_run_def)
  have s0: "smoothing_window S0 = 7" "thresholds S0 ''AU1'' = INITIAL_THRESHOLDS ''AU1''"
    "adv_au_intensity_history S0 ''AU1'' = []" "au_activation_history S0 ''AU1'' = []"
    "au_activation_counts S0 ''AU1'' = 0" "adaptive_threshold S0"
    and f0: "frame_count S0 = 0"
    by (simp_all add: adv_init_def S0_def)
  note c1 = first_frame_calibrates [folded S0_def]
  from c1 have b1: "adv_baseline (if \<not> adv_baseline_calibrated S0
        then adv_update_baseline (S0\<lparr>frame_count := frame_count S0 + 1\<rparr>) rest_frame
        else S0\<lparr>frame_count := frame_count S0 + 1\<rparr>) ''AU1'' = Some 1"
    by (simp add: AU_DEFINITIONS_def rest_frame_def)
  from c1 have cal: "adv_baseline_calibrated (if \<not> adv_baseline_calibrated S0
        then adv_update_baseline (S0\<lparr>frame_count := frame_count S0 + 1\<rparr>) rest_frame
        else S0\<lparr>frame_count := frame_count S0 + 1\<rparr>)"
    by simp
  note v = adv_detect_adapt_view [OF frames_distinct(1) frames_AU1(1) frames_AU1(3), of S0]
  have rd: "au_reading (smoothing_window S0) (Some 1) (thresholds S0 ''AU1'')
       (adv_au_intensity_history S0 ''AU1'') (au_activation_history S0 ''AU1'') 1 =
     (([0], [False]),
      \<lparr>ar_activated = True, ar_intensity = 0, ar_raw_value = 1, ar_baseline = 1,
       ar_relative_change = 0\<rparr>)"
    unfolding s0 by (rule readings(1))
  have "adv_baseline_calibrated (fst (adv_detect S0 rest_frame))"
    unfolding v(5) by (rule cal)
  moreover have "adv_baseline (fst (adv_detect S0 rest_frame)) ''AU1'' = Some 1"
    unfolding v(4) by (rule b1)
  moreover have "smoothing_window (fst (adv_detect S0 rest_frame)) = 7"
    unfolding v(6) by (rule s0)
  moreover have "adaptive_threshold (fst (adv_detect S0 rest_frame))"
    unfolding v(7) by (rule s0)
  moreover have "frame_count (fst (adv_detect S0 rest_frame)) = Suc 0"
    unfolding v(8) by (simp add: f0)
  moreover have "adv_au_intensity_history (fst (adv_detect S0 rest_frame)) ''AU1'' = [0]"
    unfolding v(1) b1 rd by simp
  moreover have "au_activation_history (fst (adv_detect S0 rest_frame)) ''AU1'' = [False]"
    unfolding v(2) b1 rd by simp
  moreover have "au_activation_counts (fst (adv_detect S0 rest_frame)) ''AU1'' = 1"
    unfolding v(3) b1 rd by (simp add: s0)
  moreover have "thresholds (fst (adv_detect S0 rest_frame)) ''AU1'' = INITIAL_THRESHOLDS ''AU1''"
    unfolding v(9) b1 rd by (simp add: adapted_threshold_def f0 s0)
  ultimately show ?case unfolding S0_def [symmetric] run by simp
next
  case (Suc k)
  define s where "s = adv_run (adv_init 1 True 7) (replicate (Suc k) rest_frame)"
  from Suc have k: "k \<le> 97" by simp
  with Suc.IH have inv: "adv_baseline_calibrated s" "adv_baseline s ''AU1'' = Some 1"
    "smoothing_window s = 7" "adaptive_threshold s" "frame_count s = Suc k"
    "adv_au_intensity_history s ''AU1'' = replicate (min (Suc k) 7) 0"
    "au_activation_history s ''AU1'' = replicate (min (Suc k) 7) False"
    "au_activation_counts s ''AU1'' = 1"
    "thresholds s ''AU1'' = INITIAL_THRESHOLDS ''AU1''"
    by (simp_all add: s_def)
  have run: "adv_run (adv_init 1 True 7) (replicate (Suc (Suc k)) rest_frame) =
             fst (adv_detect s rest_frame)"
    unfolding s_def by (rule adv_run_replicate_Suc)
  define s1 where "s1 = (if \<not> adv_baseline_calibrated s
        then adv_update_baseline (s\<lparr>frame_count := frame_count s + 1\<rparr>) rest_frame
        else s\<lparr>frame_count := frame_count s + 1\<rparr>)"
  have s1: "adv_baseline s1 = adv_baseline s" "adv_baseline_calibrated s1"
    by (simp_all add: s1_def inv)
  note v = adv_detect_adapt_view [OF frames_distinct(1) frames_AU1(1) frames_AU1(3), of s,
      folded s1_def]
  define j where "j = min (Suc (Suc k)) 7"
  have j: "min (Suc (min (Suc k) 7)) 7 = j" "2 \<le> j" by (simp_all add: j_def)
  have thr: "0 \<le> thresholds s ''AU1''"
    unfolding inv using INITIAL_THRESHOLDS_pos [of "''AU1''"] by simp
  have rd: "au_reading (smoothing_window s) (adv_baseline s1 ''AU1'') (thresholds s ''AU1'')
       (adv_au_intensity_history s ''AU1'') (au_activation_history s ''AU1'') 1 =
     ((replicate j 0, replicate j False),
      \<lparr>ar_activated = False, ar_intensity = np_mean (replicate j 0), ar_raw_value = 1,
       ar_baseline = 1, ar_relative_change = 0\<rparr>)"
    unfolding s1 inv(2,3,6,7) au_reading_at_baseline [OF thr] deque_append_replicate j
    using majority_vote_replicate_False [OF j(2)] by simp
  have "adv_baseline_calibrated (fst (adv_detect s rest_frame))"
    unfolding v(5) by (rule s1)
  moreover have "adv_baseline (fst (adv_detect s rest_frame)) ''AU1'' = Some 1"
    unfolding v(4) s1 by (rule inv)
  moreover have "smoothing_window (fst (adv_detect s rest_frame)) = 7"
    unfolding v(6) by (rule inv)
  moreover have "adaptive_threshold (fst (adv_detect s rest_frame))"
    unfolding v(7) by (rule inv)
  moreover have "frame_count (fst (adv_detect s rest_frame)) = Suc (Suc k)"
    unfolding v(8) by (simp add: inv)
  moreover have "adv_au_intensity_history (fst (adv_detect s rest_frame)) ''AU1'' =
      replicate j 0"
    unfolding v(1) rd by simp
  moreover have "au_activation_history (fst (adv_detect s rest_frame)) ''AU1'' =
      replicate j False"
    unfolding v(2) rd by simp
  moreover have "au_activation_counts (fst (adv_detect s rest_frame)) ''AU1'' = 1"
    unfolding v(3) rd by (simp add: inv)
  moreover have "thresholds (fst (adv_detect s rest_frame)) ''AU1'' = INITIAL_THRESHOLDS ''AU1''"
    unfolding v(9) rd using Suc.prems by (simp add: adapted_threshold_def inv s1)
  ultimately show ?case unfolding run j_def by simp
qed

text \<open>
  Frame 100 is the first to adapt: the activation rate of AU1 is 1/100, below 0.05, and its
  threshold goes from the double 0.06 to the double \<^verbatim>\<open>0.06 * 0.99\<close>, which is
  0.059399999999999994.
\<close>

lemma rest_run_adapts:
  fixes s
  defines "s \<equiv> adv_run (adv_init 1 True 7) (replicate 99 rest_frame)"
  shows "thresholds s ''AU1'' = 8646911284551352 / 2 ^ 57"
    and "thresholds (fst (adv_detect s rest_frame)) ''AU1'' = 8560442171705838 / 2 ^ 57"
    and "adv_baseline_calibrated s"
proof -
  have n: "(99::nat) = Suc 98" by simp
  from rest_run [of 98] have inv: "adv_baseline_calibrated s" "adv_baseline s ''AU1'' = Some 1"
    "smoothing_window s = 7" "adaptive_threshold s" "frame_count s = 99"
    "adv_au_intensity_history s ''AU1'' = replicate 7 0"
    "au_activation_history s ''AU1'' = replicate 7 False"
    "au_activation_counts s ''AU1'' = 1"
    "thresholds s ''AU1'' = INITIAL_THRESHOLDS ''AU1''"
    unfolding s_def n by simp_all
  show t: "thresholds s ''AU1'' = 8646911284551352 / 2 ^ 57"
    unfolding inv by (rule INITIAL_THRESHOLDS_AU1)
  define s1 where "s1 = (if \<not> adv_baseline_calibrated s
        then adv_update_baseline (s\<lparr>frame_count := frame_count s + 1\<rparr>) rest_frame
        else s\<lparr>frame_count := frame_count s + 1\<rparr>)"
  have s1: "adv_baseline s1 = adv_baseline s" "adv_baseline_calibrated s1"
    by (simp_all add: s1_def inv)
  note v = adv_detect_adapt_view [OF frames_distinct(1) frames_AU1(1) frames_AU1(3), of s,
      folded s1_def]
  have thr: "0 \<le> thresholds s ''AU1''"
    unfolding inv using INITIAL_THRESHOLDS_pos [of "''AU1''"] by simp
  have rd: "au_reading (smoothing_window s) (adv_baseline s1 ''AU1'') (thresholds s ''AU1'')
       (adv_au_intensity_history s ''AU1'') (au_activation_history s ''AU1'') 1 =
     ((replicate 7 0, replicate 7 False),
      \<lparr>ar_activated = False, ar_intensity = np_mean (replicate 7 0), ar_raw_value = 1,
       ar_baseline = 1, ar_relative_change = 0\<rparr>)"
    unfolding s1 inv(2,3,6,7) au_reading_at_baseline [OF thr] deque_append_full_constant
    using majority_vote_replicate_False [of 7] by simp
  define I where "I = INITIAL_THRESHOLDS ''AU1''"
  have a: "thresholds (fst (adv_detect s rest_frame)) ''AU1'' =
      np_clip (float64 (I * float64 (99 / 100))) (I * (1 / 2)) (I * 2)"
    unfolding v(9) rd by (simp add: adapted_threshold_def inv s1 I_def Let_def)
  have p: "float64 (I * float64 (99 / 100)) = 8560442171705838 / 2 ^ 57"
    unfolding I_def INITIAL_THRESHOLDS_AU1 float64_99 by (rule float64_prod)
  show "thresholds (fst (adv_detect s rest_frame)) ''AU1'' = 8560442171705838 / 2 ^ 57"
    unfolding a p by (simp add: np_clip_def I_def INITIAL_THRESHOLDS_AU1)
  show "adv_baseline_calibrated s" by (rule inv)
qed

section \<open>The claims\<close>

subsection \<open>C1: the severity tier and the self-harm item\<close>

text \<open>
  C1: a self-harm sub-score of at least 1 forces the tier \<open>severe\<close>, whatever the total.
  \<^verbatim>\<open>MedicalGradeClinicalAssessor\<close> does not do it: \<^verbatim>\<open>_determine_severity\<close> reads the total
  alone (\<open>med_severity_band_of_total\<close>), although the same assessment adds the crisis alert
  to its recommendations. On a first frame that is sad with confidence 0.9, with no other
  data, the self-harm sub-score is 1, the total is 7, the alert is recommended, and the
  tier is \<open>mild\<close>.
\<close>

theorem med_self_harm_reported_mild:
  fixes a
  defines "a \<equiv> snd (med_assess (med_init 900) 0
          \<lparr>mr_emotion = Some ''sad'', mr_confidence = Some 0.9\<rparr>
          \<lparr>mu_aus = None, mu_depression_score = None\<rparr>
          \<lparr>my_fatigue = None, my_blink_rate = None, my_gaze_duration = None,
           my_blink_irregularity = None\<rparr>
          \<lparr>mg_duchenne_smile = None, mg_is_genuine = None, mg_fake_probability = None\<rparr>
          [])"
  shows "med_score (md_phq9_scores a) ''suicidal_thoughts'' = 1 \<and>
         md_total_score a = 7 \<and>
         Med_rec_suicide_alert \<in> set (md_recommendations a) \<and>
         md_severity a = ''mild''"
proof -
  have h: "deque_append 900 [] x = [x]" for x :: 'a by (simp add: deque_append_def)
  have sc: "med_score (md_phq9_scores a) ''suicidal_thoughts'' = 1"
    and tot: "md_total_score a = 7" and sev: "md_severity a = ''mild''"
    unfolding a_def med_assess_fields
    by (simp_all add: h med_init_def med_example_scores [unfolded med_init_def, simplified]
        med_score_def)
  from sc have "Med_rec_suicide_alert \<in> set (md_recommendations a)"
    unfolding a_def by (intro med_alert_recommended) simp
  with sc tot sev show ?thesis by blast
qed

subsection \<open>C2: the recogniser's probabilities\<close>

text \<open>
  C2 states that every probability dictionary the recogniser returns sums to 1. The AU
  rule path does (lemma \<open>er_au_probabilities_distribution\<close>); the fallback path
  \<^verbatim>\<open>_recognize_by_simple_rule\<close> does not: without a model and without AU data, a face
  image of mean brightness 200 is labelled \<open>happy\<close> with the values 0.6 for \<open>happy\<close> and
  0.16 for \<open>neutral\<close>, which sum to 0.76.
\<close>

theorem er_simple_rule_not_distribution:
  "\<exists>s' r. er_recognize (er_init None True) \<lparr>gray = [200, 200, 200, 200]\<rparr> None = Some (s', r) \<and>
     er_method r = ''simple_rule'' \<and> er_emotion r = ''happy'' \<and>
     probabilities r =
       [(''angry'', 0), (''disgust'', 0), (''fear'', 0), (''happy'', 3 / 5), (''sad'', 0),
        (''surprise'', 0), (''neutral'', 4 / 25)] \<and>
     prob_sum (probabilities r) = 19 / 25"
  by (simp add: er_recognize_def er_init_def er_recognize_by_simple_rule_def Let_def
      prob_sum_def EMOTIONS_def opt_default_def np_mean_def er_temporal_smoothing_def
      deque_append_def)

subsection \<open>C3: a frame equal to the baseline\<close>

text \<open>
  C3 as the specification states it: once the baseline is calibrated, a frame whose features
  equal the baseline gives every AU \<open>activated = False\<close> and intensity 0, smoothed values
  included. The advanced detector refutes it. With one calibration frame and a window of
  seven, the face at rest calibrates the baseline, the next frame doubles every feature, and
  the frame after that is the face at rest again, every feature equal to its baseline: AU1 is
  reported activated with intensity 5/3, although its relative change is 0, because the
  reported values are the vote and the mean over the window that still holds the frame before.
\<close>

theorem baseline_frame_still_active_counterexample:
  "adv_baseline_calibrated (adv_run (adv_init 1 True 7) [rest_frame, moved_frame]) \<and>
   map (adv_baseline (adv_run (adv_init 1 True 7) [rest_frame, moved_frame])) AU_DEFINITIONS =
     map (\<lambda>(au, f). Some f) rest_frame \<and>
   map_of (res_au_results
             (snd (adv_detect (adv_run (adv_init 1 True 7) [rest_frame, moved_frame]) rest_frame))) ''AU1'' =
     Some \<lparr>ar_activated = True, ar_intensity = 5 / 3, ar_raw_value = 1, ar_baseline = 1,
           ar_relative_change = 0\<rparr>"
proof -
  define S0 where "S0 = adv_init 1 True 7"
  define T1 where "T1 = fst (adv_detect S0 rest_frame)"
  define T2 where "T2 = fst (adv_detect T1 moved_frame)"
  have run: "adv_run (adv_init 1 True 7) [rest_frame, moved_frame] = T2"
    by (simp only: adv_run_def fold_simps T2_def T1_def S0_def)
  have s0: "smoothing_window S0 = 7" "thresholds S0 ''AU1'' = INITIAL_THRESHOLDS ''AU1''"
    "adv_au_intensity_history S0 ''AU1'' = []" "au_activation_history S0 ''AU1'' = []"
    and f0: "frame_count S0 = 0"
    by (simp_all add: adv_init_def S0_def)
  from f0 have fc0: "frame_count S0 + 1 < 100" by simp
  note c1 = first_frame_calibrates [folded S0_def]
  from c1 have b1: "adv_baseline (if \<not> adv_baseline_calibrated S0
        then adv_update_baseline (S0\<lparr>frame_count := frame_count S0 + 1\<rparr>) rest_frame
        else S0\<lparr>frame_count := frame_count S0 + 1\<rparr>) ''AU1'' = Some 1"
    by (simp add: AU_DEFINITIONS_def rest_frame_def)
  note v1 = adv_detect_step_at [OF frames_distinct(1) frames_AU1(1) frames_AU1(3) fc0 b1 s0
      readings(1), folded T1_def]
  from v1(7,8) c1 have k1: "adv_baseline_calibrated T1"
    "map (adv_baseline T1) AU_DEFINITIONS = map (\<lambda>(au, f). Some f) rest_frame"
    by simp_all
  from k1(2) have b2: "adv_baseline T1 ''AU1'' = Some 1"
    by (simp add: AU_DEFINITIONS_def rest_frame_def)
  from v1(6) f0 have fc1: "frame_count T1 + 1 < 100" by simp
  from k1(1) b2 have b2': "adv_baseline (if \<not> adv_baseline_calibrated T1
        then adv_update_baseline (T1\<lparr>frame_count := frame_count T1 + 1\<rparr>) moved_frame
        else T1\<lparr>frame_count := frame_count T1 + 1\<rparr>) ''AU1'' = Some 1"
    by simp
  note v2 = adv_detect_step_at [OF frames_distinct(2) frames_AU1(2) frames_AU1(3) fc1 b2'
      v1(4) v1(5) v1(2) v1(3) readings(2), folded T2_def]
  from v2(7,8) k1(1) have k2: "adv_baseline_calibrated T2" "adv_baseline T2 = adv_baseline T1"
    by simp_all
  from v2(6) v1(6) f0 have fc2: "frame_count T2 + 1 < 100" by simp
  from k2 b2 have b3: "adv_baseline (if \<not> adv_baseline_calibrated T2
        then adv_update_baseline (T2\<lparr>frame_count := frame_count T2 + 1\<rparr>) rest_frame
        else T2\<lparr>frame_count := frame_count T2 + 1\<rparr>) ''AU1'' = Some 1"
    by simp
  note v3 = adv_detect_step_at [OF frames_distinct(1) frames_AU1(1) frames_AU1(3) fc2 b3
      v2(4) v2(5) v2(2) v2(3) readings(3)]
  from k2 k1 v3(1) show ?thesis unfolding run by simp
qed

text \<open>
  C3, amended: for a frame whose feature equals the calibrated baseline of an AU, the value
  that the frame contributes is relative change 0, and the detector appends \<open>False\<close> and
  intensity 0 to the AU's windows; what it reports is the vote and the mean over those
  windows. The advanced detector reports not activated when the window held at least one
  entry, all \<open>False\<close>, and the window size is at least 2, and intensity 0 when the
  intensities in the window were all 0. The basic detector reports intensity 0 for the frame
  itself (it does not smooth the intensity) and not activated when its window of five held
  at least one entry, all \<open>False\<close>.
\<close>

theorem baseline_frame_raw_reading:
  "(adv_baseline s au = Some b \<and> 0 \<le> thresholds s au \<longrightarrow>
      ar_relative_change (snd (adv_detect_au s au b)) = 0 \<and>
      adv_au_intensity_history (fst (adv_detect_au s au b)) au =
        deque_append (smoothing_window s) (adv_au_intensity_history s au) 0 \<and>
      au_activation_history (fst (adv_detect_au s au b)) au =
        deque_append (smoothing_window s) (au_activation_history s au) False \<and>
      ar_intensity (snd (adv_detect_au s au b)) =
        np_mean (adv_au_intensity_history (fst (adv_detect_au s au b)) au) \<and>
      ar_activated (snd (adv_detect_au s au b)) =
        majority_vote (au_activation_history (fst (adv_detect_au s au b)) au) \<and>
      (2 \<le> smoothing_window s \<and> au_activation_history s au \<noteq> [] \<and>
       (\<forall>x \<in> set (au_activation_history s au). \<not> x) \<longrightarrow>
         \<not> ar_activated (snd (adv_detect_au s au b))) \<and>
      (1 \<le> smoothing_window s \<and> (\<forall>x \<in> set (adv_au_intensity_history s au). x = 0) \<longrightarrow>
         ar_intensity (snd (adv_detect_au s au b)) = 0)) \<and>
   (map_of (aud_baseline t) au' = Some b' \<and> au' \<in> set (map fst AU_THRESHOLDS) \<longrightarrow>
      (\<exists>t' act. aud_detect_au t au' b' = Some (t', act, 0) \<and>
         aud_au_history t' au' = deque_append 5 (aud_au_history t au') False \<and>
         act = majority_vote (aud_au_history t' au') \<and>
         (aud_au_history t au' \<noteq> [] \<and> (\<forall>x \<in> set (aud_au_history t au'). \<not> x) \<longrightarrow> \<not> act)))"
proof (intro conjI impI)
  assume h: "adv_baseline s au = Some b \<and> 0 \<le> thresholds s au"
  let ?ih = "deque_append (smoothing_window s) (adv_au_intensity_history s au) 0"
  let ?ah = "deque_append (smoothing_window s) (au_activation_history s au) False"
  from h have rd: "au_reading (smoothing_window s) (adv_baseline s au) (thresholds s au)
      (adv_au_intensity_history s au) (au_activation_history s au) b =
     ((?ih, ?ah),
      \<lparr>ar_activated = majority_vote ?ah, ar_intensity = np_mean ?ih, ar_raw_value = b,
       ar_baseline = b, ar_relative_change = 0\<rparr>)"
    by (simp add: au_reading_at_baseline)
  have r: "snd (adv_detect_au s au b) =
      \<lparr>ar_activated = majority_vote ?ah, ar_intensity = np_mean ?ih, ar_raw_value = b,
       ar_baseline = b, ar_relative_change = 0\<rparr>"
    and ih: "adv_au_intensity_history (fst (adv_detect_au s au b)) au = ?ih"
    and ah: "au_activation_history (fst (adv_detect_au s au b)) au = ?ah"
    by (simp_all add: adv_detect_au_reading rd Let_def)
  show "ar_relative_change (snd (adv_detect_au s au b)) = 0" by (simp add: r)
  show "adv_au_intensity_history (fst (adv_detect_au s au b)) au = ?ih" by (rule ih)
  show "au_activation_history (fst (adv_detect_au s au b)) au = ?ah" by (rule ah)
  show "ar_intensity (snd (adv_detect_au s au b)) =
        np_mean (adv_au_intensity_history (fst (adv_detect_au s au b)) au)"
    by (simp add: r ih)
  show "ar_activated (snd (adv_detect_au s au b)) =
        majority_vote (au_activation_history (fst (adv_detect_au s au b)) au)"
    by (simp add: r ah)
  show "\<not> ar_activated (snd (adv_detect_au s au b))"
    if q: "2 \<le> smoothing_window s \<and> au_activation_history s au \<noteq> [] \<and>
       (\<forall>x \<in> set (au_activation_history s au). \<not> x)"
  proof -
    from q have "1 \<le> length (au_activation_history s au)"
      by (cases "au_activation_history s au") auto
    with q have len: "2 \<le> length ?ah" by (simp add: length_deque_append)
    from q set_deque_append [of "smoothing_window s" "au_activation_history s au" False]
    have "\<forall>x \<in> set ?ah. \<not> x" by auto
    from majority_vote_all_false [OF this len] show ?thesis by (simp add: r)
  qed
  show "ar_intensity (snd (adv_detect_au s au b)) = 0"
    if q: "1 \<le> smoothing_window s \<and> (\<forall>x \<in> set (adv_au_intensity_history s au). x = 0)"
  proof -
    from q set_deque_append [of "smoothing_window s" "adv_au_intensity_history s au" 0]
    have "\<forall>x \<in> set ?ih. x = 0" by auto
    then show ?thesis by (simp add: r np_mean_all_zero)
  qed
next
  assume h: "map_of (aud_baseline t) au' = Some b' \<and> au' \<in> set (map fst AU_THRESHOLDS)"
  let ?w = "deque_append 5 (aud_au_history t au') False"
  let ?t' = "t\<lparr>aud_au_history := (aud_au_history t)(au' := ?w)\<rparr>"
  from h AU_THRESHOLDS_nonneg [of au']
  have d: "aud_detect_au t au' b' = Some (?t', majority_vote ?w, 0)"
    by (simp add: aud_detect_au_def opt_default_def Let_def)
  have "aud_au_history t au' \<noteq> [] \<and> (\<forall>x \<in> set (aud_au_history t au'). \<not> x) \<longrightarrow>
        \<not> majority_vote ?w"
  proof
    assume q: "aud_au_history t au' \<noteq> [] \<and> (\<forall>x \<in> set (aud_au_history t au'). \<not> x)"
    from q have "1 \<le> length (aud_au_history t au')" by (cases "aud_au_history t au'") auto
    then have len: "2 \<le> length ?w" by (simp add: length_deque_append)
    from q set_deque_append [of 5 "aud_au_history t au'" False]
    have "\<forall>x \<in> set ?w. \<not> x" by auto
    from majority_vote_all_false [OF this len] show "\<not> majority_vote ?w" .
  qed
  with d show "\<exists>t' act. aud_detect_au t au' b' = Some (t', act, 0) \<and>
         aud_au_history t' au' = deque_append 5 (aud_au_history t au') False \<and>
         act = majority_vote (aud_au_history t' au') \<and>
         (aud_au_history t au' \<noteq> [] \<and> (\<forall>x \<in> set (aud_au_history t au'). \<not> x) \<longrightarrow> \<not> act)"
    by (intro exI [of _ ?t'] exI [of _ "majority_vote ?w"]) (simp del: ball_simps)
qed

theorem baseline_frame_raw_reading_witness:
  "\<not> ar_activated (snd (adv_detect_au
        ((adv_init 50 True 7)\<lparr>adv_baseline := (\<lambda>au. Some 1), adv_baseline_calibrated := True,
           adv_au_intensity_history := (\<lambda>au. replicate 7 0),
           au_activation_history := (\<lambda>au. replicate 7 False)\<rparr>) ''AU1'' 1)) \<and>
   ar_intensity (snd (adv_detect_au
        ((adv_init 50 True 7)\<lparr>adv_baseline := (\<lambda>au. Some 1), adv_baseline_calibrated := True,
           adv_au_intensity_history := (\<lambda>au. replicate 7 0),
           au_activation_history := (\<lambda>au. replicate 7 False)\<rparr>) ''AU1'' 1)) = 0 \<and>
   (\<exists>t' act. aud_detect_au
        ((aud_init 30)\<lparr>aud_baseline := [(''AU1'', 1)],
           aud_au_history := (\<lambda>au. replicate 5 False)\<rparr>) ''AU1'' 1 = Some (t', act, 0) \<and>
      \<not> act)"
proof -
  let ?S = "(adv_init 50 True 7)\<lparr>adv_baseline := (\<lambda>au. Some 1), adv_baseline_calibrated := True,
           adv_au_intensity_history := (\<lambda>au. replicate 7 0),
           au_activation_history := (\<lambda>au. replicate 7 False)\<rparr>"
  let ?T = "(aud_init 30)\<lparr>aud_baseline := [(''AU1'', 1)],
           aud_au_history := (\<lambda>au. replicate 5 False)\<rparr>"
  have hs: "adv_baseline ?S ''AU1'' = Some 1 \<and> 0 \<le> thresholds ?S ''AU1''"
    using INITIAL_THRESHOLDS_pos [of "''AU1''"] by (simp add: adv_init_def)
  have hw: "2 \<le> smoothing_window ?S \<and> au_activation_history ?S ''AU1'' \<noteq> [] \<and>
       (\<forall>x \<in> set (au_activation_history ?S ''AU1''). \<not> x)"
    "1 \<le> smoothing_window ?S \<and> (\<forall>x \<in> set (adv_au_intensity_history ?S ''AU1''). x = 0)"
    by (simp_all add: adv_init_def)
  have ht: "map_of (aud_baseline ?T) ''AU1'' = Some 1 \<and> ''AU1'' \<in> set (map fst AU_THRESHOLDS)"
    by (simp add: AU_THRESHOLDS_def)
  have hv: "aud_au_history ?T ''AU1'' \<noteq> [] \<and> (\<forall>x \<in> set (aud_au_history ?T ''AU1''). \<not> x)"
    by simp
  from baseline_frame_raw_reading [of ?S "''AU1''" 1 ?T "''AU1''" 1] hs hw ht hv
  show ?thesis by blast
qed

subsection \<open>C4: concealed affect\<close>

text \<open>
  C4 as the specification states it, with the labels \<open>happy\<close> and \<open>sad\<close>. Both
  analyses compare the macro label with \<open>happiness\<close> and \<open>neutral\<close> and the micro labels
  with \<open>sadness\<close>, \<open>fear\<close> and \<open>anger\<close>, so the macro label \<open>happy\<close> with one micro-expression
  \<open>sad\<close> scores 0 in \<^verbatim>\<open>GenuineEmotionDetector.detect_concealed_depression\<close>, and also in
  \<^verbatim>\<open>MedicalGradeClinicalAssessor._detect_concealed_depression\<close> when the expression is
  judged genuine with fake probability 0.
\<close>

theorem concealed_affect_labels_counterexample:
  "\<not> 0 < inconsistency_score
           (ged_detect_concealed_depression ''happy'' [\<lparr>gm_emotion = Some ''sad''\<rparr>]) \<and>
   \<not> 0 < mc_inconsistency_score
           (med_detect_concealed_depression
              \<lparr>mr_emotion = Some ''happy'', mr_confidence = Some 0.9\<rparr>
              [\<lparr>mm_emotion = Some ''sad''\<rparr>]
              \<lparr>mg_duchenne_smile = Some True, mg_is_genuine = Some True,
               mg_fake_probability = Some 0\<rparr>)"
  by (simp add: ged_detect_concealed_depression_def ged_micro_emotion_counts_def
      med_detect_concealed_depression_def count_where_def opt_default_def Let_def)

text \<open>
  C4, amended. \<^verbatim>\<open>GenuineEmotionDetector.detect_concealed_depression\<close> returns an
  inconsistency score above 0 whenever the macro label is \<open>happiness\<close> or \<open>neutral\<close> and
  some micro-expression is labelled \<open>sadness\<close> or \<open>fear\<close>. The clinical assessor's
  \<^verbatim>\<open>_detect_concealed_depression\<close> does so for the macro label \<open>neutral\<close> (or none) when
  the fake probability it is given is not negative.
\<close>

theorem concealed_affect_positive:
  "((macro_emotion = ''happiness'' \<or> macro_emotion = ''neutral'') \<and>
    (\<exists>m \<in> set micro_emotions.
       gm_emotion m = Some ''sadness'' \<or> gm_emotion m = Some ''fear'') \<longrightarrow>
    0 < inconsistency_score (ged_detect_concealed_depression macro_emotion micro_emotions)) \<and>
   ((mr_emotion emotion_result = None \<or> mr_emotion emotion_result = Some ''neutral'') \<and>
    (\<exists>m \<in> set micro_expressions.
       mm_emotion m = Some ''sadness'' \<or> mm_emotion m = Some ''fear'') \<and>
    0 \<le> opt_default 0 (mg_fake_probability genuineness_result) \<longrightarrow>
    0 < mc_inconsistency_score
          (med_detect_concealed_depression emotion_result micro_expressions
             genuineness_result))"
  using ged_concealed_positive [of macro_emotion _ micro_emotions]
    med_concealed_positive [of emotion_result _ micro_expressions genuineness_result]
  by blast

theorem concealed_affect_positive_witness:
  "0 < inconsistency_score
         (ged_detect_concealed_depression ''happiness''
            [\<lparr>gm_emotion = Some ''neutral''\<rparr>, \<lparr>gm_emotion = Some ''sadness''\<rparr>]) \<and>
   0 < mc_inconsistency_score
         (med_detect_concealed_depression
            \<lparr>mr_emotion = Some ''neutral'', mr_confidence = Some 0.9\<rparr>
            [\<lparr>mm_emotion = Some ''fear''\<rparr>]
            \<lparr>mg_duchenne_smile = Some True, mg_is_genuine = Some True,
             mg_fake_probability = Some 0\<rparr>)"
  using concealed_affect_positive [of "''happiness''"
      "[\<lparr>gm_emotion = Some ''neutral''\<rparr>, \<lparr>gm_emotion = Some ''sadness''\<rparr>]"
      "\<lparr>mr_emotion = Some ''neutral'', mr_confidence = Some 0.9\<rparr>"
      "[\<lparr>mm_emotion = Some ''fear''\<rparr>]"
      "\<lparr>mg_duchenne_smile = Some True, mg_is_genuine = Some True,
        mg_fake_probability = Some 0\<rparr>"]
  by (simp add: opt_default_def)

subsection \<open>C5: a Duchenne smile is judged genuine\<close>

text \<open>
  C5 as the specification states it: the analyzer is called with the system's happy label,
  AU6 and AU12 are active with intensity at least 3, the duration lies in [0.5, 4] seconds
  and the intensities are steady; then the verdict is genuine with a score of at least 0.6.
  The system's happy label is \<open>happy\<close> (the label of every recogniser), and
  \<^verbatim>\<open>GenuineEmotionDetector.analyze\<close> runs its smile analysis for the label \<open>happiness\<close>
  only. Two calls of a new detector with the label \<open>happy\<close>, one second apart, with AU6
  active at intensity 3 and AU12 active at intensity 4: the second call has duration 1 and
  steady intensities, and returns the default verdict, genuine with score 0.5.
\<close>

theorem genuine_smile_happy_label_counterexample:
  "\<exists>s1 r1 s2 r2.
     ged_analyze (ged_init 90 0.3 0.3) ''happy''
       [(''AU6'', \<lparr>ga_intensity = Some 3, ga_active = Some True\<rparr>),
        (''AU12'', \<lparr>ga_intensity = Some 4, ga_active = Some True\<rparr>)] 10 = Some (s1, r1) \<and>
     ged_analyze s1 ''happy''
       [(''AU6'', \<lparr>ga_intensity = Some 3, ga_active = Some True\<rparr>),
        (''AU12'', \<lparr>ga_intensity = Some 4, ga_active = Some True\<rparr>)] 11 = Some (s2, r2) \<and>
     emotion_duration s2 = 1 \<and>
     au_intensity_history s2 ''AU6'' = [3, 3] \<and>
     au_intensity_history s2 ''AU12'' = [4, 4] \<and>
     gr_is_genuine r2 \<and> gr_genuineness_score r2 = 1 / 2 \<and> gr_genuineness_score r2 < 0.6"
proof -
  let ?au = "[(''AU6'', \<lparr>ga_intensity = Some 3, ga_active = Some True\<rparr>),
              (''AU12'', \<lparr>ga_intensity = Some 4, ga_active = Some True\<rparr>)]"
  have lbl: "''happy'' \<notin> {''happiness'', ''sadness'', ''anger'', ''fear'', ''disgust''}"
    by simp
  obtain t1 where tr1: "ged_track (ged_init 90 0.3 0.3) ''happy'' ?au 10 = Some t1"
    by (simp add: ged_track_def ged_tracked_aus_def Let_def ged_init_def)
  from tr1 have f1: "current_emotion t1 = ''happy''" "emotion_start_time t1 = Some 10"
    "ged_history_length t1 = 90"
    "au_intensity_history t1 ''AU6'' = [3]" "au_intensity_history t1 ''AU12'' = [4]"
    by (auto simp: ged_track_def ged_tracked_aus_def Let_def ged_init_def deque_append_def)
  define s1 where "s1 = t1\<lparr>total_emotions := total_emotions t1 + 1,
                             genuine_count := genuine_count t1 + 1\<rparr>"
  note a1 = ged_analyze_other_label [OF lbl tr1, folded s1_def]
  have g1: "current_emotion s1 = ''happy''" "emotion_start_time s1 = Some 10"
    "ged_history_length s1 = 90"
    "au_intensity_history s1 ''AU6'' = [3]" "au_intensity_history s1 ''AU12'' = [4]"
    by (simp_all add: s1_def f1)
  obtain t2 where tr2: "ged_track s1 ''happy'' ?au 11 = Some t2"
    by (simp add: ged_track_def ged_tracked_aus_def Let_def)
  from tr2 have f2: "emotion_duration t2 = 1"
    "au_intensity_history t2 ''AU6'' = [3, 3]" "au_intensity_history t2 ''AU12'' = [4, 4]"
    by (auto simp: ged_track_def ged_tracked_aus_def Let_def g1 deque_append_def)
  note a2 = ged_analyze_other_label [OF lbl tr2]
  show ?thesis
    by (intro exI conjI, rule a1, rule a2) (simp_all add: f2)
qed

text \<open>
  C5, amended. \<^verbatim>\<open>GenuineEmotionDetector.analyze\<close> is called with the label \<open>happiness\<close>
  (the happy label of the detector's own vocabulary, which its smile branch tests), AU6 and
  AU12 are both active with intensity at least 3, the call does not raise, the duration of
  the current emotion after the update lies in [0.5, 4] seconds, and the steps between the
  last ten AU12 intensities are all below the onset threshold (the offset check is the same
  test). Then the call returns a result with \<open>is_genuine\<close> true and a genuineness score of
  at least 0.6.
\<close>

theorem genuine_smile_is_genuine:
  assumes au6: "map_of au_results ''AU6'' = Some d6" "ga_active d6 = Some True"
      "ga_intensity d6 = Some i6" "3 \<le> i6"
    and au12: "map_of au_results ''AU12'' = Some d12" "ga_active d12 = Some True"
      "ga_intensity d12 = Some i12" "3 \<le> i12"
    and track: "ged_track s ''happiness'' au_results timestamp = Some s1"
    and dur: "0.5 \<le> emotion_duration s1" "emotion_duration s1 \<le> 4"
    and smooth: "\<forall>d \<in> set (np_diff (last_n 10 (au_intensity_history s1 ''AU12''))).
                   \<bar>d\<bar> < onset_threshold s1"
  shows "\<exists>s' r. ged_analyze s ''happiness'' au_results timestamp = Some (s', r) \<and>
           gr_is_genuine r \<and> 0.6 \<le> gr_genuineness_score r"
proof -
  from smooth have "ged_check_onset_naturalness s1 ''AU12''"
    by (rule ged_onset_natural_smooth)
  with au6(1,2) au12(1,2) dur
  have sc: "0.7 \<le> gr_genuineness_score (ged_analyze_smile_genuineness s1 au_results) \<and>
            gr_is_genuine (ged_analyze_smile_genuineness s1 au_results)"
    by (rule ged_smile_score)
  let ?r = "(ged_analyze_smile_genuineness s1 au_results)\<lparr>gr_indicators :=
      dict_update (gr_indicators (ged_analyze_smile_genuineness s1 au_results))
        (ged_analyze_temporal_consistency s1)\<rparr>"
  have "\<exists>s'. ged_analyze s ''happiness'' au_results timestamp = Some (s', ?r)"
    by (simp add: ged_analyze_def track Let_def)
  moreover from sc have "gr_is_genuine ?r \<and> 0.6 \<le> gr_genuineness_score ?r" by simp
  ultimately show ?thesis by blast
qed

theorem genuine_smile_is_genuine_witness:
  "\<exists>s1. ged_track
           ((ged_init 90 0.3 0.3)\<lparr>current_emotion := ''happiness'',
              emotion_start_time := Some 10, au_intensity_history := (\<lambda>au. replicate 9 4)\<rparr>)
           ''happiness''
           [(''AU6'', \<lparr>ga_intensity = Some 3, ga_active = Some True\<rparr>),
            (''AU12'', \<lparr>ga_intensity = Some 4, ga_active = Some True\<rparr>)] 11 = Some s1 \<and>
         emotion_duration s1 = 1 \<and>
         au_intensity_history s1 ''AU12'' = replicate 10 4 \<and>
         (\<exists>s' r. ged_analyze
            ((ged_init 90 0.3 0.3)\<lparr>current_emotion := ''happiness'',
               emotion_start_time := Some 10, au_intensity_history := (\<lambda>au. replicate 9 4)\<rparr>)
            ''happiness''
            [(''AU6'', \<lparr>ga_intensity = Some 3, ga_active = Some True\<rparr>),
             (''AU12'', \<lparr>ga_intensity = Some 4, ga_active = Some True\<rparr>)] 11 = Some (s', r) \<and>
            gr_is_genuine r \<and> 0.6 \<le> gr_genuineness_score r)"
proof -
  let ?s = "(ged_init 90 0.3 0.3)\<lparr>current_emotion := ''happiness'',
              emotion_start_time := Some 10, au_intensity_history := (\<lambda>au. replicate 9 4)\<rparr>"
  let ?au = "[(''AU6'', \<lparr>ga_intensity = Some 3, ga_active = Some True\<rparr>),
            (''AU12'', \<lparr>ga_intensity = Some 4, ga_active = Some True\<rparr>)]"
  have app: "deque_append 90 (replicate 9 (4::real)) 4 = replicate 10 4"
    by (simp add: deque_append_def numeral_eq_Suc replicate_app_Cons_same)
  obtain s1 where tr: "ged_track ?s ''happiness'' ?au 11 = Some s1"
    by (simp add: ged_track_def ged_tracked_aus_def Let_def ged_init_def)
  from tr have d: "emotion_duration s1 = 1"
    by (auto simp: ged_track_def ged_tracked_aus_def Let_def ged_init_def)
  from tr have h: "au_intensity_history s1 ''AU12'' = replicate 10 4"
    by (auto simp: ged_track_def ged_tracked_aus_def Let_def ged_init_def app)
  from tr have th: "onset_threshold s1 = 0.3"
    by (auto simp: ged_track_def ged_tracked_aus_def Let_def ged_init_def)
  have sm: "\<forall>d \<in> set (np_diff (last_n 10 (au_intensity_history s1 ''AU12''))).
              \<bar>d\<bar> < onset_threshold s1"
    unfolding h th by (auto simp: last_n_def np_diff_def dest!: set_zip_leftD set_zip_rightD in_set_zipE)
  have "\<exists>s' r. ged_analyze ?s ''happiness'' ?au 11 = Some (s', r) \<and>
           gr_is_genuine r \<and> 0.6 \<le> gr_genuineness_score r"
    by (rule genuine_smile_is_genuine [where ?d6.0 = "\<lparr>ga_intensity = Some 3, ga_active = Some True\<rparr>"
          and ?d12.0 = "\<lparr>ga_intensity = Some 4, ga_active = Some True\<rparr>" and ?i6.0 = 3 and ?i12.0 = 4
          and ?s1.0 = s1, OF _ _ _ _ _ _ _ _ tr _ _ sm]) (simp_all add: d)
  with tr d h show ?thesis by blast
qed

subsection \<open>C6: the division by the baseline\<close>

text \<open>
  C6: every division by a baseline value has its divisor floored to a small positive
  epsilon, so that the intensity stays bounded for baselines close to 0. The advanced
  detector divides only when the baseline's magnitude exceeds \<open>1e-6\<close> and reports a level
  between 0 and 5 (\<open>adv_calculate_intensity_range\<close>). The basic detector tests only
  \<^verbatim>\<open>baseline_value != 0\<close> and reports the quotient itself, which exceeds every bound
  (\<open>aud_intensity_unbounded\<close>). The run below shows it: one calibration frame with the mouth
  corners 0.001 above the lip centre sets the baseline of AU12 to 0.001; on the next frame
  the corners are 0.101 above it, and the detector reports intensity 100 for AU12.
\<close>

theorem aud_near_zero_baseline_intensity:
  "\<exists>s1 r1 s2 r2.
     aud_detect (aud_init 1) flat_mouth_frame = Some (s1, r1) \<and>
     aud_baseline_calibrated s1 \<and>
     map_of (aud_baseline s1) ''AU12'' = Some (1 / 1000) \<and>
     aud_detect s1 lifted_mouth_frame = Some (s2, r2) \<and>
     map_of (aud_au_intensities r2) ''AU12'' = Some 100"
proof -
  let ?s0 = "aud_update_baseline (aud_init 1) flat_mouth_frame"
  from aud_detect_loop_intensities [OF frames_keys(1) frames_keys(3), of ?s0 "[]" "[]"]
  obtain s1 acts1 ints1 where
    l1: "aud_detect_loop ?s0 flat_mouth_frame [] [] = Some (s1, acts1, ints1)"
    and b1: "aud_baseline s1 = aud_baseline ?s0"
    and c1: "aud_baseline_calibrated s1 = aud_baseline_calibrated ?s0"
    by blast
  from b1 c1 flat_mouth_calibrates
  have cal: "aud_baseline_calibrated s1" and base: "aud_baseline s1 = flat_mouth_frame"
    by simp_all
  have d1: "aud_detect (aud_init 1) flat_mouth_frame =
      Some (s1, \<lparr>aud_au_activations = acts1, aud_au_intensities = ints1,
                 aud_micro_expressions = aud_classify_micro_expressions acts1 ints1\<rparr>)"
  proof -
    have "\<not> aud_baseline_calibrated (aud_init 1)" by (simp add: aud_init_def)
    with l1 show ?thesis unfolding aud_detect_def by (simp add: Let_def)
  qed
  from aud_detect_loop_intensities [OF frames_keys(2) frames_keys(4), of s1 "[]" "[]"]
  obtain s2 acts2 ints2 where
    l2: "aud_detect_loop s1 lifted_mouth_frame [] [] = Some (s2, acts2, ints2)"
    and i2: "\<forall>(au, f) \<in> set lifted_mouth_frame.
        map_of ints2 au =
          Some (let b = opt_default f (map_of (aud_baseline s1) au)
                in if b \<noteq> 0 then (f - b) / \<bar>b\<bar> else 0)"
    by blast
  have bv: "map_of (aud_baseline s1) ''AU12'' = Some (1 / 1000)"
    unfolding base by (simp add: flat_mouth_frame_def)
  from i2 frames_keys(5)
  have "map_of ints2 ''AU12'' =
          Some (let b = opt_default (101 / 1000) (map_of (aud_baseline s1) ''AU12'')
                in if b \<noteq> 0 then (101 / 1000 - b) / \<bar>b\<bar> else 0)"
    by fast
  then have v: "map_of ints2 ''AU12'' = Some 100"
    unfolding bv by (simp add: opt_default_def)
  have d2: "aud_detect s1 lifted_mouth_frame =
      Some (s2, \<lparr>aud_au_activations = acts2, aud_au_intensities = ints2,
                 aud_micro_expressions = aud_classify_micro_expressions acts2 ints2\<rparr>)"
    unfolding aud_detect_def using cal by (simp add: l2)
  from d1 cal bv d2 v show ?thesis by simp
qed

subsection \<open>C7: too short a history gives the status insufficient_data\<close>

text \<open>
  C7. With fewer than 300 entries in the emotion history, \<^verbatim>\<open>PHQ9Assessor.assess\<close> returns
  the status \<open>insufficient_data\<close> (and leaves the assessor unchanged); with fewer than
  \<^verbatim>\<open>short_window\<close> entries, \<^verbatim>\<open>TemporalFeatureAnalyzer.analyze\<close> returns the status
  \<open>insufficient_data\<close>. Both results are a constructor of their own, which carries no
  score.
\<close>

theorem insufficient_history_status:
  "(length (emotion_history s) < 300 \<longrightarrow> phq9_assess s = Some (s, Insufficient_data)) \<and>
   (int (length (tfa_emotion_history t)) < short_window t \<longrightarrow>
      tfa_analyze t = Tfa_insufficient_data)"
  by (simp add: phq9_assess_def tfa_analyze_def)

theorem insufficient_history_status_witness:
  "length (emotion_history (phq9_init 1800)) < 300 \<and>
   phq9_assess (phq9_init 1800) = Some (phq9_init 1800, Insufficient_data) \<and>
   int (length (tfa_emotion_history (tfa_init 300 90 900))) < short_window (tfa_init 300 90 900) \<and>
   tfa_analyze (tfa_init 300 90 900) = Tfa_insufficient_data"
  using insufficient_history_status [of "phq9_init 1800" "tfa_init 300 90 900"]
  by (simp add: phq9_init_def tfa_init_def)

subsection \<open>C8: smoothing a constant window\<close>

text \<open>
  C8. When an AU's two windows of the advanced detector are full (\<open>w\<close> entries, \<open>w\<close>
  positive) of one intensity \<open>i\<close> and one activation \<open>a\<close>, pushing \<open>(i, a)\<close> again any
  number of times (\<open>w\<close> times in particular) leaves the windows as they are, and every
  push reports the same smoothed intensity, the mean \<open>i\<close>, and the same smoothed
  activation, the vote over the window. The five-entry window of the basic detector is
  unchanged by such a push as well.
\<close>

theorem smoothing_idempotent:
  assumes "0 < w"
  shows "((\<lambda>win. fst (adv_smooth_push w win (i, a))) ^^ n) (replicate w i, replicate w a) =
           (replicate w i, replicate w a) \<and>
         snd (adv_smooth_push w
                (((\<lambda>win. fst (adv_smooth_push w win (i, a))) ^^ n)
                   (replicate w i, replicate w a)) (i, a)) =
           (np_mean (replicate w i), majority_vote (replicate w a)) \<and>
         np_mean (replicate w i) = i \<and>
         deque_append 5 (replicate 5 a) a = replicate 5 a"
proof -
  have same: "((\<lambda>win. fst (adv_smooth_push w win (i, a))) ^^ n) (replicate w i, replicate w a) =
           (replicate w i, replicate w a)"
    by (induction n) (simp_all add: adv_smooth_push_constant)
  show ?thesis
    unfolding same using assms
    by (simp add: adv_smooth_push_constant np_mean_replicate deque_append_full_constant)
qed

theorem smoothing_idempotent_witness:
  "((\<lambda>win. fst (adv_smooth_push 7 win (3, True))) ^^ 7) (replicate 7 3, replicate 7 True) =
     (replicate 7 3, replicate 7 True) \<and>
   snd (adv_smooth_push 7
          (((\<lambda>win. fst (adv_smooth_push 7 win (3, True))) ^^ 7)
             (replicate 7 3, replicate 7 True)) (3, True)) = (3, True)"
proof -
  have v: "majority_vote (replicate 7 True)"
    by (simp add: majority_vote_def count_where_replicate)
  have "(0::nat) < 7" by simp
  from smoothing_idempotent [OF this, where i = 3 and a = True and n = 7]
  have a: "((\<lambda>win. fst (adv_smooth_push 7 win (3, True))) ^^ 7)
             (replicate 7 3, replicate 7 True) = (replicate 7 3, replicate 7 True)"
    and b: "snd (adv_smooth_push 7
          (((\<lambda>win. fst (adv_smooth_push 7 win (3, True))) ^^ 7)
             (replicate 7 3, replicate 7 True)) (3, True)) =
          (np_mean (replicate 7 3), majority_vote (replicate 7 True))"
    and c: "np_mean (replicate 7 (3::real)) = 3"
    by blast+
  from b have "snd (adv_smooth_push 7
          (((\<lambda>win. fst (adv_smooth_push 7 win (3, True))) ^^ 7)
             (replicate 7 3, replicate 7 True)) (3, True)) = (3, True)"
    unfolding c using v by simp
  with a show ?thesis by blast
qed

subsection \<open>C9: adaptive thresholds stay bounded\<close>

text \<open>
  C9 as the specification states it: every update changes a threshold by a factor of at
  most 1.01 and at least 0.99, and the threshold stays between half and twice its initial
  value. The second half holds; the first does not hold of the doubles that the detector
  computes. A detector with one calibration frame and a window of seven sees the face at
  rest 100 times. After 99 frames the threshold of AU1 is the double 0.06; frame 100 is the
  first to adapt, the activation rate 1/100 lies below 0.05, and \<^verbatim>\<open>0.06 * 0.99\<close> is rounded
  to 0.059399999999999994, which is less than 0.99 times the threshold before.
\<close>

theorem adaptive_threshold_factor_counterexample:
  "adv_baseline_calibrated (adv_run (adv_init 1 True 7) (replicate 99 rest_frame)) \<and>
   thresholds (adv_run (adv_init 1 True 7) (replicate 99 rest_frame)) ''AU1'' =
     8646911284551352 / 2 ^ 57 \<and>
   thresholds (fst (adv_detect (adv_run (adv_init 1 True 7) (replicate 99 rest_frame))
                      rest_frame)) ''AU1'' = 8560442171705838 / 2 ^ 57 \<and>
   thresholds (fst (adv_detect (adv_run (adv_init 1 True 7) (replicate 99 rest_frame))
                      rest_frame)) ''AU1''
     < 0.99 * thresholds (adv_run (adv_init 1 True 7) (replicate 99 rest_frame)) ''AU1''"
proof -
  note r = rest_run_adapts
  have "(8560442171705838 / 2 ^ 57 :: real) < 0.99 * (8646911284551352 / 2 ^ 57)" by simp
  with r show ?thesis by simp
qed

text \<open>
  C9, amended. Let \<open>s\<close> be the state of an \<^verbatim>\<open>AdvancedAUDetector\<close> after any sequence of
  frames, and \<open>s'\<close> its state after one more call of \<^verbatim>\<open>detect\<close> (which adapts the thresholds
  at most once). For every AU of \<^verbatim>\<open>AU_DEFINITIONS\<close> the threshold changes by a factor
  between 0.99 and 1.01 up to the rounding of the product, a relative error of at most
  \<^verbatim>\<open>2**-51\<close>, and it lies between half and twice the AU's initial threshold, before and
  after the call.
\<close>

theorem adaptive_thresholds_bounded:
  assumes "au \<in> set AU_DEFINITIONS"
    and "s = adv_run (adv_init n adaptive w) frames"
    and "s' = fst (adv_detect s au_features)"
  shows "0.99 * (1 - 1 / 2 ^ 51) * thresholds s au \<le> thresholds s' au \<and>
         thresholds s' au \<le> 1.01 * (1 + 1 / 2 ^ 51) * thresholds s au \<and>
         0.5 * INITIAL_THRESHOLDS au \<le> thresholds s' au \<and>
         thresholds s' au \<le> 2 * INITIAL_THRESHOLDS au \<and>
         0.5 * INITIAL_THRESHOLDS au \<le> thresholds s au \<and>
         thresholds s au \<le> 2 * INITIAL_THRESHOLDS au"
proof -
  have inv: "thresholds_in_range s"
    unfolding assms(2) by (rule adv_run_thresholds_in_range [OF adv_init_thresholds_in_range])
  from adv_detect_threshold_step [OF inv, of au_features au]
  have "thresholds_in_range s'" and
    "0.99 * (1 - 1 / 2 ^ 51) * thresholds s au \<le> thresholds s' au" and
    "thresholds s' au \<le> 1.01 * (1 + 1 / 2 ^ 51) * thresholds s au"
    unfolding assms(3) by simp_all
  with inv show ?thesis by (simp add: thresholds_in_range_def mult.commute)
qed

theorem adaptive_thresholds_bounded_witness:
  "''AU1'' \<in> set AU_DEFINITIONS \<and>
   thresholds (adv_run (adv_init 1 True 7) (replicate 99 rest_frame)) ''AU1'' =
     8646911284551352 / 2 ^ 57 \<and>
   thresholds (fst (adv_detect (adv_run (adv_init 1 True 7) (replicate 99 rest_frame))
                      rest_frame)) ''AU1'' = 8560442171705838 / 2 ^ 57 \<and>
   0.99 * (1 - 1 / 2 ^ 51) *
       thresholds (adv_run (adv_init 1 True 7) (replicate 99 rest_frame)) ''AU1''
     \<le> thresholds (fst (adv_detect (adv_run (adv_init 1 True 7) (replicate 99 rest_frame))
                          rest_frame)) ''AU1'' \<and>
   thresholds (fst (adv_detect (adv_run (adv_init 1 True 7) (replicate 99 rest_frame))
                      rest_frame)) ''AU1''
     \<le> 1.01 * (1 + 1 / 2 ^ 51) *
         thresholds (adv_run (adv_init 1 True 7) (replicate 99 rest_frame)) ''AU1'' \<and>
   0.5 * INITIAL_THRESHOLDS ''AU1''
     \<le> thresholds (fst (adv_detect (adv_run (adv_init 1 True 7) (replicate 99 rest_frame))
                          rest_frame)) ''AU1'' \<and>
   thresholds (fst (adv_detect (adv_run (adv_init 1 True 7) (replicate 99 rest_frame))
                      rest_frame)) ''AU1''
     \<le> 2 * INITIAL_THRESHOLDS ''AU1''"
proof -
  have m: "''AU1'' \<in> set AU_DEFINITIONS" by (simp add: AU_DEFINITIONS_def)
  from adaptive_thresholds_bounded [OF m refl refl, of 1 True 7 "replicate 99 rest_frame"
      rest_frame] m rest_run_adapts(1,2)
  show ?thesis by blast
qed

subsection \<open>C10: item 9 of the PHQ-9 assessor is 0 or 1\<close>

text \<open>
  C10. \<^verbatim>\<open>PHQ9Assessor._assess_suicidal_ideation\<close> returns 0 or 1 on every history it
  returns on (it raises on the empty history only), so in every assessment item 9 is at
  most 1, and the total is the sum of the nine items.
\<close>

theorem phq9_item9_at_most_one:
  "(phq9_assess_suicidal_ideation s = None \<longleftrightarrow> emotion_history s = []) \<and>
   (\<forall>n. phq9_assess_suicidal_ideation s = Some n \<longrightarrow> n = 0 \<or> n = 1) \<and>
   (\<forall>s' a. phq9_assess s = Some (s', Assessment a) \<longrightarrow>
      items_get (phq9_items a) ''PHQ9'' \<le> 1 \<and>
      phq9_total_score a = sum_list (map snd (phq9_items a)))"
proof (intro conjI allI impI)
  show "phq9_assess_suicidal_ideation s = None \<longleftrightarrow> emotion_history s = []"
    by (simp add: phq9_assess_suicidal_ideation_def Let_def)
next
  fix n assume "phq9_assess_suicidal_ideation s = Some n"
  with phq9_suicidal_cases [of s] show "n = 0 \<or> n = 1" by auto
next
  fix s' a assume a: "phq9_assess s = Some (s', Assessment a)"
  then obtain i1 i2 i9 where
    i9: "phq9_assess_suicidal_ideation s = Some i9" and
    items: "phq9_items a =
      [(''PHQ1'', i1), (''PHQ2'', i2), (''PHQ3'', phq9_assess_sleep_problems s),
       (''PHQ4'', phq9_assess_fatigue s), (''PHQ5'', phq9_assess_appetite_change s),
       (''PHQ6'', phq9_assess_guilt s), (''PHQ7'', phq9_assess_concentration s),
       (''PHQ8'', phq9_assess_psychomotor s), (''PHQ9'', i9)]" and
    tot: "phq9_total_score a = sum_list (map snd (phq9_items a))"
    by (auto simp: phq9_assess_def Let_def split: if_splits bind_splits)
  from i9 phq9_suicidal_cases [of s] have "i9 \<le> 1" by auto
  then show "items_get (phq9_items a) ''PHQ9'' \<le> 1" by (simp add: items items_get_def)
  from tot show "phq9_total_score a = sum_list (map snd (phq9_items a))" .
qed

theorem phq9_item9_at_most_one_witness:
  "phq9_assess_suicidal_ideation
     ((phq9_init 1800)\<lparr>emotion_history :=
        replicate 300 \<lparr>pe_emotion = Some ''sad'', pe_confidence = Some 0.95,
                       pe_timestamp = 0\<rparr>\<rparr>) = Some 1 \<and>
   (\<exists>s' a. phq9_assess
       ((phq9_init 1800)\<lparr>emotion_history :=
          replicate 300 \<lparr>pe_emotion = Some ''sad'', pe_confidence = Some 0.95,
                         pe_timestamp = 0\<rparr>\<rparr>) = Some (s', Assessment a) \<and>
      items_get (phq9_items a) ''PHQ9'' \<le> 1)"
proof -
  let ?s = "(phq9_init 1800)\<lparr>emotion_history :=
        replicate 300 \<lparr>pe_emotion = Some ''sad'', pe_confidence = Some 0.95,
                       pe_timestamp = 0\<rparr>\<rparr>"
  have one: "phq9_assess_suicidal_ideation ?s = Some 1"
    by (simp add: phq9_assess_suicidal_ideation_def count_where_replicate)
  have "300 \<le> length (emotion_history ?s)" by simp
  from phq9_assess_enough [OF this] obtain s' a where
    run: "phq9_assess ?s = Some (s', Assessment a)" by blast
  with phq9_item9_at_most_one [of ?s] have "items_get (phq9_items a) ''PHQ9'' \<le> 1"
    by blast
  with one run show ?thesis by blast
qed

end
